theory Spec2Isabelle
  imports Complex_Main "HOL-Library.Word"
begin

unbundle bit_operations_syntax

section \<open>JavaScript values\<close>

text \<open>
  The services are TypeScript over payloads of type \<^verbatim>\<open>any\<close> and over rows returned by
  the ORM, so values are modelled dynamically. Numbers are integers (no payload field the
  services compute with is fractional); \<open>JInvalidDate\<close> is a Date whose time value is NaN.
  An object is the list of its own properties in enumeration order, no key twice.
\<close>

datatype jsval =
    JUndefined
  | JNull
  | JBool bool
  | JNum int
  | JStr string
  | JDate int
  | JInvalidDate
  | JArr "jsval list"
  | JObj "(string \<times> jsval) list"

datatype js_error =
    TypeError | RangeError | SyntaxError | RecordNotFound | ForeignKeyViolation | Error string

text \<open>The message read by \<^verbatim>\<open>error instanceof Error ? error.message : String(error)\<close>.\<close>

fun errorMessage :: "js_error \<Rightarrow> string" where
  "errorMessage (Error m) = m"
| "errorMessage TypeError = ''TypeError''"
| "errorMessage RangeError = ''Invalid time value''"
| "errorMessage SyntaxError = ''SyntaxError''"
| "errorMessage RecordNotFound = ''Record to update not found.''"
| "errorMessage ForeignKeyViolation = ''Foreign key constraint failed''"

text \<open>ToBoolean.\<close>

fun truthy :: "jsval \<Rightarrow> bool" where
  "truthy JUndefined = False"
| "truthy JNull = False"
| "truthy (JBool b) = b"
| "truthy (JNum n) = (n \<noteq> 0)"
| "truthy (JStr s) = (s \<noteq> [])"
| "truthy _ = True"

text \<open>\<^verbatim>\<open>a || b\<close>.\<close>

definition jsOr :: "jsval \<Rightarrow> jsval \<Rightarrow> jsval" where
  "jsOr a b = (if truthy a then a else b)"

text \<open>
  Property read \<^verbatim>\<open>v.k\<close>. A read on a primitive finds no own property; the services
  guard every read on a possibly null value (\<^verbatim>\<open>accRfi.response && accRfi.response.text\<close>).
\<close>

fun jsGet :: "jsval \<Rightarrow> string \<Rightarrow> jsval" where
  "jsGet (JObj kvs) k = (case map_of kvs k of Some v \<Rightarrow> v | None \<Rightarrow> JUndefined)"
| "jsGet _ k = JUndefined"

text \<open>
  Strict equality \<^verbatim>\<open>===\<close>: primitives compare by value, objects by identity. The objects
  compared by the services come from different sources (a database row and a payload), so
  two objects are never identical.
\<close>

fun isPrimitive :: "jsval \<Rightarrow> bool" where
  "isPrimitive JUndefined = True"
| "isPrimitive JNull = True"
| "isPrimitive (JBool b) = True"
| "isPrimitive (JNum n) = True"
| "isPrimitive (JStr s) = True"
| "isPrimitive _ = False"

definition strictEq :: "jsval \<Rightarrow> jsval \<Rightarrow> bool" where
  "strictEq a b = (isPrimitive a \<and> a = b)"

subsection \<open>JSON.stringify\<close>

definition hexDigit :: "nat \<Rightarrow> char" where
  "hexDigit n = ''0123456789abcdef'' ! n"

definition escapeChar :: "char \<Rightarrow> string" where
  "escapeChar c =
    (let n = (of_char c :: nat) in
     if n = 0x22 then [CHR 0x5C, CHR 0x22]
     else if n = 0x5C then [CHR 0x5C, CHR 0x5C]
     else if n = 0x08 then [CHR 0x5C, CHR ''b'']
     else if n = 0x0C then [CHR 0x5C, CHR ''f'']
     else if n = 0x0A then [CHR 0x5C, CHR ''n'']
     else if n = 0x0D then [CHR 0x5C, CHR ''r'']
     else if n = 0x09 then [CHR 0x5C, CHR ''t'']
     else if n < 0x20 then
       [CHR 0x5C, CHR ''u'', CHR ''0'', CHR ''0'', hexDigit (n div 16), hexDigit (n mod 16)]
     else [c])"

definition quoteJSONString :: "string \<Rightarrow> string" where
  "quoteJSONString s = [CHR 0x22] @ concat (map escapeChar s) @ [CHR 0x22]"

fun showNat :: "nat \<Rightarrow> string" where
  "showNat n = (if n < 10 then [hexDigit n] else showNat (n div 10) @ [hexDigit (n mod 10)])"

declare showNat.simps [simp del]

definition showInt :: "int \<Rightarrow> string" where
  "showInt i = (if i < 0 then ''-'' @ showNat (nat (- i)) else showNat (nat i))"

fun joinWith :: "string \<Rightarrow> string list \<Rightarrow> string" where
  "joinWith sep [] = []"
| "joinWith sep [x] = x"
| "joinWith sep (x # y # ys) = x @ sep @ joinWith sep (y # ys)"

text \<open>
  The serialisation of a value inside an object or array (the services only ever pass
  objects and arrays): a property whose value is undefined is left out, an undefined
  array element prints as null, a Date prints its ISO string (\<open>fmt\<close>).
\<close>

fun JSON_stringify :: "(int \<Rightarrow> string) \<Rightarrow> jsval \<Rightarrow> string" where
  "JSON_stringify fmt JUndefined = ''null''"
| "JSON_stringify fmt JNull = ''null''"
| "JSON_stringify fmt (JBool b) = (if b then ''true'' else ''false'')"
| "JSON_stringify fmt (JNum n) = showInt n"
| "JSON_stringify fmt (JStr s) = quoteJSONString s"
| "JSON_stringify fmt (JDate t) = quoteJSONString (fmt t)"
| "JSON_stringify fmt JInvalidDate = ''null''"
| "JSON_stringify fmt (JArr xs) = ''['' @ joinWith '','' (map (JSON_stringify fmt) xs) @ '']''"
| "JSON_stringify fmt (JObj kvs) =
     ''{'' @ joinWith '',''
        (map (\<lambda>(k, v). quoteJSONString k @ '':'' @ JSON_stringify fmt v)
           (filter (\<lambda>(k, v). v \<noteq> JUndefined) kvs)) @ ''}''"

subsection \<open>Numbers\<close>

text \<open>
  The arithmetic of the services is that of double-precision numbers. A number is a
  rational, an infinity or NaN; the two zeros are one value here (the sign of a zero
  reaches neither a Date nor a stored column). \<open>roundDouble\<close> is the rounding every
  operation ends with: to the nearest value with 53 significant bits and an exponent in
  the range of the format, a tie to the even significand, beyond the largest value to
  infinity. \<open>floorLog2\<close> is the binary exponent of a positive rational.
\<close>

datatype number = Finite rat | PosInf | NegInf | NaN

function bitLength :: "int \<Rightarrow> int" where
  "bitLength n = (if n \<le> 0 then 0 else 1 + bitLength (n div 2))"
  by pat_completeness auto

termination
  by (relation "measure nat") auto

declare bitLength.simps [simp del]

definition floorLog2 :: "rat \<Rightarrow> int" where
  "floorLog2 q =
    (case quotient_of q of
       (a, b) \<Rightarrow>
         let e = bitLength a - bitLength b in
         if 2 powi e \<le> q then e else e - 1)"

definition roundHalfEven :: "rat \<Rightarrow> int" where
  "roundHalfEven r =
    (let f = \<lfloor>r\<rfloor>; d = r - of_int f in
     if d < 1 / 2 then f else if 1 / 2 < d then f + 1 else if even f then f else f + 1)"

definition roundDouble :: "rat \<Rightarrow> number" where
  "roundDouble q =
    (if q = 0 then Finite 0
     else
       let k = max (floorLog2 \<bar>q\<bar> - 52) (- 1074);
           r = of_int (roundHalfEven (\<bar>q\<bar> / 2 powi k)) * 2 powi k in
       if 2 ^ 1024 \<le> r then (if 0 < q then PosInf else NegInf)
       else Finite (if 0 < q then r else - r))"

text \<open>
  The operators \<^verbatim>\<open>+\<close>, \<^verbatim>\<open>-\<close>, \<^verbatim>\<open>*\<close> and \<^verbatim>\<open>/\<close> on numbers. A zero divisor is read as
  the positive zero; the services divide by the constant 100 only.
\<close>

fun nneg :: "number \<Rightarrow> number" where
  "nneg (Finite a) = Finite (- a)"
| "nneg PosInf = NegInf"
| "nneg NegInf = PosInf"
| "nneg NaN = NaN"

fun nadd :: "number \<Rightarrow> number \<Rightarrow> number" where
  "nadd (Finite a) (Finite b) = roundDouble (a + b)"
| "nadd NaN y = NaN"
| "nadd x NaN = NaN"
| "nadd (Finite a) y = y"
| "nadd x (Finite b) = x"
| "nadd x y = (if x = y then x else NaN)"

definition nsub :: "number \<Rightarrow> number \<Rightarrow> number" where
  "nsub x y = nadd x (nneg y)"

fun nmul :: "number \<Rightarrow> number \<Rightarrow> number" where
  "nmul (Finite a) (Finite b) = roundDouble (a * b)"
| "nmul NaN y = NaN"
| "nmul x NaN = NaN"
| "nmul (Finite a) y = (if a = 0 then NaN else if (0 < a) = (y = PosInf) then PosInf else NegInf)"
| "nmul x (Finite b) = (if b = 0 then NaN else if (0 < b) = (x = PosInf) then PosInf else NegInf)"
| "nmul x y = (if x = y then PosInf else NegInf)"

fun ndiv :: "number \<Rightarrow> number \<Rightarrow> number" where
  "ndiv (Finite a) (Finite b) =
    (if b = 0 then (if a = 0 then NaN else if 0 < a then PosInf else NegInf)
     else roundDouble (a / b))"
| "ndiv NaN y = NaN"
| "ndiv x NaN = NaN"
| "ndiv (Finite a) y = Finite 0"
| "ndiv x (Finite b) = (if (0 \<le> b) = (x = PosInf) then PosInf else NegInf)"
| "ndiv x y = NaN"

text \<open>The integral part of a rational, the fraction cut off towards zero.\<close>

definition truncToZero :: "rat \<Rightarrow> int" where
  "truncToZero q = (if q < 0 then - \<lfloor>- q\<rfloor> else \<lfloor>q\<rfloor>)"

subsection \<open>Library functions taken as parameters\<close>

text \<open>
  The digest, the JSON parser, the Date constructor and formatter, the id generator and
  \<^verbatim>\<open>path.basename\<close> belong to the platform, not to the repository; they are parameters
  of the model. \<open>parseDate\<close> gives the time value of \<^verbatim>\<open>new Date(v)\<close> (\<open>None\<close> for NaN),
  \<open>JSON_parse\<close> gives \<open>None\<close> where \<^verbatim>\<open>JSON.parse\<close> throws. \<open>coerceNumber\<close> is the
  language's conversion of a string, an array or an object to a number (ToNumber), which
  parses the text of the value and throws a TypeError on an object that cannot be
  converted.
\<close>

record runtime =
  sha256 :: "string \<Rightarrow> 256 word"
  JSON_parse :: "string \<Rightarrow> jsval option"
  parseDate :: "jsval \<Rightarrow> int option"
  toISOString :: "int \<Rightarrow> string"
  cuid :: "nat \<Rightarrow> string"
  basename :: "string \<Rightarrow> string"
  coerceNumber :: "jsval \<Rightarrow> js_error + number"

definition stringify :: "runtime \<Rightarrow> jsval \<Rightarrow> string" where
  "stringify rt v = JSON_stringify (toISOString rt) v"

definition newDate :: "runtime \<Rightarrow> jsval \<Rightarrow> jsval" where
  "newDate rt v = (case parseDate rt v of Some t \<Rightarrow> JDate t | None \<Rightarrow> JInvalidDate)"

text \<open>\<^verbatim>\<open>.digest('hex')\<close>: the 32 bytes as 64 lower-case hexadecimal digits.\<close>

definition hexDigest :: "256 word \<Rightarrow> string" where
  "hexDigest w = map (\<lambda>i. hexDigit (unat (drop_bit (4 * (63 - i)) w AND 15))) [0..<64]"

section \<open>The store\<close>

text \<open>
  A row maps column names to values; a column that holds nothing reads as null. The
  persistent store is a collaborator of the services: its writes are taken to succeed, and
  the checks it makes on the written values are not modelled. \<open>applyData\<close> is the ORM's
  reading of a \<^verbatim>\<open>data\<close> object literal: a property whose value is undefined is not written.
\<close>

type_synonym row = "string \<Rightarrow> jsval"

type_synonym data = "(string \<times> jsval) list"

definition emptyRow :: row where
  "emptyRow = (\<lambda>c. JNull)"

definition applyData :: "data \<Rightarrow> row \<Rightarrow> row" where
  "applyData d r =
    (\<lambda>c. case map_of d c of
            Some v \<Rightarrow> if v = JUndefined then r c else v
          | None \<Rightarrow> r c)"

definition createRow :: "data \<Rightarrow> row \<Rightarrow> row" where
  "createRow d defaults = applyData d defaults"

definition updateWhere :: "(row \<Rightarrow> bool) \<Rightarrow> data \<Rightarrow> row list \<Rightarrow> row list" where
  "updateWhere p d rows = map (\<lambda>r. if p r then applyData d r else r) rows"

type_synonym logEntry = "string \<times> data \<times> string"

record world =
  rfis :: "row list"
  submittals :: "row list"
  rfiAssignments :: "row list"
  submittalAssignments :: "row list"
  comments :: "row list"
  statusHistory :: "row list"
  auditLog :: "row list"
  notifications :: "row list"
  projects :: "row list"
  projectMemberships :: "row list"
  users :: "row list"
  accProjectLinks :: "row list"
  logs :: "logEntry list"
  accCalls :: "(string \<times> jsval list) list"

definition logged :: "string \<Rightarrow> data \<Rightarrow> string \<Rightarrow> world \<Rightarrow> world" where
  "logged level ctx msg s = s\<lparr>logs := logs s @ [(level, ctx, msg)]\<rparr>"

text \<open>
  Modelled from the spec: schema.prisma is not among the sources. The column defaults of a
  created Rfi or Submittal row are taken from the schema excerpt quoted in
  ADMIN_RESPONSE_IMPLEMENTATION.md (\<^verbatim>\<open>hasManualResponse Boolean @default(false)\<close>, the
  other manual-response columns nullable), from the spec's data model (sync metadata
  starts as "no unacknowledged change") and from its state machine (first state
  UNASSIGNED). The id is generated.
\<close>

definition mirrorDefaults :: "runtime \<Rightarrow> nat \<Rightarrow> row" where
  "mirrorDefaults rt n =
    applyData
      [(''id'', JStr (cuid rt n)),
       (''internalStatus'', JStr ''UNASSIGNED''),
       (''hasUnacknowledgedChange'', JBool False),
       (''hasManualResponse'', JBool False),
       (''isDeleted'', JBool False)]
      emptyRow"

section \<open>Synchronisation (enhancedSyncService.ts)\<close>

definition projectedFields :: "string list" where
  "projectedFields =
    [''status'', ''dueDate'', ''title'', ''description'', ''priority'', ''assignedTo'',
     ''updatedAt'']"

definition relevantData :: "jsval \<Rightarrow> jsval" where
  "relevantData d =
    JObj [(''status'', jsGet d ''status''),
          (''dueDate'', jsGet d ''dueDate''),
          (''title'', jsGet d ''title''),
          (''description'', jsGet d ''description''),
          (''priority'', jsGet d ''priority''),
          (''assignedTo'', jsGet d ''assignedTo''),
          (''updatedAt'', jsGet d ''updatedAt'')]"

definition hashAccData :: "runtime \<Rightarrow> jsval \<Rightarrow> string" where
  "hashAccData rt d = hexDigest (sha256 rt (stringify rt (relevantData d)))"

text \<open>
  \<^verbatim>\<open>detectChanges\<close>. \<^verbatim>\<open>existing.accDueDate?.toISOString()\<close> is undefined for a null
  column; \<^verbatim>\<open>new Date(accData.dueDate).toISOString()\<close> throws a RangeError when the
  payload's due date does not parse.
\<close>

definition changeOf :: "string \<Rightarrow> jsval \<Rightarrow> jsval \<Rightarrow> data" where
  "changeOf name old new =
    (if \<not> strictEq old new then [(name, JObj [(''old'', old), (''new'', new)])] else [])"

definition existingDueDate :: "runtime \<Rightarrow> row \<Rightarrow> js_error + jsval" where
  "existingDueDate rt existing =
    (case existing ''accDueDate'' of
       JNull \<Rightarrow> Inr JUndefined
     | JUndefined \<Rightarrow> Inr JUndefined
     | JDate t \<Rightarrow> Inr (JStr (toISOString rt t))
     | JInvalidDate \<Rightarrow> Inl RangeError
     | _ \<Rightarrow> Inl TypeError)"

definition newDueDate :: "runtime \<Rightarrow> jsval \<Rightarrow> js_error + jsval" where
  "newDueDate rt accData =
    (if truthy (jsGet accData ''dueDate'') then
       (case parseDate rt (jsGet accData ''dueDate'') of
          Some t \<Rightarrow> Inr (JStr (toISOString rt t))
        | None \<Rightarrow> Inl RangeError)
     else Inr JNull)"

definition detectChanges :: "runtime \<Rightarrow> row \<Rightarrow> jsval \<Rightarrow> js_error + jsval" where
  "detectChanges rt existing accData =
    (case existingDueDate rt existing of
       Inl e \<Rightarrow> Inl e
     | Inr oldDue \<Rightarrow>
         (case newDueDate rt accData of
            Inl e \<Rightarrow> Inl e
          | Inr newDue \<Rightarrow>
              Inr (JObj
                (changeOf ''status'' (existing ''accStatus'') (jsGet accData ''status'') @
                 changeOf ''title'' (existing ''title'') (jsGet accData ''title'') @
                 changeOf ''dueDate'' oldDue newDue @
                 changeOf ''priority'' (existing ''priority'') (jsGet accData ''priority'')))))"

text \<open>The manual-response check and the snapshot it captures, the same in both modules.\<close>

definition manualResponseDetected :: "row \<Rightarrow> jsval \<Rightarrow> bool" where
  "manualResponseDetected existing acc =
    (truthy (jsGet acc ''response'') \<and> truthy (jsGet (jsGet acc ''response'') ''text'') \<and>
     \<not> truthy (existing ''responseSentAt''))"

definition manualResponseSnapshot :: "runtime \<Rightarrow> int \<Rightarrow> jsval \<Rightarrow> jsval" where
  "manualResponseSnapshot rt now acc =
    JStr (stringify rt (JObj
      [(''status'', jsOr (jsGet (jsGet acc ''response'') ''status'') (jsGet acc ''status'')),
       (''text'', jsGet (jsGet acc ''response'') ''text''),
       (''respondedBy'', jsGet (jsGet acc ''response'') ''respondedBy''),
       (''respondedAt'', jsGet (jsGet acc ''response'') ''respondedAt''),
       (''detectedAt'', JStr (toISOString rt now))]))"

definition rfiCreateData :: "runtime \<Rightarrow> int \<Rightarrow> row \<Rightarrow> row \<Rightarrow> jsval \<Rightarrow> string \<Rightarrow> data" where
  "rfiCreateData rt now project accProjectLink accRfi accDataHash =
    [(''projectId'', project ''id''),
     (''accProjectLinkId'', accProjectLink ''id''),
     (''accRfiId'', jsGet accRfi ''id''),
     (''accNumber'', jsOr (jsGet accRfi ''number'') (jsGet accRfi ''id'')),
     (''title'', jsOr (jsGet accRfi ''title'') (JStr ''Untitled RFI'')),
     (''discipline'', jsGet accRfi ''discipline''),
     (''accStatus'', jsGet accRfi ''status''),
     (''priority'', jsGet accRfi ''priority''),
     (''accCreatedBy'', jsGet accRfi ''createdBy''),
     (''accAssignedTo'', JStr (stringify rt (jsOr (jsGet accRfi ''assignedTo'') (JArr [])))),
     (''accDueDate'',
        if truthy (jsGet accRfi ''dueDate'') then newDate rt (jsGet accRfi ''dueDate'') else JNull),
     (''accDescription'', jsGet accRfi ''description''),
     (''accContractorComments'', jsGet accRfi ''contractorComments''),
     (''accCreatedAt'', newDate rt (jsGet accRfi ''createdAt'')),
     (''accUpdatedAt'', newDate rt (jsOr (jsGet accRfi ''updatedAt'') (jsGet accRfi ''createdAt''))),
     (''accDataHash'', JStr accDataHash),
     (''firstSeenAt'', JDate now),
     (''lastSeenAt'', JDate now)]"

definition rfiUpdateData ::
  "runtime \<Rightarrow> int \<Rightarrow> jsval \<Rightarrow> string \<Rightarrow> bool \<Rightarrow> jsval \<Rightarrow> bool \<Rightarrow> jsval \<Rightarrow> data" where
  "rfiUpdateData rt now accRfi accDataHash hasUnacknowledgedChange changesSummary
      hasManualResponse manualResponseData =
    [(''title'', jsOr (jsGet accRfi ''title'') (JStr ''Untitled RFI'')),
     (''discipline'', jsGet accRfi ''discipline''),
     (''accStatus'', jsGet accRfi ''status''),
     (''priority'', jsGet accRfi ''priority''),
     (''accCreatedBy'', jsGet accRfi ''createdBy''),
     (''accAssignedTo'', JStr (stringify rt (jsOr (jsGet accRfi ''assignedTo'') (JArr [])))),
     (''accDueDate'',
        if truthy (jsGet accRfi ''dueDate'') then newDate rt (jsGet accRfi ''dueDate'') else JNull),
     (''accDescription'', jsGet accRfi ''description''),
     (''accContractorComments'', jsGet accRfi ''contractorComments''),
     (''accUpdatedAt'', newDate rt (jsOr (jsGet accRfi ''updatedAt'') (jsGet accRfi ''createdAt''))),
     (''accDataHash'', JStr accDataHash),
     (''hasUnacknowledgedChange'', JBool hasUnacknowledgedChange),
     (''lastAccChangeAt'', if hasUnacknowledgedChange then JDate now else JUndefined),
     (''changesSummary'',
        if hasUnacknowledgedChange then JStr (stringify rt changesSummary) else JUndefined),
     (''hasManualResponse'', if hasManualResponse then JBool True else JUndefined),
     (''manualResponseDetectedAt'', if hasManualResponse then JDate now else JUndefined),
     (''manualResponseData'', if hasManualResponse then manualResponseData else JUndefined),
     (''lastSeenAt'', JDate now)]"

definition rfiKey :: "row \<Rightarrow> jsval \<Rightarrow> row \<Rightarrow> bool" where
  "rfiKey accProjectLink accRfi r =
    (r ''accProjectLinkId'' = accProjectLink ''id'' \<and> r ''accRfiId'' = jsGet accRfi ''id'')"

definition processRfi ::
  "runtime \<Rightarrow> int \<Rightarrow> row \<Rightarrow> row \<Rightarrow> jsval \<Rightarrow> world \<Rightarrow> (js_error + bool) \<times> world" where
  "processRfi rt now project accProjectLink accRfi s =
    (let accDataHash = hashAccData rt accRfi in
     case find (rfiKey accProjectLink accRfi) (rfis s) of
       None \<Rightarrow>
         (Inr True,
          s\<lparr>rfis := rfis s @
             [createRow (rfiCreateData rt now project accProjectLink accRfi accDataHash)
                (mirrorDefaults rt (length (rfis s)))]\<rparr>)
     | Some existing \<Rightarrow>
         let hasUnacknowledgedChange = \<not> strictEq (existing ''accDataHash'') (JStr accDataHash) in
         (case (if hasUnacknowledgedChange then detectChanges rt existing accRfi else Inr JNull) of
            Inl e \<Rightarrow> (Inl e, s)
          | Inr changesSummary \<Rightarrow>
              let hasManualResponse = manualResponseDetected existing accRfi;
                  manualResponseData =
                    (if hasManualResponse then manualResponseSnapshot rt now accRfi else JNull);
                  s1 = (if hasManualResponse then
                          logged ''info''
                            [(''rfiId'', jsGet accRfi ''id''),
                             (''accNumber'', jsGet accRfi ''number''),
                             (''responseSentAt'', existing ''responseSentAt'')]
                            ''Manual response detected in ACC - requires admin confirmation'' s
                        else s);
                  s2 = s1\<lparr>rfis :=
                         updateWhere (rfiKey accProjectLink accRfi)
                           (rfiUpdateData rt now accRfi accDataHash hasUnacknowledgedChange
                              changesSummary hasManualResponse manualResponseData)
                           (rfis s1)\<rparr>;
                  s3 = (if hasUnacknowledgedChange then
                          s2\<lparr>statusHistory := statusHistory s2 @
                             [createRow
                                [(''rfiId'', existing ''id''),
                                 (''fieldName'', JStr ''accData''),
                                 (''oldValue'', existing ''accStatus''),
                                 (''newValue'', jsGet accRfi ''status''),
                                 (''changeReason'', JStr ''ACC sync detected change'')]
                                emptyRow]\<rparr>
                        else s2)
              in (Inr False, s3)))"

definition submittalCreateData ::
  "runtime \<Rightarrow> int \<Rightarrow> row \<Rightarrow> row \<Rightarrow> jsval \<Rightarrow> string \<Rightarrow> data" where
  "submittalCreateData rt now project accProjectLink accSubmittal accDataHash =
    [(''projectId'', project ''id''),
     (''accProjectLinkId'', accProjectLink ''id''),
     (''accSubmittalId'', jsGet accSubmittal ''id''),
     (''accNumber'', jsOr (jsGet accSubmittal ''number'') (jsGet accSubmittal ''id'')),
     (''title'', jsOr (jsGet accSubmittal ''title'') (JStr ''Untitled Submittal'')),
     (''specSection'', jsGet accSubmittal ''specSection''),
     (''packageNumber'', jsGet accSubmittal ''packageNumber''),
     (''accStatus'', jsGet accSubmittal ''status''),
     (''priority'', jsGet accSubmittal ''priority''),
     (''accCreatedBy'', jsGet accSubmittal ''createdBy''),
     (''accAssignedTo'',
        JStr (stringify rt (jsOr (jsGet accSubmittal ''assignedTo'') (JArr [])))),
     (''accDueDate'',
        if truthy (jsGet accSubmittal ''dueDate'') then newDate rt (jsGet accSubmittal ''dueDate'')
        else JNull),
     (''accDescription'', jsGet accSubmittal ''description''),
     (''accContractorComments'', jsGet accSubmittal ''contractorComments''),
     (''accCreatedAt'', newDate rt (jsGet accSubmittal ''createdAt'')),
     (''accUpdatedAt'',
        newDate rt (jsOr (jsGet accSubmittal ''updatedAt'') (jsGet accSubmittal ''createdAt''))),
     (''accDataHash'', JStr accDataHash),
     (''firstSeenAt'', JDate now),
     (''lastSeenAt'', JDate now)]"

definition submittalUpdateData ::
  "runtime \<Rightarrow> int \<Rightarrow> jsval \<Rightarrow> string \<Rightarrow> bool \<Rightarrow> jsval \<Rightarrow> bool \<Rightarrow> jsval \<Rightarrow> data" where
  "submittalUpdateData rt now accSubmittal accDataHash hasUnacknowledgedChange changesSummary
      hasManualResponse manualResponseData =
    [(''title'', jsOr (jsGet accSubmittal ''title'') (JStr ''Untitled Submittal'')),
     (''specSection'', jsGet accSubmittal ''specSection''),
     (''packageNumber'', jsGet accSubmittal ''packageNumber''),
     (''accStatus'', jsGet accSubmittal ''status''),
     (''priority'', jsGet accSubmittal ''priority''),
     (''accCreatedBy'', jsGet accSubmittal ''createdBy''),
     (''accAssignedTo'',
        JStr (stringify rt (jsOr (jsGet accSubmittal ''assignedTo'') (JArr [])))),
     (''accDueDate'',
        if truthy (jsGet accSubmittal ''dueDate'') then newDate rt (jsGet accSubmittal ''dueDate'')
        else JNull),
     (''accDescription'', jsGet accSubmittal ''description''),
     (''accContractorComments'', jsGet accSubmittal ''contractorComments''),
     (''accUpdatedAt'',
        newDate rt (jsOr (jsGet accSubmittal ''updatedAt'') (jsGet accSubmittal ''createdAt''))),
     (''accDataHash'', JStr accDataHash),
     (''hasUnacknowledgedChange'', JBool hasUnacknowledgedChange),
     (''lastAccChangeAt'', if hasUnacknowledgedChange then JDate now else JUndefined),
     (''changesSummary'',
        if hasUnacknowledgedChange then JStr (stringify rt changesSummary) else JUndefined),
     (''hasManualResponse'', if hasManualResponse then JBool True else JUndefined),
     (''manualResponseDetectedAt'', if hasManualResponse then JDate now else JUndefined),
     (''manualResponseData'', if hasManualResponse then manualResponseData else JUndefined),
     (''lastSeenAt'', JDate now)]"

definition submittalKey :: "row \<Rightarrow> jsval \<Rightarrow> row \<Rightarrow> bool" where
  "submittalKey accProjectLink accSubmittal r =
    (r ''accProjectLinkId'' = accProjectLink ''id'' \<and>
     r ''accSubmittalId'' = jsGet accSubmittal ''id'')"

definition processSubmittal ::
  "runtime \<Rightarrow> int \<Rightarrow> row \<Rightarrow> row \<Rightarrow> jsval \<Rightarrow> world \<Rightarrow> (js_error + bool) \<times> world" where
  "processSubmittal rt now project accProjectLink accSubmittal s =
    (let accDataHash = hashAccData rt accSubmittal in
     case find (submittalKey accProjectLink accSubmittal) (submittals s) of
       None \<Rightarrow>
         (Inr True,
          s\<lparr>submittals := submittals s @
             [createRow
                (submittalCreateData rt now project accProjectLink accSubmittal accDataHash)
                (mirrorDefaults rt (length (submittals s)))]\<rparr>)
     | Some existing \<Rightarrow>
         let hasUnacknowledgedChange = \<not> strictEq (existing ''accDataHash'') (JStr accDataHash) in
         (case (if hasUnacknowledgedChange then detectChanges rt existing accSubmittal
                else Inr JNull) of
            Inl e \<Rightarrow> (Inl e, s)
          | Inr changesSummary \<Rightarrow>
              let hasManualResponse = manualResponseDetected existing accSubmittal;
                  manualResponseData =
                    (if hasManualResponse then manualResponseSnapshot rt now accSubmittal
                     else JNull);
                  s1 = (if hasManualResponse then
                          logged ''info''
                            [(''submittalId'', jsGet accSubmittal ''id''),
                             (''accNumber'', jsGet accSubmittal ''number''),
                             (''responseSentAt'', existing ''responseSentAt'')]
                            ''Manual response detected in ACC - requires admin confirmation'' s
                        else s);
                  s2 = s1\<lparr>submittals :=
                         updateWhere (submittalKey accProjectLink accSubmittal)
                           (submittalUpdateData rt now accSubmittal accDataHash
                              hasUnacknowledgedChange changesSummary hasManualResponse
                              manualResponseData)
                           (submittals s1)\<rparr>;
                  s3 = (if hasUnacknowledgedChange then
                          s2\<lparr>statusHistory := statusHistory s2 @
                             [createRow
                                [(''submittalId'', existing ''id''),
                                 (''fieldName'', JStr ''accData''),
                                 (''oldValue'', existing ''accStatus''),
                                 (''newValue'', jsGet accSubmittal ''status''),
                                 (''changeReason'', JStr ''ACC sync detected change'')]
                                emptyRow]\<rparr>
                        else s2)
              in (Inr False, s3)))"

text \<open>
  The update an existing row receives from one synchronisation, as \<open>processRfi\<close> and
  \<open>processSubmittal\<close> compute it from the row found and the payload.
\<close>

definition rfiSyncUpdate :: "runtime \<Rightarrow> int \<Rightarrow> row \<Rightarrow> jsval \<Rightarrow> jsval \<Rightarrow> data" where
  "rfiSyncUpdate rt now existing accRfi changesSummary =
    rfiUpdateData rt now accRfi (hashAccData rt accRfi)
      (\<not> strictEq (existing ''accDataHash'') (JStr (hashAccData rt accRfi)))
      changesSummary
      (manualResponseDetected existing accRfi)
      (if manualResponseDetected existing accRfi then manualResponseSnapshot rt now accRfi
       else JNull)"

definition submittalSyncUpdate :: "runtime \<Rightarrow> int \<Rightarrow> row \<Rightarrow> jsval \<Rightarrow> jsval \<Rightarrow> data" where
  "submittalSyncUpdate rt now existing accSubmittal changesSummary =
    submittalUpdateData rt now accSubmittal (hashAccData rt accSubmittal)
      (\<not> strictEq (existing ''accDataHash'') (JStr (hashAccData rt accSubmittal)))
      changesSummary
      (manualResponseDetected existing accSubmittal)
      (if manualResponseDetected existing accSubmittal
       then manualResponseSnapshot rt now accSubmittal else JNull)"

text \<open>The attributes the specification calls internally owned, as columns of a row.\<close>

definition internallyOwned :: "string list" where
  "internallyOwned =
    [''internalStatus'', ''responseStatus'', ''responseText'', ''responseSentAt'',
     ''responseSentBy'', ''reviewDeadline'', ''qcDeadline'']"

section \<open>Acknowledging a change (rfiService.ts, submittalService.ts)\<close>

text \<open>The ORM's \<^verbatim>\<open>update\<close> throws when no row has the id.\<close>

definition byId :: "string \<Rightarrow> row \<Rightarrow> bool" where
  "byId i r = (r ''id'' = JStr i)"

definition rfi_acknowledgeAccChanges ::
  "string \<Rightarrow> string \<Rightarrow> world \<Rightarrow> (js_error + row) \<times> world" where
  "rfi_acknowledgeAccChanges rfiId userId s =
    (let s1 = logged ''info'' [(''rfiId'', JStr rfiId), (''userId'', JStr userId)]
                ''Acknowledging ACC changes'' s in
     case find (byId rfiId) (rfis s1) of
       None \<Rightarrow> (Inl RecordNotFound, s1)
     | Some r \<Rightarrow>
         (Inr (applyData [(''hasUnacknowledgedChange'', JBool False)] r),
          s1\<lparr>rfis := updateWhere (byId rfiId) [(''hasUnacknowledgedChange'', JBool False)]
                         (rfis s1)\<rparr>))"

definition submittal_acknowledgeAccChanges ::
  "string \<Rightarrow> string \<Rightarrow> world \<Rightarrow> (js_error + row) \<times> world" where
  "submittal_acknowledgeAccChanges submittalId userId s =
    (let s1 = logged ''info'' [(''submittalId'', JStr submittalId), (''userId'', JStr userId)]
                ''Acknowledging ACC changes'' s in
     case find (byId submittalId) (submittals s1) of
       None \<Rightarrow> (Inl RecordNotFound, s1)
     | Some r \<Rightarrow>
         (Inr (applyData [(''hasUnacknowledgedChange'', JBool False)] r),
          s1\<lparr>submittals :=
                updateWhere (byId submittalId) [(''hasUnacknowledgedChange'', JBool False)]
                  (submittals s1)\<rparr>))"

section \<open>Deadlines and assignment (workflowService.ts, rfiService.ts, submittalService.ts)\<close>

text \<open>
  \<^verbatim>\<open>priority.toLowerCase()\<close>. A string is the sequence of its code units, those below
  256 here: the letters with a lower-case form are A to Z and U+00C0 to U+00DE without the
  multiplication sign U+00D7.
\<close>

definition toLowerCase :: "string \<Rightarrow> string" where
  "toLowerCase s =
    map (\<lambda>c. let n = (of_char c :: nat) in
              if (65 \<le> n \<and> n \<le> 90) \<or> (192 \<le> n \<and> n \<le> 222 \<and> n \<noteq> 215)
              then char_of (n + 32) else c) s"

text \<open>
  The computed member read \<^verbatim>\<open>rules[priorityLower]\<close>. The parsed rules may be any JSON
  value: an array or a string has its elements under the decimal indices and its length.
  A member inherited from a prototype reads as undefined here; it is a function, which has
  neither a \<^verbatim>\<open>reviewPercent\<close> nor a \<^verbatim>\<open>qcPercent\<close>, so the percentages are the same.
\<close>

definition arrayIndex :: "string \<Rightarrow> nat \<Rightarrow> nat option" where
  "arrayIndex k n = find (\<lambda>i. showNat i = k) [0..<n]"

fun jsMember :: "jsval \<Rightarrow> string \<Rightarrow> jsval" where
  "jsMember (JArr xs) k =
    (if k = ''length'' then JNum (int (length xs))
     else case arrayIndex k (length xs) of Some i \<Rightarrow> xs ! i | None \<Rightarrow> JUndefined)"
| "jsMember (JStr t) k =
    (if k = ''length'' then JNum (int (length t))
     else case arrayIndex k (length t) of Some i \<Rightarrow> JStr [t ! i] | None \<Rightarrow> JUndefined)"
| "jsMember v k = jsGet v k"

text \<open>
  The number a value stands for in an arithmetic expression (ToNumber), and the time
  value of a Date (\<^verbatim>\<open>getTime\<close>, NaN for an invalid Date, a TypeError on anything that is
  not a Date). The number literals of a value are integers; the arithmetic is over all
  doubles, and a string, an array or an object may stand for any of them.
\<close>

definition toNumber :: "runtime \<Rightarrow> jsval \<Rightarrow> js_error + number" where
  "toNumber rt v =
    (case v of
       JUndefined \<Rightarrow> Inr NaN
     | JNull \<Rightarrow> Inr (Finite 0)
     | JBool b \<Rightarrow> Inr (Finite (if b then 1 else 0))
     | JNum n \<Rightarrow> Inr (roundDouble (of_int n))
     | JDate t \<Rightarrow> Inr (roundDouble (of_int t))
     | JInvalidDate \<Rightarrow> Inr NaN
     | _ \<Rightarrow> coerceNumber rt v)"

definition timeValue :: "int \<Rightarrow> number" where
  "timeValue t = roundDouble (of_int t)"

definition getTime :: "jsval \<Rightarrow> js_error + number" where
  "getTime d =
    (case d of
       JDate t \<Rightarrow> Inr (timeValue t)
     | JInvalidDate \<Rightarrow> Inr NaN
     | _ \<Rightarrow> Inl TypeError)"

text \<open>
  \<^verbatim>\<open>new Date(x)\<close> for a number: the fraction is cut off towards zero, and a number
  that is not finite or lies beyond 8.64e15 ms gives an invalid Date.
\<close>

fun timeClip :: "number \<Rightarrow> jsval" where
  "timeClip (Finite q) =
    (if 8640000000000000 < \<bar>q\<bar> then JInvalidDate else JDate (truncToZero q))"
| "timeClip x = JInvalidDate"

text \<open>\<^verbatim>\<open>new Date(now.getTime() + totalMs * (percent / 100))\<close>.\<close>

definition deadlineAt :: "int \<Rightarrow> number \<Rightarrow> number \<Rightarrow> jsval" where
  "deadlineAt now totalMs percent =
    timeClip (nadd (timeValue now) (nmul totalMs (ndiv percent (Finite 100))))"

definition byIdValue :: "jsval \<Rightarrow> row \<Rightarrow> bool" where
  "byIdValue i r = (r ''id'' = i)"

text \<open>
  \<^verbatim>\<open>project?.deadlineRules ? JSON.parse(project.deadlineRules) : null\<close>; the column is
  a string column.
\<close>

definition loadDeadlineRules :: "runtime \<Rightarrow> jsval \<Rightarrow> world \<Rightarrow> js_error + jsval" where
  "loadDeadlineRules rt projectId s =
    (case find (byIdValue projectId) (projects s) of
       None \<Rightarrow> Inr JNull
     | Some project \<Rightarrow>
         if truthy (project ''deadlineRules'') then
           (case project ''deadlineRules'' of
              JStr t \<Rightarrow> (case JSON_parse rt t of Some v \<Rightarrow> Inr v | None \<Rightarrow> Inl SyntaxError)
            | _ \<Rightarrow> Inl SyntaxError)
         else Inr JNull)"

text \<open>The percentages: 50 and 75 unless the rules have an entry for the lower-cased priority.\<close>

definition deadlinePercents :: "jsval \<Rightarrow> jsval \<Rightarrow> js_error + (jsval \<times> jsval)" where
  "deadlinePercents rules priority =
    (if truthy rules \<and> truthy priority then
       (case priority of
          JStr p \<Rightarrow>
            (let priorityLower = toLowerCase p in
             if truthy (jsMember rules priorityLower) then
               Inr (jsOr (jsGet (jsMember rules priorityLower) ''reviewPercent'') (JNum 50),
                    jsOr (jsGet (jsMember rules priorityLower) ''qcPercent'') (JNum 75))
             else Inr (JNum 50, JNum 75))
        | _ \<Rightarrow> Inl TypeError)
     else Inr (JNum 50, JNum 75))"

definition calculateInternalDeadlines ::
  "runtime \<Rightarrow> int \<Rightarrow> jsval \<Rightarrow> jsval \<Rightarrow> jsval \<Rightarrow> world \<Rightarrow> js_error + (jsval \<times> jsval)" where
  "calculateInternalDeadlines rt now projectId accDueDate priority s =
    (case loadDeadlineRules rt projectId s of
       Inl e \<Rightarrow> Inl e
     | Inr rules \<Rightarrow>
         (case deadlinePercents rules priority of
            Inl e \<Rightarrow> Inl e
          | Inr (reviewPercent, qcPercent) \<Rightarrow>
              (case getTime accDueDate of
                 Inl e \<Rightarrow> Inl e
               | Inr dueTime \<Rightarrow>
                   (let totalMs = nsub dueTime (timeValue now) in
                    case toNumber rt reviewPercent of
                      Inl e \<Rightarrow> Inl e
                    | Inr review \<Rightarrow>
                        (case toNumber rt qcPercent of
                           Inl e \<Rightarrow> Inl e
                         | Inr qc \<Rightarrow>
                             Inr (deadlineAt now totalMs review,
                                  deadlineAt now totalMs qc))))))"

datatype assignmentRole = REVIEWER | QC_REVIEWER

fun roleName :: "assignmentRole \<Rightarrow> string" where
  "roleName REVIEWER = ''REVIEWER''"
| "roleName QC_REVIEWER = ''QC_REVIEWER''"

text \<open>The text a template literal gives a column value (strings, null and undefined).\<close>

fun templateText :: "jsval \<Rightarrow> string" where
  "templateText (JStr t) = t"
| "templateText JNull = ''null''"
| "templateText JUndefined = ''undefined''"
| "templateText (JBool b) = (if b then ''true'' else ''false'')"
| "templateText (JNum n) = showInt n"
| "templateText _ = ''[object Object]''"

text \<open>notificationService.ts, \<^verbatim>\<open>createNotification\<close>.\<close>

definition createNotification :: "runtime \<Rightarrow> data \<Rightarrow> world \<Rightarrow> world" where
  "createNotification rt d s =
    (let s1 = logged ''info''
                [(''userId'', jsGet (JObj d) ''userId''), (''type'', jsGet (JObj d) ''type'')]
                ''Creating notification'' s in
     s1\<lparr>notifications := notifications s1 @
          [createRow
             [(''userId'', jsGet (JObj d) ''userId''),
              (''type'', jsGet (JObj d) ''type''),
              (''title'', jsGet (JObj d) ''title''),
              (''message'', jsGet (JObj d) ''message''),
              (''rfiId'', jsGet (JObj d) ''rfiId''),
              (''submittalId'', jsGet (JObj d) ''submittalId''),
              (''metadata'',
                 if truthy (jsGet (JObj d) ''metadata'')
                 then JStr (stringify rt (jsGet (JObj d) ''metadata'')) else JNull),
              (''isRead'', JBool False)]
             emptyRow]\<rparr>)"

text \<open>
  \<^verbatim>\<open>assignRfi\<close>. The assignment row refers to a record and to a user; the store refuses
  the insertion when either is missing (the foreign keys), before anything else is done.
\<close>

definition assignRfi ::
  "runtime \<Rightarrow> int \<Rightarrow> string \<Rightarrow> string \<Rightarrow> assignmentRole \<Rightarrow> string \<Rightarrow> world \<Rightarrow>
   (js_error + row) \<times> world" where
  "assignRfi rt now rfiId userId role assignedBy s =
    (let s1 = logged ''info''
                [(''rfiId'', JStr rfiId), (''userId'', JStr userId),
                 (''role'', JStr (roleName role)), (''assignedBy'', JStr assignedBy)]
                ''Assigning RFI'' s in
     case (find (byId rfiId) (rfis s1), find (byId userId) (users s1)) of
       (Some rfi, Some user) \<Rightarrow>
         (let assignment =
                createRow
                  [(''rfiId'', JStr rfiId), (''userId'', JStr userId),
                   (''role'', JStr (roleName role)), (''assignedBy'', JStr assignedBy),
                   (''isUnread'', JBool True)]
                  emptyRow;
              s2 = s1\<lparr>rfiAssignments := rfiAssignments s1 @ [assignment]\<rparr>;
              deadlines =
                (if truthy (rfi ''accDueDate'') then
                   (case calculateInternalDeadlines rt now (rfi ''projectId'') (rfi ''accDueDate'')
                           (rfi ''priority'') s2 of
                      Inl e \<Rightarrow> Inl e
                    | Inr (reviewDeadline, qcDeadline) \<Rightarrow>
                        Inr (s2\<lparr>rfis :=
                               updateWhere (byId rfiId)
                                 [(''reviewDeadline'', reviewDeadline),
                                  (''qcDeadline'', qcDeadline),
                                  (''internalStatus'', JStr ''ASSIGNED_FOR_REVIEW'')]
                                 (rfis s2)\<rparr>))
                 else Inr s2)
          in case deadlines of
               Inl e \<Rightarrow> (Inl e, s2)
             | Inr s3 \<Rightarrow>
                 (let s4 = createNotification rt
                             [(''userId'', JStr userId), (''type'', JStr ''ASSIGNMENT''),
                              (''title'', JStr ''New RFI Assignment''),
                              (''message'',
                                 JStr (''You have been assigned as '' @ roleName role @ '' for RFI'')),
                              (''rfiId'', JStr rfiId)]
                             s3;
                      s5 = s4\<lparr>statusHistory := statusHistory s4 @
                             [createRow
                                [(''rfiId'', JStr rfiId),
                                 (''fieldName'', JStr ''assignment''),
                                 (''newValue'',
                                    JStr (roleName role @ '': '' @ templateText (user ''firstName'')
                                          @ '' '' @ templateText (user ''lastName''))),
                                 (''changedBy'', JStr assignedBy)]
                                emptyRow]\<rparr>
                  in (Inr assignment, s5)))
     | _ \<Rightarrow> (Inl ForeignKeyViolation, s1))"

definition assignSubmittal ::
  "runtime \<Rightarrow> int \<Rightarrow> string \<Rightarrow> string \<Rightarrow> assignmentRole \<Rightarrow> string \<Rightarrow> world \<Rightarrow>
   (js_error + row) \<times> world" where
  "assignSubmittal rt now submittalId userId role assignedBy s =
    (let s1 = logged ''info''
                [(''submittalId'', JStr submittalId), (''userId'', JStr userId),
                 (''role'', JStr (roleName role)), (''assignedBy'', JStr assignedBy)]
                ''Assigning Submittal'' s in
     case (find (byId submittalId) (submittals s1), find (byId userId) (users s1)) of
       (Some submittal, Some user) \<Rightarrow>
         (let assignment =
                createRow
                  [(''submittalId'', JStr submittalId), (''userId'', JStr userId),
                   (''role'', JStr (roleName role)), (''assignedBy'', JStr assignedBy),
                   (''isUnread'', JBool True)]
                  emptyRow;
              s2 = s1\<lparr>submittalAssignments := submittalAssignments s1 @ [assignment]\<rparr>;
              deadlines =
                (if truthy (submittal ''accDueDate'') then
                   (case calculateInternalDeadlines rt now (submittal ''projectId'')
                           (submittal ''accDueDate'') (submittal ''priority'') s2 of
                      Inl e \<Rightarrow> Inl e
                    | Inr (reviewDeadline, qcDeadline) \<Rightarrow>
                        Inr (s2\<lparr>submittals :=
                               updateWhere (byId submittalId)
                                 [(''reviewDeadline'', reviewDeadline),
                                  (''qcDeadline'', qcDeadline),
                                  (''internalStatus'', JStr ''ASSIGNED_FOR_REVIEW'')]
                                 (submittals s2)\<rparr>))
                 else Inr s2)
          in case deadlines of
               Inl e \<Rightarrow> (Inl e, s2)
             | Inr s3 \<Rightarrow>
                 (let s4 = createNotification rt
                             [(''userId'', JStr userId), (''type'', JStr ''ASSIGNMENT''),
                              (''title'', JStr ''New Submittal Assignment''),
                              (''message'',
                                 JStr (''You have been assigned as '' @ roleName role
                                       @ '' for Submittal'')),
                              (''submittalId'', JStr submittalId)]
                             s3;
                      s5 = s4\<lparr>statusHistory := statusHistory s4 @
                             [createRow
                                [(''submittalId'', JStr submittalId),
                                 (''fieldName'', JStr ''assignment''),
                                 (''newValue'',
                                    JStr (roleName role @ '': '' @ templateText (user ''firstName'')
                                          @ '' '' @ templateText (user ''lastName''))),
                                 (''changedBy'', JStr assignedBy)]
                                emptyRow]\<rparr>
                  in (Inr assignment, s5)))
     | _ \<Rightarrow> (Inl ForeignKeyViolation, s1))"

section \<open>Response dispatch and confirmation (responseService.ts)\<close>

text \<open>
  The external platform (accClient) and the file share (\<^verbatim>\<open>readFile\<close>) are collaborators.
  Each call either returns or throws, as a function of the calls made so far and of its
  arguments; \<open>accCalls\<close> records every call made.
\<close>

type_synonym trace = "(string \<times> jsval list) list"

record external =
  getValidToken :: "trace \<Rightarrow> jsval \<Rightarrow> js_error + jsval"
  updateRFIStatus :: "trace \<Rightarrow> jsval \<Rightarrow> jsval \<Rightarrow> jsval \<Rightarrow> jsval \<Rightarrow> js_error + unit"
  postRFIResponse :: "trace \<Rightarrow> jsval \<Rightarrow> jsval \<Rightarrow> jsval \<Rightarrow> jsval \<Rightarrow> js_error + unit"
  uploadRFIAttachment ::
    "trace \<Rightarrow> jsval \<Rightarrow> jsval \<Rightarrow> jsval \<Rightarrow> jsval \<Rightarrow> jsval \<Rightarrow> js_error + unit"
  updateSubmittalStatus :: "trace \<Rightarrow> jsval \<Rightarrow> jsval \<Rightarrow> jsval \<Rightarrow> jsval \<Rightarrow> js_error + unit"
  postSubmittalResponse :: "trace \<Rightarrow> jsval \<Rightarrow> jsval \<Rightarrow> jsval \<Rightarrow> jsval \<Rightarrow> js_error + unit"
  uploadSubmittalAttachment ::
    "trace \<Rightarrow> jsval \<Rightarrow> jsval \<Rightarrow> jsval \<Rightarrow> jsval \<Rightarrow> jsval \<Rightarrow> js_error + unit"
  readFile :: "trace \<Rightarrow> jsval \<Rightarrow> js_error + jsval"

definition called :: "string \<Rightarrow> jsval list \<Rightarrow> world \<Rightarrow> world" where
  "called name args s = s\<lparr>accCalls := accCalls s @ [(name, args)]\<rparr>"

record sendResponseDto =
  responseStatus :: string
  responseText :: string
  selectedFilePaths :: "string list"

text \<open>
  \<^verbatim>\<open>String.prototype.trim\<close>: the white space and line terminators among the code units
  below 256 are TAB, LF, VT, FF, CR, the space and the no-break space U+00A0.
\<close>

definition isSpace :: "char \<Rightarrow> bool" where
  "isSpace c = ((of_char c :: nat) \<in> set [0x20, 0x09, 0x0A, 0x0B, 0x0C, 0x0D, 0xA0])"

definition trim :: "string \<Rightarrow> string" where
  "trim t = rev (dropWhile isSpace (rev (dropWhile isSpace t)))"

definition isAdmin :: "row \<Rightarrow> bool" where
  "isAdmin membership =
    (membership ''role'' = JStr ''PROJECT_ADMIN'' \<or> membership ''canSendToAcc'' = JBool True)"

text \<open>\<^verbatim>\<open>memberships: { where: { userId } }\<close> of the record's project.\<close>

definition membershipsOf :: "jsval \<Rightarrow> string \<Rightarrow> world \<Rightarrow> row list" where
  "membershipsOf projectId userId s =
    filter (\<lambda>m. m ''projectId'' = projectId \<and> m ''userId'' = JStr userId) (projectMemberships s)"

definition linkOf :: "jsval \<Rightarrow> world \<Rightarrow> row option" where
  "linkOf projectId s = find (\<lambda>l. l ''projectId'' = projectId) (accProjectLinks s)"

text \<open>Step 3 of the dispatch: the loop over the selected files, with its inner catch.\<close>

fun uploadRfiFiles ::
  "external \<Rightarrow> runtime \<Rightarrow> string \<Rightarrow> jsval \<Rightarrow> jsval \<Rightarrow> jsval \<Rightarrow> string list \<Rightarrow> world \<Rightarrow>
   (js_error + unit) \<times> world" where
  "uploadRfiFiles ext rt rfiId accProjectId accRfiId accessToken [] s = (Inr (), s)"
| "uploadRfiFiles ext rt rfiId accProjectId accRfiId accessToken (filePath # rest) s =
    (case readFile ext (accCalls s) (JStr filePath) of
       Inl e \<Rightarrow>
         (Inl (Error (''Failed to upload file: '' @ basename rt filePath)),
          logged ''error'' [(''rfiId'', JStr rfiId), (''filePath'', JStr filePath)]
            ''Failed to upload file to ACC''
            (called ''readFile'' [JStr filePath] s))
     | Inr buffer \<Rightarrow>
         (let s1 = called ''readFile'' [JStr filePath] s;
              fileName = basename rt filePath;
              args = [accProjectId, accRfiId, buffer, JStr fileName, accessToken] in
          case uploadRFIAttachment ext (accCalls s1) accProjectId accRfiId buffer (JStr fileName)
                 accessToken of
            Inl e \<Rightarrow>
              (Inl (Error (''Failed to upload file: '' @ basename rt filePath)),
               logged ''error'' [(''rfiId'', JStr rfiId), (''filePath'', JStr filePath)]
                 ''Failed to upload file to ACC''
                 (called ''uploadRFIAttachment'' args s1))
          | Inr u \<Rightarrow>
              uploadRfiFiles ext rt rfiId accProjectId accRfiId accessToken rest
                (logged ''info'' [(''rfiId'', JStr rfiId), (''fileName'', JStr fileName)]
                   ''File uploaded to ACC''
                   (called ''uploadRFIAttachment'' args s1))))"

text \<open>
  The calls made when a list of files is read and uploaded and the file share and the
  platform accept each of them: the trace after the last upload, \<open>None\<close> when a read
  or an upload fails. It names the calls that precede the read of a later file.
\<close>

fun rfiFilesAccepted ::
  "external \<Rightarrow> runtime \<Rightarrow> jsval \<Rightarrow> jsval \<Rightarrow> jsval \<Rightarrow> string list \<Rightarrow> trace \<Rightarrow> trace option" where
  "rfiFilesAccepted ext rt accProjectId accRfiId accessToken [] tr = Some tr"
| "rfiFilesAccepted ext rt accProjectId accRfiId accessToken (filePath # rest) tr =
    (case readFile ext tr (JStr filePath) of
       Inl e \<Rightarrow> None
     | Inr buffer \<Rightarrow>
         (case uploadRFIAttachment ext (tr @ [(''readFile'', [JStr filePath])]) accProjectId
                 accRfiId buffer (JStr (basename rt filePath)) accessToken of
            Inl e \<Rightarrow> None
          | Inr u \<Rightarrow>
              rfiFilesAccepted ext rt accProjectId accRfiId accessToken rest
                (tr @ [(''readFile'', [JStr filePath]),
                       (''uploadRFIAttachment'',
                        [accProjectId, accRfiId, buffer, JStr (basename rt filePath),
                         accessToken])])))"

text \<open>Steps 1 to 3: the token, the status push, the response post, the uploads.\<close>

definition sendRfiEffects ::
  "external \<Rightarrow> runtime \<Rightarrow> string \<Rightarrow> row \<Rightarrow> row \<Rightarrow> sendResponseDto \<Rightarrow> world \<Rightarrow>
   (js_error + unit) \<times> world" where
  "sendRfiEffects ext rt rfiId rfi link dto s =
    (case getValidToken ext (accCalls s) (link ''oauthToken'') of
       Inl e \<Rightarrow> (Inl e, called ''getValidToken'' [link ''oauthToken''] s)
     | Inr accessToken \<Rightarrow>
         (let s1 = called ''getValidToken'' [link ''oauthToken''] s;
              statusArgs = [link ''accProjectId'', rfi ''accRfiId'', JStr (responseStatus dto),
                            accessToken] in
          case updateRFIStatus ext (accCalls s1) (link ''accProjectId'') (rfi ''accRfiId'')
                 (JStr (responseStatus dto)) accessToken of
            Inl e \<Rightarrow> (Inl e, called ''updateRFIStatus'' statusArgs s1)
          | Inr u \<Rightarrow>
              (let s2 = called ''updateRFIStatus'' statusArgs s1;
                   textArgs = [link ''accProjectId'', rfi ''accRfiId'', JStr (responseText dto),
                               accessToken] in
               case postRFIResponse ext (accCalls s2) (link ''accProjectId'') (rfi ''accRfiId'')
                      (JStr (responseText dto)) accessToken of
                 Inl e \<Rightarrow> (Inl e, called ''postRFIResponse'' textArgs s2)
               | Inr u \<Rightarrow>
                   uploadRfiFiles ext rt rfiId (link ''accProjectId'') (rfi ''accRfiId'')
                     accessToken (selectedFilePaths dto)
                     (called ''postRFIResponse'' textArgs s2))))"

text \<open>Steps 4 to 6: the local record, the audit entry, the status history.\<close>

definition sentData :: "int \<Rightarrow> string \<Rightarrow> sendResponseDto \<Rightarrow> data" where
  "sentData now userId dto =
    [(''responseStatus'', JStr (responseStatus dto)),
     (''responseText'', JStr (responseText dto)),
     (''responseSentAt'', JDate now),
     (''responseSentBy'', JStr userId),
     (''internalStatus'', JStr ''SENT_TO_ACC'')]"

definition sendRfiCommit ::
  "runtime \<Rightarrow> int \<Rightarrow> string \<Rightarrow> string \<Rightarrow> row \<Rightarrow> sendResponseDto \<Rightarrow> world \<Rightarrow> row \<times> world" where
  "sendRfiCommit rt now rfiId userId rfi dto s =
    (let s1 = s\<lparr>rfis := updateWhere (byId rfiId) (sentData now userId dto) (rfis s)\<rparr>;
         s2 = s1\<lparr>auditLog := auditLog s1 @
                [createRow
                   [(''userId'', JStr userId),
                    (''action'', JStr ''SEND_TO_ACC''),
                    (''entityType'', JStr ''RFI''),
                    (''entityId'', JStr rfiId),
                    (''rfiId'', JStr rfiId),
                    (''details'', JStr (stringify rt (JObj
                       [(''responseStatus'', JStr (responseStatus dto)),
                        (''fileCount'', JNum (int (length (selectedFilePaths dto)))),
                        (''files'', JArr (map (\<lambda>p. JStr (basename rt p))
                                             (selectedFilePaths dto)))])))]
                   emptyRow]\<rparr>;
         s3 = s2\<lparr>statusHistory := statusHistory s2 @
                [createRow
                   [(''rfiId'', JStr rfiId),
                    (''fieldName'', JStr ''responseStatus''),
                    (''newValue'', JStr (responseStatus dto)),
                    (''changedBy'', JStr userId),
                    (''changeReason'', JStr ''Official response sent to ACC'')]
                   emptyRow]\<rparr>
     in (applyData (sentData now userId dto) rfi,
         logged ''info'' [(''rfiId'', JStr rfiId)] ''RFI response sent to ACC successfully'' s3))"

text \<open>The catch of the dispatch: the failure is logged and audited.\<close>

definition sendRfiFailed :: "runtime \<Rightarrow> string \<Rightarrow> string \<Rightarrow> js_error \<Rightarrow> world \<Rightarrow> world" where
  "sendRfiFailed rt rfiId userId e s =
    (let s1 = logged ''error'' [(''rfiId'', JStr rfiId), (''error'', JStr (errorMessage e))]
                ''Failed to send RFI response to ACC'' s in
     s1\<lparr>auditLog := auditLog s1 @
          [createRow
             [(''userId'', JStr userId),
              (''action'', JStr ''SEND_TO_ACC_FAILED''),
              (''entityType'', JStr ''RFI''),
              (''entityId'', JStr rfiId),
              (''rfiId'', JStr rfiId),
              (''details'', JStr (stringify rt (JObj [(''error'', JStr (errorMessage e))])))]
             emptyRow]\<rparr>)"

definition sendRfiResponseToAcc ::
  "external \<Rightarrow> runtime \<Rightarrow> int \<Rightarrow> string \<Rightarrow> string \<Rightarrow> sendResponseDto \<Rightarrow> world \<Rightarrow>
   (js_error + row) \<times> world" where
  "sendRfiResponseToAcc ext rt now rfiId userId dto s =
    (let s0 = logged ''info'' [(''rfiId'', JStr rfiId), (''userId'', JStr userId)]
                ''Sending RFI response to ACC'' s in
     case find (byId rfiId) (rfis s0) of
       None \<Rightarrow> (Inl (Error ''RFI or ACC project link not found''), s0)
     | Some rfi \<Rightarrow>
         (case linkOf (rfi ''projectId'') s0 of
            None \<Rightarrow> (Inl (Error ''RFI or ACC project link not found''), s0)
          | Some link \<Rightarrow>
              (case membershipsOf (rfi ''projectId'') userId s0 of
                 [] \<Rightarrow> (Inl (Error ''User is not a member of this project''), s0)
               | membership # others \<Rightarrow>
                   if \<not> isAdmin membership then
                     (Inl (Error ''Only project admins are authorized to send responses to ACC''),
                      logged ''warn''
                        [(''rfiId'', JStr rfiId), (''userId'', JStr userId),
                         (''role'', membership ''role'')]
                        ''Non-admin attempted to send response to ACC'' s0)
                   else if responseStatus dto = [] then
                     (Inl (Error ''Response status is required''), s0)
                   else if trim (responseText dto) = [] then
                     (Inl (Error ''Response text is required''), s0)
                   else if selectedFilePaths dto = [] then
                     (Inl (Error ''At least one file must be selected''), s0)
                   else
                     (case sendRfiEffects ext rt rfiId rfi link dto s0 of
                        (Inl e, s1) \<Rightarrow> (Inl e, sendRfiFailed rt rfiId userId e s1)
                      | (Inr u, s1) \<Rightarrow>
                          (case sendRfiCommit rt now rfiId userId rfi dto s1 of
                             (updated, s2) \<Rightarrow> (Inr updated, s2))))))"

fun uploadSubmittalFiles ::
  "external \<Rightarrow> runtime \<Rightarrow> string \<Rightarrow> jsval \<Rightarrow> jsval \<Rightarrow> jsval \<Rightarrow> string list \<Rightarrow> world \<Rightarrow>
   (js_error + unit) \<times> world" where
  "uploadSubmittalFiles ext rt submittalId accProjectId accSubmittalId accessToken [] s =
    (Inr (), s)"
| "uploadSubmittalFiles ext rt submittalId accProjectId accSubmittalId accessToken
     (filePath # rest) s =
    (case readFile ext (accCalls s) (JStr filePath) of
       Inl e \<Rightarrow>
         (Inl (Error (''Failed to upload file: '' @ basename rt filePath)),
          logged ''error'' [(''submittalId'', JStr submittalId), (''filePath'', JStr filePath)]
            ''Failed to upload file to ACC''
            (called ''readFile'' [JStr filePath] s))
     | Inr buffer \<Rightarrow>
         (let s1 = called ''readFile'' [JStr filePath] s;
              fileName = basename rt filePath;
              args = [accProjectId, accSubmittalId, buffer, JStr fileName, accessToken] in
          case uploadSubmittalAttachment ext (accCalls s1) accProjectId accSubmittalId buffer
                 (JStr fileName) accessToken of
            Inl e \<Rightarrow>
              (Inl (Error (''Failed to upload file: '' @ basename rt filePath)),
               logged ''error''
                 [(''submittalId'', JStr submittalId), (''filePath'', JStr filePath)]
                 ''Failed to upload file to ACC''
                 (called ''uploadSubmittalAttachment'' args s1))
          | Inr u \<Rightarrow>
              uploadSubmittalFiles ext rt submittalId accProjectId accSubmittalId accessToken rest
                (logged ''info''
                   [(''submittalId'', JStr submittalId), (''fileName'', JStr fileName)]
                   ''File uploaded to ACC''
                   (called ''uploadSubmittalAttachment'' args s1))))"

fun submittalFilesAccepted ::
  "external \<Rightarrow> runtime \<Rightarrow> jsval \<Rightarrow> jsval \<Rightarrow> jsval \<Rightarrow> string list \<Rightarrow> trace \<Rightarrow> trace option" where
  "submittalFilesAccepted ext rt accProjectId accSubmittalId accessToken [] tr = Some tr"
| "submittalFilesAccepted ext rt accProjectId accSubmittalId accessToken (filePath # rest) tr =
    (case readFile ext tr (JStr filePath) of
       Inl e \<Rightarrow> None
     | Inr buffer \<Rightarrow>
         (case uploadSubmittalAttachment ext (tr @ [(''readFile'', [JStr filePath])]) accProjectId
                 accSubmittalId buffer (JStr (basename rt filePath)) accessToken of
            Inl e \<Rightarrow> None
          | Inr u \<Rightarrow>
              submittalFilesAccepted ext rt accProjectId accSubmittalId accessToken rest
                (tr @ [(''readFile'', [JStr filePath]),
                       (''uploadSubmittalAttachment'',
                        [accProjectId, accSubmittalId, buffer, JStr (basename rt filePath),
                         accessToken])])))"

definition sendSubmittalEffects ::
  "external \<Rightarrow> runtime \<Rightarrow> string \<Rightarrow> row \<Rightarrow> row \<Rightarrow> sendResponseDto \<Rightarrow> world \<Rightarrow>
   (js_error + unit) \<times> world" where
  "sendSubmittalEffects ext rt submittalId submittal link dto s =
    (case getValidToken ext (accCalls s) (link ''oauthToken'') of
       Inl e \<Rightarrow> (Inl e, called ''getValidToken'' [link ''oauthToken''] s)
     | Inr accessToken \<Rightarrow>
         (let s1 = called ''getValidToken'' [link ''oauthToken''] s;
              statusArgs = [link ''accProjectId'', submittal ''accSubmittalId'',
                            JStr (responseStatus dto), accessToken] in
          case updateSubmittalStatus ext (accCalls s1) (link ''accProjectId'')
                 (submittal ''accSubmittalId'') (JStr (responseStatus dto)) accessToken of
            Inl e \<Rightarrow> (Inl e, called ''updateSubmittalStatus'' statusArgs s1)
          | Inr u \<Rightarrow>
              (let s2 = called ''updateSubmittalStatus'' statusArgs s1;
                   textArgs = [link ''accProjectId'', submittal ''accSubmittalId'',
                               JStr (responseText dto), accessToken] in
               case postSubmittalResponse ext (accCalls s2) (link ''accProjectId'')
                      (submittal ''accSubmittalId'') (JStr (responseText dto)) accessToken of
                 Inl e \<Rightarrow> (Inl e, called ''postSubmittalResponse'' textArgs s2)
               | Inr u \<Rightarrow>
                   uploadSubmittalFiles ext rt submittalId (link ''accProjectId'')
                     (submittal ''accSubmittalId'') accessToken (selectedFilePaths dto)
                     (called ''postSubmittalResponse'' textArgs s2))))"

definition sendSubmittalCommit ::
  "runtime \<Rightarrow> int \<Rightarrow> string \<Rightarrow> string \<Rightarrow> row \<Rightarrow> sendResponseDto \<Rightarrow> world \<Rightarrow> row \<times> world" where
  "sendSubmittalCommit rt now submittalId userId submittal dto s =
    (let s1 = s\<lparr>submittals :=
                  updateWhere (byId submittalId) (sentData now userId dto) (submittals s)\<rparr>;
         s2 = s1\<lparr>auditLog := auditLog s1 @
                [createRow
                   [(''userId'', JStr userId),
                    (''action'', JStr ''SEND_TO_ACC''),
                    (''entityType'', JStr ''SUBMITTAL''),
                    (''entityId'', JStr submittalId),
                    (''submittalId'', JStr submittalId),
                    (''details'', JStr (stringify rt (JObj
                       [(''responseStatus'', JStr (responseStatus dto)),
                        (''fileCount'', JNum (int (length (selectedFilePaths dto)))),
                        (''files'', JArr (map (\<lambda>p. JStr (basename rt p))
                                             (selectedFilePaths dto)))])))]
                   emptyRow]\<rparr>;
         s3 = s2\<lparr>statusHistory := statusHistory s2 @
                [createRow
                   [(''submittalId'', JStr submittalId),
                    (''fieldName'', JStr ''responseStatus''),
                    (''newValue'', JStr (responseStatus dto)),
                    (''changedBy'', JStr userId),
                    (''changeReason'', JStr ''Official response sent to ACC'')]
                   emptyRow]\<rparr>
     in (applyData (sentData now userId dto) submittal,
         logged ''info'' [(''submittalId'', JStr submittalId)]
           ''Submittal response sent to ACC successfully'' s3))"

definition sendSubmittalFailed ::
  "runtime \<Rightarrow> string \<Rightarrow> string \<Rightarrow> js_error \<Rightarrow> world \<Rightarrow> world" where
  "sendSubmittalFailed rt submittalId userId e s =
    (let s1 = logged ''error''
                [(''submittalId'', JStr submittalId), (''error'', JStr (errorMessage e))]
                ''Failed to send Submittal response to ACC'' s in
     s1\<lparr>auditLog := auditLog s1 @
          [createRow
             [(''userId'', JStr userId),
              (''action'', JStr ''SEND_TO_ACC_FAILED''),
              (''entityType'', JStr ''SUBMITTAL''),
              (''entityId'', JStr submittalId),
              (''submittalId'', JStr submittalId),
              (''details'', JStr (stringify rt (JObj [(''error'', JStr (errorMessage e))])))]
             emptyRow]\<rparr>)"

definition sendSubmittalResponseToAcc ::
  "external \<Rightarrow> runtime \<Rightarrow> int \<Rightarrow> string \<Rightarrow> string \<Rightarrow> sendResponseDto \<Rightarrow> world \<Rightarrow>
   (js_error + row) \<times> world" where
  "sendSubmittalResponseToAcc ext rt now submittalId userId dto s =
    (let s0 = logged ''info'' [(''submittalId'', JStr submittalId), (''userId'', JStr userId)]
                ''Sending Submittal response to ACC'' s in
     case find (byId submittalId) (submittals s0) of
       None \<Rightarrow> (Inl (Error ''Submittal or ACC project link not found''), s0)
     | Some submittal \<Rightarrow>
         (case linkOf (submittal ''projectId'') s0 of
            None \<Rightarrow> (Inl (Error ''Submittal or ACC project link not found''), s0)
          | Some link \<Rightarrow>
              (case membershipsOf (submittal ''projectId'') userId s0 of
                 [] \<Rightarrow> (Inl (Error ''User is not a member of this project''), s0)
               | membership # others \<Rightarrow>
                   if \<not> isAdmin membership then
                     (Inl (Error ''Only project admins are authorized to send responses to ACC''),
                      logged ''warn''
                        [(''submittalId'', JStr submittalId), (''userId'', JStr userId),
                         (''role'', membership ''role'')]
                        ''Non-admin attempted to send response to ACC'' s0)
                   else if responseStatus dto = [] then
                     (Inl (Error ''Response status is required''), s0)
                   else if trim (responseText dto) = [] then
                     (Inl (Error ''Response text is required''), s0)
                   else if selectedFilePaths dto = [] then
                     (Inl (Error ''At least one file must be selected''), s0)
                   else
                     (case sendSubmittalEffects ext rt submittalId submittal link dto s0 of
                        (Inl e, s1) \<Rightarrow> (Inl e, sendSubmittalFailed rt submittalId userId e s1)
                      | (Inr u, s1) \<Rightarrow>
                          (case sendSubmittalCommit rt now submittalId userId submittal dto s1 of
                             (updated, s2) \<Rightarrow> (Inr updated, s2))))))"

text \<open>
  \<^verbatim>\<open>JSON.parse(rfi.manualResponseData || '{}')\<close>, then the reads of \<^verbatim>\<open>.status\<close> and
  \<^verbatim>\<open>.text\<close>, which throw a TypeError on a parsed null.
\<close>

definition manualResponseText :: "row \<Rightarrow> string" where
  "manualResponseText r =
    (case jsOr (r ''manualResponseData'') (JStr ''{}'') of JStr t \<Rightarrow> t | _ \<Rightarrow> ''{}'')"

definition confirmedData :: "int \<Rightarrow> string \<Rightarrow> jsval \<Rightarrow> data" where
  "confirmedData now userId manualResponse =
    [(''manualResponseConfirmedBy'', JStr userId),
     (''manualResponseConfirmedAt'', JDate now),
     (''internalStatus'', JStr ''CLOSED''),
     (''responseStatus'', jsGet manualResponse ''status''),
     (''responseText'', jsGet manualResponse ''text'')]"

definition confirmManualRfiResponse ::
  "runtime \<Rightarrow> int \<Rightarrow> string \<Rightarrow> string \<Rightarrow> world \<Rightarrow> (js_error + row) \<times> world" where
  "confirmManualRfiResponse rt now rfiId userId s =
    (let s0 = logged ''info'' [(''rfiId'', JStr rfiId), (''userId'', JStr userId)]
                ''Admin confirming manual RFI response'' s in
     case find (byId rfiId) (rfis s0) of
       None \<Rightarrow> (Inl (Error ''RFI not found''), s0)
     | Some rfi \<Rightarrow>
         (case membershipsOf (rfi ''projectId'') userId s0 of
            [] \<Rightarrow> (Inl (Error ''User is not a member of this project''), s0)
          | membership # others \<Rightarrow>
              if \<not> isAdmin membership then
                (Inl (Error ''Only project admins can confirm manual responses''),
                 logged ''warn''
                   [(''rfiId'', JStr rfiId), (''userId'', JStr userId),
                    (''role'', membership ''role'')]
                   ''Non-admin attempted to confirm manual response'' s0)
              else if \<not> truthy (rfi ''hasManualResponse'') then
                (Inl (Error ''RFI does not have a manual response to confirm''), s0)
              else if truthy (rfi ''manualResponseConfirmedAt'') then
                (Inl (Error ''Manual response has already been confirmed''), s0)
              else
                (case JSON_parse rt (manualResponseText rfi) of
                   None \<Rightarrow>
                     (Inl (Error ''Invalid manual response data''),
                      logged ''error'' [(''rfiId'', JStr rfiId)]
                        ''Failed to parse manual response data'' s0)
                 | Some manualResponse \<Rightarrow>
                     if manualResponse = JNull then (Inl TypeError, s0)
                     else
                       (let s1 = s0\<lparr>rfis :=
                                   updateWhere (byId rfiId)
                                     (confirmedData now userId manualResponse) (rfis s0)\<rparr>;
                            s2 = s1\<lparr>auditLog := auditLog s1 @
                                   [createRow
                                      [(''userId'', JStr userId),
                                       (''action'', JStr ''CONFIRM_MANUAL_RESPONSE''),
                                       (''entityType'', JStr ''RFI''),
                                       (''entityId'', JStr rfiId),
                                       (''rfiId'', JStr rfiId),
                                       (''details'', JStr (stringify rt (JObj
                                          [(''manualResponseStatus'',
                                              jsGet manualResponse ''status''),
                                           (''respondedBy'', jsGet manualResponse ''respondedBy''),
                                           (''respondedAt'', jsGet manualResponse ''respondedAt''),
                                           (''confirmedAt'', JStr (toISOString rt now))])))]
                                      emptyRow]\<rparr>;
                            s3 = s2\<lparr>statusHistory := statusHistory s2 @
                                   [createRow
                                      [(''rfiId'', JStr rfiId),
                                       (''fieldName'', JStr ''internalStatus''),
                                       (''oldValue'', rfi ''internalStatus''),
                                       (''newValue'', JStr ''CLOSED''),
                                       (''changeReason'',
                                          JStr ''Manual response confirmed by admin'')]
                                      emptyRow]\<rparr>
                        in (Inr (applyData (confirmedData now userId manualResponse) rfi),
                            logged ''info'' [(''rfiId'', JStr rfiId), (''userId'', JStr userId)]
                              ''Manual RFI response confirmed and closed out'' s3)))))"

definition confirmManualSubmittalResponse ::
  "runtime \<Rightarrow> int \<Rightarrow> string \<Rightarrow> string \<Rightarrow> world \<Rightarrow> (js_error + row) \<times> world" where
  "confirmManualSubmittalResponse rt now submittalId userId s =
    (let s0 = logged ''info'' [(''submittalId'', JStr submittalId), (''userId'', JStr userId)]
                ''Admin confirming manual Submittal response'' s in
     case find (byId submittalId) (submittals s0) of
       None \<Rightarrow> (Inl (Error ''Submittal not found''), s0)
     | Some submittal \<Rightarrow>
         (case membershipsOf (submittal ''projectId'') userId s0 of
            [] \<Rightarrow> (Inl (Error ''User is not a member of this project''), s0)
          | membership # others \<Rightarrow>
              if \<not> isAdmin membership then
                (Inl (Error ''Only project admins can confirm manual responses''),
                 logged ''warn''
                   [(''submittalId'', JStr submittalId), (''userId'', JStr userId),
                    (''role'', membership ''role'')]
                   ''Non-admin attempted to confirm manual response'' s0)
              else if \<not> truthy (submittal ''hasManualResponse'') then
                (Inl (Error ''Submittal does not have a manual response to confirm''), s0)
              else if truthy (submittal ''manualResponseConfirmedAt'') then
                (Inl (Error ''Manual response has already been confirmed''), s0)
              else
                (case JSON_parse rt (manualResponseText submittal) of
                   None \<Rightarrow>
                     (Inl (Error ''Invalid manual response data''),
                      logged ''error'' [(''submittalId'', JStr submittalId)]
                        ''Failed to parse manual response data'' s0)
                 | Some manualResponse \<Rightarrow>
                     if manualResponse = JNull then (Inl TypeError, s0)
                     else
                       (let s1 = s0\<lparr>submittals :=
                                   updateWhere (byId submittalId)
                                     (confirmedData now userId manualResponse) (submittals s0)\<rparr>;
                            s2 = s1\<lparr>auditLog := auditLog s1 @
                                   [createRow
                                      [(''userId'', JStr userId),
                                       (''action'', JStr ''CONFIRM_MANUAL_RESPONSE''),
                                       (''entityType'', JStr ''SUBMITTAL''),
                                       (''entityId'', JStr submittalId),
                                       (''submittalId'', JStr submittalId),
                                       (''details'', JStr (stringify rt (JObj
                                          [(''manualResponseStatus'',
                                              jsGet manualResponse ''status''),
                                           (''respondedBy'', jsGet manualResponse ''respondedBy''),
                                           (''respondedAt'', jsGet manualResponse ''respondedAt''),
                                           (''confirmedAt'', JStr (toISOString rt now))])))]
                                      emptyRow]\<rparr>;
                            s3 = s2\<lparr>statusHistory := statusHistory s2 @
                                   [createRow
                                      [(''submittalId'', JStr submittalId),
                                       (''fieldName'', JStr ''internalStatus''),
                                       (''oldValue'', submittal ''internalStatus''),
                                       (''newValue'', JStr ''CLOSED''),
                                       (''changeReason'',
                                          JStr ''Manual response confirmed by admin'')]
                                      emptyRow]\<rparr>
                        in (Inr (applyData (confirmedData now userId manualResponse) submittal),
                            logged ''info''
                              [(''submittalId'', JStr submittalId), (''userId'', JStr userId)]
                              ''Manual Submittal response confirmed and closed out'' s3)))))"

section \<open>Internal status state machine (workflowService.ts)\<close>

text \<open>
  \<^verbatim>\<open>canTransitionStatus(currentStatus: string, newStatus: string, userRole: string)\<close>
  looks the current status up in an object literal. Statuses and roles are plain strings
  in the source, so they are strings here. A property read on an object literal also
  finds the members inherited from \<^verbatim>\<open>Object.prototype\<close>: for those names the value
  read is truthy but has no \<^verbatim>\<open>includes\<close> method, and the call throws a TypeError.
  For every other unknown name the read gives undefined and \<^verbatim>\<open>|| []\<close> applies.
\<close>

definition transitions :: "(string \<times> string list) list" where
  "transitions =
    [(''UNASSIGNED'', [''ASSIGNED_FOR_REVIEW'']),
     (''ASSIGNED_FOR_REVIEW'', [''UNDER_REVIEW'', ''UNASSIGNED'']),
     (''UNDER_REVIEW'', [''UNDER_QC'', ''ASSIGNED_FOR_REVIEW'']),
     (''UNDER_QC'', [''READY_FOR_RESPONSE'', ''UNDER_REVIEW'']),
     (''READY_FOR_RESPONSE'', [''SENT_TO_ACC'', ''UNDER_QC'']),
     (''SENT_TO_ACC'', [''CLOSED'']),
     (''CLOSED'', [])]"

definition objectPrototypeKeys :: "string list" where
  "objectPrototypeKeys =
    [''constructor'', ''__proto__'', ''hasOwnProperty'', ''isPrototypeOf'',
     ''propertyIsEnumerable'', ''toLocaleString'', ''toString'', ''valueOf'',
     ''__defineGetter__'', ''__defineSetter__'', ''__lookupGetter__'', ''__lookupSetter__'']"

definition roleAllows :: "string list \<Rightarrow> string \<Rightarrow> string \<Rightarrow> bool" where
  "roleAllows allowedTransitions newStatus userRole =
    (if newStatus \<notin> set allowedTransitions then False
     else if userRole = ''VIEWER'' then False
     else if userRole = ''REVIEWER'' \<and> newStatus \<in> set [''SENT_TO_ACC'', ''CLOSED''] then False
     else if userRole = ''QC_REVIEWER'' \<and> newStatus \<in> set [''SENT_TO_ACC'', ''CLOSED''] then False
     else True)"

definition canTransitionStatus :: "string \<Rightarrow> string \<Rightarrow> string \<Rightarrow> js_error + bool" where
  "canTransitionStatus currentStatus newStatus userRole =
    (case map_of transitions currentStatus of
       Some allowedTransitions \<Rightarrow> Inr (roleAllows allowedTransitions newStatus userRole)
     | None \<Rightarrow>
         if currentStatus \<in> set objectPrototypeKeys then Inl TypeError
         else Inr (roleAllows [] newStatus userRole))"

definition internalStatuses :: "string list" where
  "internalStatuses = map fst transitions"

section \<open>JSON values\<close>

text \<open>
  The values a payload field holds after \<^verbatim>\<open>JSON.parse\<close>: no undefined and no Date
  anywhere inside. \<open>jsonProjection\<close> says that each of the seven projected fields of a
  payload is absent or such a value.
\<close>

fun isJson :: "jsval \<Rightarrow> bool" where
  "isJson JNull = True"
| "isJson (JBool b) = True"
| "isJson (JNum n) = True"
| "isJson (JStr s) = True"
| "isJson (JArr xs) = list_all isJson xs"
| "isJson (JObj kvs) = list_all (\<lambda>(k, v). isJson v) kvs"
| "isJson _ = False"

definition jsonProjection :: "jsval \<Rightarrow> bool" where
  "jsonProjection d =
    list_all (\<lambda>f. jsGet d f = JUndefined \<or> isJson (jsGet d f)) projectedFields"

text \<open>Notions used to read a serialisation back.\<close>

definition isDigit :: "char \<Rightarrow> bool" where
  "isDigit c = (48 \<le> (of_char c :: nat) \<and> (of_char c :: nat) \<le> 57)"

definition delimited :: "string \<Rightarrow> bool" where
  "delimited r =
    (case r of [] \<Rightarrow> True | c # cs \<Rightarrow> c = CHR '','' \<or> c = CHR '']'' \<or> c = CHR ''}'')"

definition decodeNat :: "string \<Rightarrow> nat" where
  "decodeNat cs = foldl (\<lambda>acc c. acc * 10 + (of_char c - 48)) 0 cs"

definition plainChar :: "char \<Rightarrow> bool" where
  "plainChar c =
    (0x20 \<le> (of_char c :: nat) \<and> (of_char c :: nat) \<noteq> 0x22 \<and> (of_char c :: nat) \<noteq> 0x5C)"

section \<open>Example data\<close>

text \<open>
  A link, a project and the payload of the specification's scenario C (an open item that
  carries a response entered in the external platform), with a mirrored row of each module
  whose stored fingerprint is that of the payload.
\<close>

definition emptyWorld :: world where
  "emptyWorld =
    \<lparr>rfis = [], submittals = [], rfiAssignments = [], submittalAssignments = [], comments = [],
     statusHistory = [], auditLog = [], notifications = [], projects = [],
     projectMemberships = [], users = [], accProjectLinks = [], logs = [], accCalls = []\<rparr>"

definition demoLink :: row where
  "demoLink =
    applyData [(''id'', JStr ''link-1''), (''projectId'', JStr ''proj-1''),
               (''accProjectId'', JStr ''acc-1'')] emptyRow"

definition demoProject :: row where
  "demoProject = applyData [(''id'', JStr ''proj-1'')] emptyRow"

definition demoPayload :: jsval where
  "demoPayload =
    JObj [(''id'', JStr ''R-1''), (''status'', JStr ''open''),
          (''title'', JStr ''Clarify beam size''),
          (''response'', JObj [(''text'', JStr ''Approved''), (''respondedBy'', JStr ''ext-user'')])]"

definition demoRfi :: "runtime \<Rightarrow> data \<Rightarrow> row" where
  "demoRfi rt extra =
    applyData extra
      (applyData [(''id'', JStr ''rfi-1''), (''projectId'', JStr ''proj-1''),
                  (''accProjectLinkId'', JStr ''link-1''), (''accRfiId'', JStr ''R-1''),
                  (''accDataHash'', JStr (hashAccData rt demoPayload))] emptyRow)"

definition demoSubmittal :: "runtime \<Rightarrow> data \<Rightarrow> row" where
  "demoSubmittal rt extra =
    applyData extra
      (applyData [(''id'', JStr ''sub-1''), (''projectId'', JStr ''proj-1''),
                  (''accProjectLinkId'', JStr ''link-1''), (''accSubmittalId'', JStr ''R-1''),
                  (''accDataHash'', JStr (hashAccData rt demoPayload))] emptyRow)"

text \<open>The same item after its response text was edited in the external platform.\<close>

definition demoPayloadEdited :: jsval where
  "demoPayloadEdited =
    JObj [(''id'', JStr ''R-1''), (''status'', JStr ''open''),
          (''title'', JStr ''Clarify beam size''),
          (''response'', JObj [(''text'', JStr ''Approved as noted''),
                               (''respondedBy'', JStr ''ext-user'')])]"

text \<open>The columns of a row whose manual response was detected at 1000 and confirmed at 1500.\<close>

definition demoConfirmed :: "runtime \<Rightarrow> data" where
  "demoConfirmed rt =
    [(''hasManualResponse'', JBool True),
     (''manualResponseDetectedAt'', JDate 1000),
     (''manualResponseData'', manualResponseSnapshot rt 1000 demoPayload),
     (''manualResponseConfirmedBy'', JStr ''admin-1''),
     (''manualResponseConfirmedAt'', JDate 1500),
     (''internalStatus'', JStr ''CLOSED''),
     (''responseStatus'', JStr ''open''),
     (''responseText'', JStr ''Approved'')]"

text \<open>
  A store with one mirrored row per module (with the given extra columns), the link, a
  project admin, a reviewer and a viewer who was given the right to send.
\<close>

definition demoPending :: "runtime \<Rightarrow> data" where
  "demoPending rt =
    [(''hasManualResponse'', JBool True),
     (''manualResponseDetectedAt'', JDate 1000),
     (''manualResponseData'', manualResponseSnapshot rt 1000 demoPayload)]"

definition demoMember :: "string \<Rightarrow> string \<Rightarrow> bool \<Rightarrow> row" where
  "demoMember userId role canSend =
    applyData [(''projectId'', JStr ''proj-1''), (''userId'', JStr userId),
               (''role'', JStr role), (''canSendToAcc'', JBool canSend)] emptyRow"

definition demoUser :: "string \<Rightarrow> string \<Rightarrow> string \<Rightarrow> row" where
  "demoUser userId firstName lastName =
    applyData [(''id'', JStr userId), (''firstName'', JStr firstName),
               (''lastName'', JStr lastName)] emptyRow"

definition demoWorld :: "runtime \<Rightarrow> data \<Rightarrow> world" where
  "demoWorld rt extra =
    emptyWorld
      \<lparr>rfis := [demoRfi rt extra],
       submittals := [demoSubmittal rt extra],
       projects := [demoProject],
       projectMemberships :=
         [demoMember ''admin-1'' ''PROJECT_ADMIN'' False,
          demoMember ''reviewer-1'' ''REVIEWER'' False,
          demoMember ''viewer-1'' ''VIEWER'' True],
       users := [demoUser ''admin-1'' ''Ada'' ''Admin'', demoUser ''reviewer-1'' ''Rex'' ''Reviewer''],
       accProjectLinks := [demoLink]\<rparr>"

text \<open>A JSON parser that reads every text as the captured response of the example.\<close>

definition demoParsed :: jsval where
  "demoParsed = JObj [(''status'', JStr ''open''), (''text'', JStr ''Approved'')]"

text \<open>
  A project whose deadline rules give high-priority items a review percentage written as
  the string "40" (and no QC percentage), with a parser that reads the stored text as
  those rules and a number conversion that reads that string as 40, and a store whose
  records are due at 5000 with priority High.
\<close>

definition demoRules :: jsval where
  "demoRules = JObj [(''high'', JObj [(''reviewPercent'', JStr ''40'')])]"

definition demoRulesRuntime :: "runtime \<Rightarrow> runtime" where
  "demoRulesRuntime rt =
    rt\<lparr>JSON_parse := \<lambda>t. Some demoRules,
       coerceNumber := \<lambda>v. if v = JStr ''40'' then Inr (Finite 40) else Inr NaN\<rparr>"

definition demoDue :: data where
  "demoDue = [(''accDueDate'', JDate 5000), (''priority'', JStr ''High'')]"

definition demoRulesWorld :: "runtime \<Rightarrow> world" where
  "demoRulesWorld rt =
    (demoWorld rt demoDue)
      \<lparr>projects := [applyData [(''deadlineRules'', JStr ''{\"high\":{\"reviewPercent\":\"40\"}}'')]
                      demoProject]\<rparr>"

text \<open>
  An external platform that refuses the upload of a file named b.pdf to an RFI and the
  post of a response to a Submittal and accepts everything else, and a response that
  selects a.pdf and b.pdf.
\<close>

definition demoExternal :: external where
  "demoExternal =
    \<lparr>getValidToken = (\<lambda>tr tok. Inr (JStr ''token'')),
     updateRFIStatus = (\<lambda>tr p a st tok. Inr ()),
     postRFIResponse = (\<lambda>tr p a tx tok. Inr ()),
     uploadRFIAttachment =
       (\<lambda>tr p a buf name tok.
          if name = JStr ''b.pdf'' then Inl (Error ''upload refused'') else Inr ()),
     updateSubmittalStatus = (\<lambda>tr p a st tok. Inr ()),
     postSubmittalResponse = (\<lambda>tr p a tx tok. Inl (Error ''post refused'')),
     uploadSubmittalAttachment = (\<lambda>tr p a buf name tok. Inr ()),
     readFile = (\<lambda>tr p. Inr (JStr ''bytes''))\<rparr>"

definition demoDto :: sendResponseDto where
  "demoDto =
    \<lparr>responseStatus = ''answered'', responseText = ''See markup'',
     selectedFilePaths = [''a.pdf'', ''b.pdf'']\<rparr>"

definition demoPlainRuntime :: "runtime \<Rightarrow> runtime" where
  "demoPlainRuntime rt = rt\<lparr>basename := \<lambda>p. p\<rparr>"

section \<open>General lemmas about rows and tables\<close>

lemma find_filter: "find P xs = (case filter P xs of [] \<Rightarrow> None | x # _ \<Rightarrow> Some x)"
  by (induction xs) auto

lemma find_append_new: "find P xs = None \<Longrightarrow> P r \<Longrightarrow> find P (xs @ [r]) = Some r"
  by (induction xs) (auto split: if_splits)

lemma applyData_other: "c \<notin> set (map fst d) \<Longrightarrow> applyData d r c = r c"
  by (simp add: applyData_def map_of_eq_None_iff [THEN iffD2])

lemma updateWhere_none: "\<forall>x \<in> set rows. \<not> P x \<Longrightarrow> updateWhere P d rows = rows"
  by (induction rows) (auto simp: updateWhere_def)

lemma updateWhere_append:
  "updateWhere P d (xs @ ys) = updateWhere P d xs @ updateWhere P d ys"
  by (simp add: updateWhere_def)

lemma updateWhere_length: "length (updateWhere P d rows) = length rows"
  by (simp add: updateWhere_def)

lemma map_col_updateWhere:
  "c \<notin> set (map fst d) \<Longrightarrow> map (\<lambda>r. r c) (updateWhere P d rows) = map (\<lambda>r. r c) rows"
  by (induction rows) (auto simp: updateWhere_def applyData_other)

lemma filter_updateWhere:
  "(\<And>r. P (applyData d r) = P r) \<Longrightarrow>
   filter P (updateWhere P d rows) = map (applyData d) (filter P rows)"
  by (induction rows) (auto simp: updateWhere_def)

lemma hexDigest_length: "length (hexDigest w) = 64"
  by (simp add: hexDigest_def)

lemma hexDigit_inj: "i < 16 \<Longrightarrow> j < 16 \<Longrightarrow> hexDigit i = hexDigit j \<Longrightarrow> i = j"
proof -
  have d: "distinct ''0123456789abcdef''" by simp
  assume "i < 16" "j < 16" "hexDigit i = hexDigit j"
  then show "i = j"
    unfolding hexDigit_def using d by (simp add: nth_eq_iff_index_eq)
qed

section \<open>Properties of the synchronisation\<close>

lemma rfiUpdateData_keys:
  "map fst (rfiUpdateData rt now a h u cs m md) =
    [''title'', ''discipline'', ''accStatus'', ''priority'', ''accCreatedBy'', ''accAssignedTo'',
     ''accDueDate'', ''accDescription'', ''accContractorComments'', ''accUpdatedAt'',
     ''accDataHash'', ''hasUnacknowledgedChange'', ''lastAccChangeAt'', ''changesSummary'',
     ''hasManualResponse'', ''manualResponseDetectedAt'', ''manualResponseData'', ''lastSeenAt'']"
  by (simp add: rfiUpdateData_def)

lemma submittalUpdateData_keys:
  "map fst (submittalUpdateData rt now a h u cs m md) =
    [''title'', ''specSection'', ''packageNumber'', ''accStatus'', ''priority'', ''accCreatedBy'',
     ''accAssignedTo'', ''accDueDate'', ''accDescription'', ''accContractorComments'',
     ''accUpdatedAt'', ''accDataHash'', ''hasUnacknowledgedChange'', ''lastAccChangeAt'',
     ''changesSummary'', ''hasManualResponse'', ''manualResponseDetectedAt'',
     ''manualResponseData'', ''lastSeenAt'']"
  by (simp add: submittalUpdateData_def)

lemma processRfi_rows:
  "(\<exists>new. rfis (snd (processRfi rt now p l a s)) = rfis s @ [new]) \<or>
   (\<exists>u cs m md. rfis (snd (processRfi rt now p l a s)) =
       updateWhere (rfiKey l a) (rfiUpdateData rt now a (hashAccData rt a) u cs m md) (rfis s)) \<or>
   snd (processRfi rt now p l a s) = s"
  by (auto simp: processRfi_def Let_def logged_def split: option.splits sum.splits)

lemma processRfi_internal:
  assumes "c \<in> set internallyOwned"
  shows "map (\<lambda>r. r c) (take (length (rfis s)) (rfis (snd (processRfi rt now p l a s)))) =
         map (\<lambda>r. r c) (rfis s)"
proof -
  have nc: "c \<notin> set (map fst (rfiUpdateData rt now a h u cs m md))" for h u cs m md
    using assms by (auto simp: rfiUpdateData_keys internallyOwned_def)
  from processRfi_rows [of rt now p l a s] show ?thesis
  proof (elim disjE exE)
    fix new assume "rfis (snd (processRfi rt now p l a s)) = rfis s @ [new]"
    then show ?thesis by simp
  next
    fix u cs m md
    assume "rfis (snd (processRfi rt now p l a s)) =
       updateWhere (rfiKey l a) (rfiUpdateData rt now a (hashAccData rt a) u cs m md) (rfis s)"
    then show ?thesis
      using map_col_updateWhere [OF nc, of "rfiKey l a" "hashAccData rt a" u cs m md "rfis s"]
      by (simp add: updateWhere_def)
  next
    assume "snd (processRfi rt now p l a s) = s"
    then show ?thesis by simp
  qed
qed

lemma processRfi_relations:
  "rfiAssignments (snd (processRfi rt now p l a s)) = rfiAssignments s \<and>
   submittalAssignments (snd (processRfi rt now p l a s)) = submittalAssignments s \<and>
   comments (snd (processRfi rt now p l a s)) = comments s"
  by (auto simp: processRfi_def Let_def logged_def split: option.splits sum.splits)

lemma rfiKey_update [simp]:
  "rfiKey l a (applyData (rfiUpdateData rt now a' h u cs m md) r) = rfiKey l a r"
  by (simp add: rfiKey_def applyData_other rfiUpdateData_keys)

lemma created_rfi_columns:
  "createRow (rfiCreateData rt now p l a h) (mirrorDefaults rt n) ''hasManualResponse'' = JBool False"
  "createRow (rfiCreateData rt now p l a h) (mirrorDefaults rt n) ''manualResponseData'' = JNull"
  "createRow (rfiCreateData rt now p l a h) (mirrorDefaults rt n) ''manualResponseDetectedAt'' = JNull"
  "createRow (rfiCreateData rt now p l a h) (mirrorDefaults rt n) ''responseSentAt'' = JNull"
  "createRow (rfiCreateData rt now p l a h) (mirrorDefaults rt n) ''accDataHash'' = JStr h"
  by (simp_all add: createRow_def applyData_def rfiCreateData_def mirrorDefaults_def emptyRow_def)

lemma created_rfi_key:
  "l ''id'' \<noteq> JUndefined \<Longrightarrow> jsGet a ''id'' \<noteq> JUndefined \<Longrightarrow>
   rfiKey l a (createRow (rfiCreateData rt now p l a h) (mirrorDefaults rt n))"
  by (simp add: rfiKey_def createRow_def applyData_def rfiCreateData_def)

lemma processRfi_create:
  "find (rfiKey l a) (rfis s) = None \<Longrightarrow>
   processRfi rt now p l a s =
     (Inr True, s\<lparr>rfis := rfis s @
        [createRow (rfiCreateData rt now p l a (hashAccData rt a))
           (mirrorDefaults rt (length (rfis s)))]\<rparr>)"
  by (simp add: processRfi_def)

lemma processRfi_same_hash:
  "find (rfiKey l a) (rfis s) = Some e \<Longrightarrow> e ''accDataHash'' = JStr (hashAccData rt a) \<Longrightarrow>
   fst (processRfi rt now p l a s) = Inr False \<and>
   rfis (snd (processRfi rt now p l a s)) =
     updateWhere (rfiKey l a) (rfiSyncUpdate rt now e a JNull) (rfis s)"
  by (simp add: processRfi_def Let_def strictEq_def rfiSyncUpdate_def logged_def)

lemma processRfi_existing:
  "find (rfiKey l a) (rfis s) = Some e \<Longrightarrow> processRfi rt now p l a s = (Inr b, s') \<Longrightarrow>
   \<exists>cs. rfis s' = updateWhere (rfiKey l a) (rfiSyncUpdate rt now e a cs) (rfis s)"
  by (auto simp: processRfi_def Let_def rfiSyncUpdate_def logged_def
      split: sum.splits if_splits)

lemma processRfi_error:
  "processRfi rt now p l a s = (Inl e, s') \<Longrightarrow> s' = s"
  by (auto simp: processRfi_def Let_def split: option.splits sum.splits if_splits)

lemma rfiSyncUpdate_manual:
  "manualResponseDetected e a \<Longrightarrow>
   applyData (rfiSyncUpdate rt now e a cs) r ''hasManualResponse'' = JBool True \<and>
   applyData (rfiSyncUpdate rt now e a cs) r ''manualResponseDetectedAt'' = JDate now \<and>
   applyData (rfiSyncUpdate rt now e a cs) r ''manualResponseData'' =
     manualResponseSnapshot rt now a"
  by (simp add: rfiSyncUpdate_def rfiUpdateData_def applyData_def manualResponseSnapshot_def)

lemma rfiSyncUpdate_no_manual:
  "\<not> manualResponseDetected e a \<Longrightarrow>
   applyData (rfiSyncUpdate rt now e a cs) r ''hasManualResponse'' = r ''hasManualResponse'' \<and>
   applyData (rfiSyncUpdate rt now e a cs) r ''manualResponseDetectedAt'' =
     r ''manualResponseDetectedAt'' \<and>
   applyData (rfiSyncUpdate rt now e a cs) r ''manualResponseData'' = r ''manualResponseData''"
  by (simp add: rfiSyncUpdate_def rfiUpdateData_def applyData_def)

lemma rfiSyncUpdate_flag:
  "applyData (rfiSyncUpdate rt now e a cs) r ''hasUnacknowledgedChange'' =
     JBool (\<not> strictEq (e ''accDataHash'') (JStr (hashAccData rt a)))"
  by (simp add: rfiSyncUpdate_def rfiUpdateData_def applyData_def)

lemma rfi_create_then_sync:
  assumes none: "find (rfiKey l a) (rfis s) = None"
  shows "\<exists>r. processRfi rt now p l a s = (Inr True, s\<lparr>rfis := rfis s @ [r]\<rparr>) \<and>
           r ''hasManualResponse'' = JBool False \<and> r ''manualResponseData'' = JNull \<and>
           (l ''id'' \<noteq> JUndefined \<and> jsGet a ''id'' \<noteq> JUndefined \<and>
            truthy (jsGet a ''response'') \<and> truthy (jsGet (jsGet a ''response'') ''text'') \<longrightarrow>
              fst (processRfi rt now' p l a (s\<lparr>rfis := rfis s @ [r]\<rparr>)) = Inr False \<and>
              (\<exists>r'. rfis (snd (processRfi rt now' p l a (s\<lparr>rfis := rfis s @ [r]\<rparr>))) =
                      rfis s @ [r'] \<and>
                    r' ''hasManualResponse'' = JBool True \<and>
                    r' ''manualResponseData'' = manualResponseSnapshot rt now' a))"
proof -
  define r where "r = createRow (rfiCreateData rt now p l a (hashAccData rt a))
           (mirrorDefaults rt (length (rfis s)))"
  have later: "fst (processRfi rt now' p l a (s\<lparr>rfis := rfis s @ [r]\<rparr>)) = Inr False \<and>
              (\<exists>r'. rfis (snd (processRfi rt now' p l a (s\<lparr>rfis := rfis s @ [r]\<rparr>))) =
                      rfis s @ [r'] \<and>
                    r' ''hasManualResponse'' = JBool True \<and>
                    r' ''manualResponseData'' = manualResponseSnapshot rt now' a)"
    if ids: "l ''id'' \<noteq> JUndefined" "jsGet a ''id'' \<noteq> JUndefined"
      and resp: "truthy (jsGet a ''response'')" "truthy (jsGet (jsGet a ''response'') ''text'')"
  proof -
    have key: "rfiKey l a r" unfolding r_def using ids by (rule created_rfi_key)
    have nokey: "\<forall>x \<in> set (rfis s). \<not> rfiKey l a x"
      using none by (simp add: find_None_iff)
    have f: "find (rfiKey l a) (rfis (s\<lparr>rfis := rfis s @ [r]\<rparr>)) = Some r"
      using none key by (simp add: find_append_new)
    have h: "r ''accDataHash'' = JStr (hashAccData rt a)"
      unfolding r_def by (simp add: created_rfi_columns)
    have det: "manualResponseDetected r a"
      using resp unfolding r_def by (simp add: manualResponseDetected_def created_rfi_columns)
    have "updateWhere (rfiKey l a) d (rfis s @ [r]) = rfis s @ [applyData d r]" for d
      using key nokey by (simp add: updateWhere_append updateWhere_none) (simp add: updateWhere_def)
    with processRfi_same_hash [OF f h, of now' p]
      rfiSyncUpdate_manual [OF det, of rt now' JNull r]
    show ?thesis by simp
  qed
  show ?thesis
    apply (rule exI [of _ r])
    using processRfi_create [OF none, of rt now p] later
    by (simp add: r_def created_rfi_columns)
qed

lemma processSubmittal_rows:
  "(\<exists>new. submittals (snd (processSubmittal rt now p l a s)) = submittals s @ [new]) \<or>
   (\<exists>u cs m md. submittals (snd (processSubmittal rt now p l a s)) =
       updateWhere (submittalKey l a) (submittalUpdateData rt now a (hashAccData rt a) u cs m md) (submittals s)) \<or>
   snd (processSubmittal rt now p l a s) = s"
  by (auto simp: processSubmittal_def Let_def logged_def split: option.splits sum.splits)

lemma processSubmittal_internal:
  assumes "c \<in> set internallyOwned"
  shows "map (\<lambda>r. r c) (take (length (submittals s)) (submittals (snd (processSubmittal rt now p l a s)))) =
         map (\<lambda>r. r c) (submittals s)"
proof -
  have nc: "c \<notin> set (map fst (submittalUpdateData rt now a h u cs m md))" for h u cs m md
    using assms by (auto simp: submittalUpdateData_keys internallyOwned_def)
  from processSubmittal_rows [of rt now p l a s] show ?thesis
  proof (elim disjE exE)
    fix new assume "submittals (snd (processSubmittal rt now p l a s)) = submittals s @ [new]"
    then show ?thesis by simp
  next
    fix u cs m md
    assume "submittals (snd (processSubmittal rt now p l a s)) =
       updateWhere (submittalKey l a) (submittalUpdateData rt now a (hashAccData rt a) u cs m md) (submittals s)"
    then show ?thesis
      using map_col_updateWhere [OF nc, of "submittalKey l a" "hashAccData rt a" u cs m md "submittals s"]
      by (simp add: updateWhere_def)
  next
    assume "snd (processSubmittal rt now p l a s) = s"
    then show ?thesis by simp
  qed
qed

lemma processSubmittal_relations:
  "rfiAssignments (snd (processSubmittal rt now p l a s)) = rfiAssignments s \<and>
   submittalAssignments (snd (processSubmittal rt now p l a s)) = submittalAssignments s \<and>
   comments (snd (processSubmittal rt now p l a s)) = comments s"
  by (auto simp: processSubmittal_def Let_def logged_def split: option.splits sum.splits)

lemma submittalKey_update [simp]:
  "submittalKey l a (applyData (submittalUpdateData rt now a' h u cs m md) r) = submittalKey l a r"
  by (simp add: submittalKey_def applyData_other submittalUpdateData_keys)

lemma created_submittal_columns:
  "createRow (submittalCreateData rt now p l a h) (mirrorDefaults rt n) ''hasManualResponse'' = JBool False"
  "createRow (submittalCreateData rt now p l a h) (mirrorDefaults rt n) ''manualResponseData'' = JNull"
  "createRow (submittalCreateData rt now p l a h) (mirrorDefaults rt n) ''manualResponseDetectedAt'' = JNull"
  "createRow (submittalCreateData rt now p l a h) (mirrorDefaults rt n) ''responseSentAt'' = JNull"
  "createRow (submittalCreateData rt now p l a h) (mirrorDefaults rt n) ''accDataHash'' = JStr h"
  by (simp_all add: createRow_def applyData_def submittalCreateData_def mirrorDefaults_def emptyRow_def)

lemma created_submittal_key:
  "l ''id'' \<noteq> JUndefined \<Longrightarrow> jsGet a ''id'' \<noteq> JUndefined \<Longrightarrow>
   submittalKey l a (createRow (submittalCreateData rt now p l a h) (mirrorDefaults rt n))"
  by (simp add: submittalKey_def createRow_def applyData_def submittalCreateData_def)

lemma processSubmittal_create:
  "find (submittalKey l a) (submittals s) = None \<Longrightarrow>
   processSubmittal rt now p l a s =
     (Inr True, s\<lparr>submittals := submittals s @
        [createRow (submittalCreateData rt now p l a (hashAccData rt a))
           (mirrorDefaults rt (length (submittals s)))]\<rparr>)"
  by (simp add: processSubmittal_def)

lemma processSubmittal_same_hash:
  "find (submittalKey l a) (submittals s) = Some e \<Longrightarrow> e ''accDataHash'' = JStr (hashAccData rt a) \<Longrightarrow>
   fst (processSubmittal rt now p l a s) = Inr False \<and>
   submittals (snd (processSubmittal rt now p l a s)) =
     updateWhere (submittalKey l a) (submittalSyncUpdate rt now e a JNull) (submittals s)"
  by (simp add: processSubmittal_def Let_def strictEq_def submittalSyncUpdate_def logged_def)

lemma processSubmittal_existing:
  "find (submittalKey l a) (submittals s) = Some e \<Longrightarrow> processSubmittal rt now p l a s = (Inr b, s') \<Longrightarrow>
   \<exists>cs. submittals s' = updateWhere (submittalKey l a) (submittalSyncUpdate rt now e a cs) (submittals s)"
  by (auto simp: processSubmittal_def Let_def submittalSyncUpdate_def logged_def
      split: sum.splits if_splits)

lemma processSubmittal_error:
  "processSubmittal rt now p l a s = (Inl e, s') \<Longrightarrow> s' = s"
  by (auto simp: processSubmittal_def Let_def split: option.splits sum.splits if_splits)

lemma submittalSyncUpdate_manual:
  "manualResponseDetected e a \<Longrightarrow>
   applyData (submittalSyncUpdate rt now e a cs) r ''hasManualResponse'' = JBool True \<and>
   applyData (submittalSyncUpdate rt now e a cs) r ''manualResponseDetectedAt'' = JDate now \<and>
   applyData (submittalSyncUpdate rt now e a cs) r ''manualResponseData'' =
     manualResponseSnapshot rt now a"
  by (simp add: submittalSyncUpdate_def submittalUpdateData_def applyData_def manualResponseSnapshot_def)

lemma submittalSyncUpdate_no_manual:
  "\<not> manualResponseDetected e a \<Longrightarrow>
   applyData (submittalSyncUpdate rt now e a cs) r ''hasManualResponse'' = r ''hasManualResponse'' \<and>
   applyData (submittalSyncUpdate rt now e a cs) r ''manualResponseDetectedAt'' =
     r ''manualResponseDetectedAt'' \<and>
   applyData (submittalSyncUpdate rt now e a cs) r ''manualResponseData'' = r ''manualResponseData''"
  by (simp add: submittalSyncUpdate_def submittalUpdateData_def applyData_def)

lemma submittalSyncUpdate_flag:
  "applyData (submittalSyncUpdate rt now e a cs) r ''hasUnacknowledgedChange'' =
     JBool (\<not> strictEq (e ''accDataHash'') (JStr (hashAccData rt a)))"
  by (simp add: submittalSyncUpdate_def submittalUpdateData_def applyData_def)

lemma submittal_create_then_sync:
  assumes none: "find (submittalKey l a) (submittals s) = None"
  shows "\<exists>r. processSubmittal rt now p l a s = (Inr True, s\<lparr>submittals := submittals s @ [r]\<rparr>) \<and>
           r ''hasManualResponse'' = JBool False \<and> r ''manualResponseData'' = JNull \<and>
           (l ''id'' \<noteq> JUndefined \<and> jsGet a ''id'' \<noteq> JUndefined \<and>
            truthy (jsGet a ''response'') \<and> truthy (jsGet (jsGet a ''response'') ''text'') \<longrightarrow>
              fst (processSubmittal rt now' p l a (s\<lparr>submittals := submittals s @ [r]\<rparr>)) = Inr False \<and>
              (\<exists>r'. submittals (snd (processSubmittal rt now' p l a (s\<lparr>submittals := submittals s @ [r]\<rparr>))) =
                      submittals s @ [r'] \<and>
                    r' ''hasManualResponse'' = JBool True \<and>
                    r' ''manualResponseData'' = manualResponseSnapshot rt now' a))"
proof -
  define r where "r = createRow (submittalCreateData rt now p l a (hashAccData rt a))
           (mirrorDefaults rt (length (submittals s)))"
  have later: "fst (processSubmittal rt now' p l a (s\<lparr>submittals := submittals s @ [r]\<rparr>)) = Inr False \<and>
              (\<exists>r'. submittals (snd (processSubmittal rt now' p l a (s\<lparr>submittals := submittals s @ [r]\<rparr>))) =
                      submittals s @ [r'] \<and>
                    r' ''hasManualResponse'' = JBool True \<and>
                    r' ''manualResponseData'' = manualResponseSnapshot rt now' a)"
    if ids: "l ''id'' \<noteq> JUndefined" "jsGet a ''id'' \<noteq> JUndefined"
      and resp: "truthy (jsGet a ''response'')" "truthy (jsGet (jsGet a ''response'') ''text'')"
  proof -
    have key: "submittalKey l a r" unfolding r_def using ids by (rule created_submittal_key)
    have nokey: "\<forall>x \<in> set (submittals s). \<not> submittalKey l a x"
      using none by (simp add: find_None_iff)
    have f: "find (submittalKey l a) (submittals (s\<lparr>submittals := submittals s @ [r]\<rparr>)) = Some r"
      using none key by (simp add: find_append_new)
    have h: "r ''accDataHash'' = JStr (hashAccData rt a)"
      unfolding r_def by (simp add: created_submittal_columns)
    have det: "manualResponseDetected r a"
      using resp unfolding r_def by (simp add: manualResponseDetected_def created_submittal_columns)
    have "updateWhere (submittalKey l a) d (submittals s @ [r]) = submittals s @ [applyData d r]" for d
      using key nokey by (simp add: updateWhere_append updateWhere_none) (simp add: updateWhere_def)
    with processSubmittal_same_hash [OF f h, of now' p]
      submittalSyncUpdate_manual [OF det, of rt now' JNull r]
    show ?thesis by simp
  qed
  show ?thesis
    apply (rule exI [of _ r])
    using processSubmittal_create [OF none, of rt now p] later
    by (simp add: r_def created_submittal_columns)
qed

text \<open>
  C6. The update payload that \<open>processRfi\<close> and \<open>processSubmittal\<close> build names no
  internally-owned column, whatever the payload and the flags; every row that existed
  before a synchronisation keeps the value of each internally-owned column, and the
  assignment and comment tables are not written.
\<close>

theorem sync_leaves_internally_owned:
  "set (map fst (rfiUpdateData rt now a h u cs m md)) \<inter> set internallyOwned = {} \<and>
   set (map fst (submittalUpdateData rt now a h u cs m md)) \<inter> set internallyOwned = {} \<and>
   (\<forall>c \<in> set internallyOwned.
      map (\<lambda>r. r c) (take (length (rfis s)) (rfis (snd (processRfi rt now p l a s)))) =
        map (\<lambda>r. r c) (rfis s) \<and>
      map (\<lambda>r. r c)
          (take (length (submittals s)) (submittals (snd (processSubmittal rt now p l a s)))) =
        map (\<lambda>r. r c) (submittals s)) \<and>
   rfiAssignments (snd (processRfi rt now p l a s)) = rfiAssignments s \<and>
   comments (snd (processRfi rt now p l a s)) = comments s \<and>
   submittalAssignments (snd (processSubmittal rt now p l a s)) = submittalAssignments s \<and>
   comments (snd (processSubmittal rt now p l a s)) = comments s"
proof -
  have "set (map fst (rfiUpdateData rt now a h u cs m md)) \<inter> set internallyOwned = {}"
    unfolding rfiUpdateData_keys by (simp add: internallyOwned_def)
  moreover
  have "set (map fst (submittalUpdateData rt now a h u cs m md)) \<inter> set internallyOwned = {}"
    unfolding submittalUpdateData_keys by (simp add: internallyOwned_def)
  ultimately show ?thesis
    using processRfi_internal [of _ s rt now p l a] processSubmittal_internal [of _ s rt now p l a]
      processRfi_relations [of rt now p l a s] processSubmittal_relations [of rt now p l a s]
    by blast
qed

theorem sync_leaves_internally_owned_witness:
  "''responseText'' \<in> set internallyOwned \<and>
   (\<forall>rt. map (\<lambda>r. (r ''responseText'', r ''accStatus''))
      (take 1 (rfis (snd (processRfi rt 2000 demoProject demoLink demoPayload
         (emptyWorld\<lparr>rfis := [demoRfi rt [(''responseText'', JStr ''draft answer''),
                                           (''accStatus'', JStr ''draft'')]]\<rparr>))))) =
      [(JStr ''draft answer'', JStr ''open'')])"
proof -
  have "map (\<lambda>r. (r ''responseText'', r ''accStatus''))
      (take 1 (rfis (snd (processRfi rt 2000 demoProject demoLink demoPayload
         (emptyWorld\<lparr>rfis := [demoRfi rt [(''responseText'', JStr ''draft answer''),
                                           (''accStatus'', JStr ''draft'')]]\<rparr>))))) =
      [(JStr ''draft answer'', JStr ''open'')]" (is "map _ (take 1 (rfis ?s')) = _") for rt
  proof -
    have a: "map (\<lambda>r. r ''responseText'') (take 1 (rfis ?s')) = [JStr ''draft answer'']"
      using sync_leaves_internally_owned [of rt 2000 demoPayload "[]" False JNull False JNull
        "emptyWorld\<lparr>rfis := [demoRfi rt [(''responseText'', JStr ''draft answer''),
                                           (''accStatus'', JStr ''draft'')]]\<rparr>"
        demoProject demoLink]
      by (simp add: internallyOwned_def demoRfi_def applyData_def)
    have b: "map (\<lambda>r. r ''accStatus'') (rfis ?s') = [JStr ''open'']"
      by (simp add: processRfi_def find_filter Let_def strictEq_def logged_def updateWhere_def
          demoRfi_def demoLink_def demoPayload_def rfiKey_def emptyWorld_def
          manualResponseDetected_def applyData_def rfiUpdateData_def emptyRow_def)
    from a b show ?thesis by (cases "rfis ?s'") auto
  qed
  then show ?thesis by (simp add: internallyOwned_def)
qed

text \<open>
  C10. When no row has the key of the incoming item, \<open>processRfi\<close> and \<open>processSubmittal\<close>
  create the row with \<open>hasManualResponse\<close> false and \<open>manualResponseData\<close> null, whatever
  the payload carries. When the payload carries a response text, it is the next
  synchronisation of that item, which finds the row, that sets the flag and captures the
  response.
\<close>

theorem created_record_not_flagged:
  "(find (rfiKey l a) (rfis s) = None \<longrightarrow>
     (\<exists>r. processRfi rt now p l a s = (Inr True, s\<lparr>rfis := rfis s @ [r]\<rparr>) \<and>
           r ''hasManualResponse'' = JBool False \<and> r ''manualResponseData'' = JNull \<and>
           (l ''id'' \<noteq> JUndefined \<and> jsGet a ''id'' \<noteq> JUndefined \<and>
            truthy (jsGet a ''response'') \<and> truthy (jsGet (jsGet a ''response'') ''text'') \<longrightarrow>
              fst (processRfi rt now' p l a (s\<lparr>rfis := rfis s @ [r]\<rparr>)) = Inr False \<and>
              (\<exists>r'. rfis (snd (processRfi rt now' p l a (s\<lparr>rfis := rfis s @ [r]\<rparr>))) =
                      rfis s @ [r'] \<and>
                    r' ''hasManualResponse'' = JBool True \<and>
                    r' ''manualResponseData'' = manualResponseSnapshot rt now' a)))) \<and>
   (find (submittalKey l a) (submittals s) = None \<longrightarrow>
     (\<exists>r. processSubmittal rt now p l a s = (Inr True, s\<lparr>submittals := submittals s @ [r]\<rparr>) \<and>
           r ''hasManualResponse'' = JBool False \<and> r ''manualResponseData'' = JNull \<and>
           (l ''id'' \<noteq> JUndefined \<and> jsGet a ''id'' \<noteq> JUndefined \<and>
            truthy (jsGet a ''response'') \<and> truthy (jsGet (jsGet a ''response'') ''text'') \<longrightarrow>
              fst (processSubmittal rt now' p l a (s\<lparr>submittals := submittals s @ [r]\<rparr>)) =
                Inr False \<and>
              (\<exists>r'. submittals
                      (snd (processSubmittal rt now' p l a
                              (s\<lparr>submittals := submittals s @ [r]\<rparr>))) =
                      submittals s @ [r'] \<and>
                    r' ''hasManualResponse'' = JBool True \<and>
                    r' ''manualResponseData'' = manualResponseSnapshot rt now' a))))"
  using rfi_create_then_sync [of l a s rt now p now']
    submittal_create_then_sync [of l a s rt now p now']
  by blast

theorem created_record_not_flagged_witness:
  "\<forall>rt. find (rfiKey demoLink demoPayload) (rfis emptyWorld) = None \<and>
     demoLink ''id'' \<noteq> JUndefined \<and> jsGet demoPayload ''id'' \<noteq> JUndefined \<and>
     truthy (jsGet demoPayload ''response'') \<and>
     truthy (jsGet (jsGet demoPayload ''response'') ''text'') \<and>
     (\<exists>r. processRfi rt 1000 demoProject demoLink demoPayload emptyWorld =
             (Inr True, emptyWorld\<lparr>rfis := [r]\<rparr>) \<and>
           r ''hasManualResponse'' = JBool False \<and> r ''manualResponseData'' = JNull \<and>
           fst (processRfi rt 2000 demoProject demoLink demoPayload (emptyWorld\<lparr>rfis := [r]\<rparr>)) =
             Inr False \<and>
           (\<exists>r'. rfis (snd (processRfi rt 2000 demoProject demoLink demoPayload
                              (emptyWorld\<lparr>rfis := [r]\<rparr>))) = [r'] \<and>
                 r' ''hasManualResponse'' = JBool True \<and>
                 r' ''manualResponseData'' = manualResponseSnapshot rt 2000 demoPayload))"
proof
  fix rt
  have h: "find (rfiKey demoLink demoPayload) (rfis emptyWorld) = None"
    "demoLink ''id'' \<noteq> JUndefined" "jsGet demoPayload ''id'' \<noteq> JUndefined"
    "truthy (jsGet demoPayload ''response'')"
    "truthy (jsGet (jsGet demoPayload ''response'') ''text'')"
    by (simp_all add: emptyWorld_def demoLink_def demoPayload_def applyData_def)
  have e: "rfis emptyWorld = []" by (simp add: emptyWorld_def)
  from created_record_not_flagged [of demoLink demoPayload emptyWorld rt 1000 demoProject 2000] h
  show "find (rfiKey demoLink demoPayload) (rfis emptyWorld) = None \<and>
     demoLink ''id'' \<noteq> JUndefined \<and> jsGet demoPayload ''id'' \<noteq> JUndefined \<and>
     truthy (jsGet demoPayload ''response'') \<and>
     truthy (jsGet (jsGet demoPayload ''response'') ''text'') \<and>
     (\<exists>r. processRfi rt 1000 demoProject demoLink demoPayload emptyWorld =
             (Inr True, emptyWorld\<lparr>rfis := [r]\<rparr>) \<and>
           r ''hasManualResponse'' = JBool False \<and> r ''manualResponseData'' = JNull \<and>
           fst (processRfi rt 2000 demoProject demoLink demoPayload (emptyWorld\<lparr>rfis := [r]\<rparr>)) =
             Inr False \<and>
           (\<exists>r'. rfis (snd (processRfi rt 2000 demoProject demoLink demoPayload
                              (emptyWorld\<lparr>rfis := [r]\<rparr>))) = [r'] \<and>
                 r' ''hasManualResponse'' = JBool True \<and>
                 r' ''manualResponseData'' = manualResponseSnapshot rt 2000 demoPayload))"
    unfolding e by (simp only: h simp_thms append_Nil) 
qed

text \<open>
  C1 (the code departs from the claim). A row whose change flag is set and whose stored
  fingerprint equals that of the incoming payload is written with the flag false: the
  update payload carries \<open>hasUnacknowledgedChange\<close> unconditionally, so the next
  synchronisation of an unchanged item clears the flag without any acknowledgement.
\<close>

theorem sync_clears_change_flag:
  "fst (processRfi rt now p demoLink demoPayload
          (s\<lparr>rfis := [demoRfi rt [(''hasUnacknowledgedChange'', JBool True)]]\<rparr>)) = Inr False \<and>
   map (\<lambda>r. r ''hasUnacknowledgedChange'')
     (rfis (snd (processRfi rt now p demoLink demoPayload
          (s\<lparr>rfis := [demoRfi rt [(''hasUnacknowledgedChange'', JBool True)]]\<rparr>)))) =
     [JBool False] \<and>
   fst (processSubmittal rt now p demoLink demoPayload
          (s\<lparr>submittals := [demoSubmittal rt [(''hasUnacknowledgedChange'', JBool True)]]\<rparr>)) =
     Inr False \<and>
   map (\<lambda>r. r ''hasUnacknowledgedChange'')
     (submittals (snd (processSubmittal rt now p demoLink demoPayload
          (s\<lparr>submittals := [demoSubmittal rt [(''hasUnacknowledgedChange'', JBool True)]]\<rparr>)))) =
     [JBool False]"
proof -
  have k1: "rfiKey demoLink demoPayload (demoRfi rt [(''hasUnacknowledgedChange'', JBool True)])"
    by (simp add: rfiKey_def demoRfi_def demoLink_def demoPayload_def applyData_def)
  have h1: "demoRfi rt [(''hasUnacknowledgedChange'', JBool True)] ''accDataHash'' =
      JStr (hashAccData rt demoPayload)"
    by (simp add: demoRfi_def applyData_def)
  have k2: "submittalKey demoLink demoPayload
              (demoSubmittal rt [(''hasUnacknowledgedChange'', JBool True)])"
    by (simp add: submittalKey_def demoSubmittal_def demoLink_def demoPayload_def applyData_def)
  have h2: "demoSubmittal rt [(''hasUnacknowledgedChange'', JBool True)] ''accDataHash'' =
      JStr (hashAccData rt demoPayload)"
    by (simp add: demoSubmittal_def applyData_def)
  show ?thesis
    using processRfi_same_hash [of demoLink demoPayload
        "s\<lparr>rfis := [demoRfi rt [(''hasUnacknowledgedChange'', JBool True)]]\<rparr>" _ rt now p]
      processSubmittal_same_hash [of demoLink demoPayload
        "s\<lparr>submittals := [demoSubmittal rt [(''hasUnacknowledgedChange'', JBool True)]]\<rparr>"
        _ rt now p]
    by (simp add: k1 k2 h1 h2 updateWhere_def rfiSyncUpdate_flag submittalSyncUpdate_flag
        strictEq_def)
qed

text \<open>
  C2 (the code departs from the claim). A row with an unconfirmed manual response first
  detected at time 1000 is synchronised again at time 2000 with a payload that still
  carries the response: the captured data is replaced by the snapshot of the latest
  response, and \<open>manualResponseDetectedAt\<close> is overwritten with the time of this
  synchronisation instead of keeping the time of the first detection.
\<close>

theorem resync_overwrites_detection_time:
  "map (\<lambda>r. (r ''manualResponseDetectedAt'', r ''manualResponseData''))
     (rfis (snd (processRfi rt 2000 p demoLink demoPayload
        (s\<lparr>rfis := [demoRfi rt [(''hasManualResponse'', JBool True),
                                 (''manualResponseDetectedAt'', JDate 1000),
                                 (''manualResponseData'', JStr ''{}'')]]\<rparr>)))) =
     [(JDate 2000, manualResponseSnapshot rt 2000 demoPayload)] \<and>
   map (\<lambda>r. (r ''manualResponseDetectedAt'', r ''manualResponseData''))
     (submittals (snd (processSubmittal rt 2000 p demoLink demoPayload
        (s\<lparr>submittals := [demoSubmittal rt [(''hasManualResponse'', JBool True),
                                             (''manualResponseDetectedAt'', JDate 1000),
                                             (''manualResponseData'', JStr ''{}'')]]\<rparr>)))) =
     [(JDate 2000, manualResponseSnapshot rt 2000 demoPayload)]"
proof -
  let ?d = "[(''hasManualResponse'', JBool True), (''manualResponseDetectedAt'', JDate 1000),
             (''manualResponseData'', JStr ''{}'')]"
  have k1: "rfiKey demoLink demoPayload (demoRfi rt ?d)"
    by (simp add: rfiKey_def demoRfi_def demoLink_def demoPayload_def applyData_def)
  have h1: "demoRfi rt ?d ''accDataHash'' = JStr (hashAccData rt demoPayload)"
    by (simp add: demoRfi_def applyData_def)
  have m1: "manualResponseDetected (demoRfi rt ?d) demoPayload"
    by (simp add: manualResponseDetected_def demoRfi_def demoPayload_def applyData_def emptyRow_def)
  have k2: "submittalKey demoLink demoPayload (demoSubmittal rt ?d)"
    by (simp add: submittalKey_def demoSubmittal_def demoLink_def demoPayload_def applyData_def)
  have h2: "demoSubmittal rt ?d ''accDataHash'' = JStr (hashAccData rt demoPayload)"
    by (simp add: demoSubmittal_def applyData_def)
  have m2: "manualResponseDetected (demoSubmittal rt ?d) demoPayload"
    by (simp add: manualResponseDetected_def demoSubmittal_def demoPayload_def applyData_def
        emptyRow_def)
  show ?thesis
    using processRfi_same_hash [of demoLink demoPayload "s\<lparr>rfis := [demoRfi rt ?d]\<rparr>" _ rt 2000 p]
      processSubmittal_same_hash [of demoLink demoPayload
        "s\<lparr>submittals := [demoSubmittal rt ?d]\<rparr>" _ rt 2000 p]
      rfiSyncUpdate_manual [OF m1] submittalSyncUpdate_manual [OF m2]
    by (simp add: k1 k2 h1 h2 updateWhere_def)
qed

lemma confirmManualRfiResponse_success:
  assumes "confirmManualRfiResponse rt t rfiId userId s = (Inr u, s1)"
  shows "\<exists>rfi mr. find (byId rfiId) (rfis s) = Some rfi \<and>
           truthy (rfi ''hasManualResponse'') \<and> \<not> truthy (rfi ''manualResponseConfirmedAt'') \<and>
           rfis s1 = updateWhere (byId rfiId) (confirmedData t userId mr) (rfis s)"
  using assms
  by (auto simp: confirmManualRfiResponse_def Let_def logged_def
      split: option.splits list.splits if_splits)

lemma rfi_sync_after_confirm:
  assumes conf: "confirmManualRfiResponse rt t rfiId userId s = (Inr u, s1)"
    and uid: "filter (byId rfiId) (rfis s) = [r]"
    and uniq: "filter (rfiKey l a) (rfis s) = [r]"
    and sync: "processRfi rt now p l a s1 = (Inr b, s2)"
  shows "\<exists>r2. filter (rfiKey l a) (rfis s2) = [r2] \<and>
           r2 ''manualResponseConfirmedAt'' = JDate t \<and>
           r2 ''manualResponseConfirmedBy'' = JStr userId \<and>
           r2 ''internalStatus'' = JStr ''CLOSED'' \<and>
           truthy (r2 ''hasManualResponse'') \<and>
           (if manualResponseDetected r a
            then r2 ''manualResponseData'' = manualResponseSnapshot rt now a
            else r2 ''hasManualResponse'' = r ''hasManualResponse'' \<and>
                 r2 ''manualResponseDetectedAt'' = r ''manualResponseDetectedAt'' \<and>
                 r2 ''manualResponseData'' = r ''manualResponseData'')"
proof -
  from confirmManualRfiResponse_success [OF conf] obtain rfi mr where
    f: "find (byId rfiId) (rfis s) = Some rfi"
    and tr: "truthy (rfi ''hasManualResponse'')"
    and rows1: "rfis s1 = updateWhere (byId rfiId) (confirmedData t userId mr) (rfis s)"
    by blast
  from f uid have rfi_r: "rfi = r" by (simp add: find_filter)
  have "r \<in> set (filter (byId rfiId) (rfis s))"
    by (simp add: uid)
  then have rid: "byId rfiId r" by simp
  let ?c = "confirmedData t userId mr"
  have ckeys: "map fst ?c = [''manualResponseConfirmedBy'', ''manualResponseConfirmedAt'',
      ''internalStatus'', ''responseStatus'', ''responseText'']"
    by (simp add: confirmedData_def)
  have keyc: "rfiKey l a (applyData ?c x) = rfiKey l a x" for x
    by (simp add: rfiKey_def applyData_other ckeys)
  have "filter (rfiKey l a) (updateWhere (byId rfiId) ?c rows) =
      map (\<lambda>x. if byId rfiId x then applyData ?c x else x) (filter (rfiKey l a) rows)" for rows
    unfolding updateWhere_def by (induction rows) (auto simp: keyc)
  then have uniq1: "filter (rfiKey l a) (rfis s1) = [applyData ?c r]"
    using uniq rid by (simp add: rows1)
  let ?r1 = "applyData ?c r"
  have f1: "find (rfiKey l a) (rfis s1) = Some ?r1"
    by (simp add: find_filter uniq1)
  from processRfi_existing [OF f1 sync] obtain cs where
    rows2: "rfis s2 = updateWhere (rfiKey l a) (rfiSyncUpdate rt now ?r1 a cs) (rfis s1)"
    by blast
  let ?r2 = "applyData (rfiSyncUpdate rt now ?r1 a cs) ?r1"
  have uniq2: "filter (rfiKey l a) (rfis s2) = [?r2]"
    unfolding rows2 by (simp add: filter_updateWhere rfiSyncUpdate_def uniq1)
  have det: "manualResponseDetected ?r1 a = manualResponseDetected r a"
    by (simp add: manualResponseDetected_def applyData_other ckeys)
  have same: "?r1 ''hasManualResponse'' = r ''hasManualResponse''"
    "?r1 ''manualResponseDetectedAt'' = r ''manualResponseDetectedAt''"
    "?r1 ''manualResponseData'' = r ''manualResponseData''"
    by (simp_all add: applyData_other ckeys)
  have conf1: "?r1 ''manualResponseConfirmedAt'' = JDate t"
    "?r1 ''manualResponseConfirmedBy'' = JStr userId"
    "?r1 ''internalStatus'' = JStr ''CLOSED''"
    by (simp_all add: applyData_def confirmedData_def)
  have keep: "?r2 ''manualResponseConfirmedAt'' = ?r1 ''manualResponseConfirmedAt''"
    "?r2 ''manualResponseConfirmedBy'' = ?r1 ''manualResponseConfirmedBy''"
    "?r2 ''internalStatus'' = ?r1 ''internalStatus''"
    by (simp_all add: rfiSyncUpdate_def applyData_other rfiUpdateData_keys)
  have manual: "truthy (?r2 ''hasManualResponse'') \<and>
           (if manualResponseDetected r a
            then ?r2 ''manualResponseData'' = manualResponseSnapshot rt now a
            else ?r2 ''hasManualResponse'' = r ''hasManualResponse'' \<and>
                 ?r2 ''manualResponseDetectedAt'' = r ''manualResponseDetectedAt'' \<and>
                 ?r2 ''manualResponseData'' = r ''manualResponseData'')"
  proof (cases "manualResponseDetected r a")
    case True
    with det have "manualResponseDetected ?r1 a" by simp
    from rfiSyncUpdate_manual [OF this, of rt now cs ?r1] True show ?thesis by simp
  next
    case False
    with det have "\<not> manualResponseDetected ?r1 a" by simp
    from rfiSyncUpdate_no_manual [OF this, of rt now cs ?r1] False tr rfi_r same
    show ?thesis by simp
  qed
  show ?thesis
    apply (rule exI [of _ ?r2])
    using uniq2 keep conf1 manual by simp
qed

lemma confirmManualSubmittalResponse_success:
  assumes "confirmManualSubmittalResponse rt t submittalId userId s = (Inr u, s1)"
  shows "\<exists>submittal mr. find (byId submittalId) (submittals s) = Some submittal \<and>
           truthy (submittal ''hasManualResponse'') \<and> \<not> truthy (submittal ''manualResponseConfirmedAt'') \<and>
           submittals s1 = updateWhere (byId submittalId) (confirmedData t userId mr) (submittals s)"
  using assms
  by (auto simp: confirmManualSubmittalResponse_def Let_def logged_def
      split: option.splits list.splits if_splits)

lemma submittal_sync_after_confirm:
  assumes conf: "confirmManualSubmittalResponse rt t submittalId userId s = (Inr u, s1)"
    and uid: "filter (byId submittalId) (submittals s) = [r]"
    and uniq: "filter (submittalKey l a) (submittals s) = [r]"
    and sync: "processSubmittal rt now p l a s1 = (Inr b, s2)"
  shows "\<exists>r2. filter (submittalKey l a) (submittals s2) = [r2] \<and>
           r2 ''manualResponseConfirmedAt'' = JDate t \<and>
           r2 ''manualResponseConfirmedBy'' = JStr userId \<and>
           r2 ''internalStatus'' = JStr ''CLOSED'' \<and>
           truthy (r2 ''hasManualResponse'') \<and>
           (if manualResponseDetected r a
            then r2 ''manualResponseData'' = manualResponseSnapshot rt now a
            else r2 ''hasManualResponse'' = r ''hasManualResponse'' \<and>
                 r2 ''manualResponseDetectedAt'' = r ''manualResponseDetectedAt'' \<and>
                 r2 ''manualResponseData'' = r ''manualResponseData'')"
proof -
  from confirmManualSubmittalResponse_success [OF conf] obtain submittal mr where
    f: "find (byId submittalId) (submittals s) = Some submittal"
    and tr: "truthy (submittal ''hasManualResponse'')"
    and rows1: "submittals s1 = updateWhere (byId submittalId) (confirmedData t userId mr) (submittals s)"
    by blast
  from f uid have submittal_r: "submittal = r" by (simp add: find_filter)
  have "r \<in> set (filter (byId submittalId) (submittals s))"
    by (simp add: uid)
  then have rid: "byId submittalId r" by simp
  let ?c = "confirmedData t userId mr"
  have ckeys: "map fst ?c = [''manualResponseConfirmedBy'', ''manualResponseConfirmedAt'',
      ''internalStatus'', ''responseStatus'', ''responseText'']"
    by (simp add: confirmedData_def)
  have keyc: "submittalKey l a (applyData ?c x) = submittalKey l a x" for x
    by (simp add: submittalKey_def applyData_other ckeys)
  have "filter (submittalKey l a) (updateWhere (byId submittalId) ?c rows) =
      map (\<lambda>x. if byId submittalId x then applyData ?c x else x) (filter (submittalKey l a) rows)" for rows
    unfolding updateWhere_def by (induction rows) (auto simp: keyc)
  then have uniq1: "filter (submittalKey l a) (submittals s1) = [applyData ?c r]"
    using uniq rid by (simp add: rows1)
  let ?r1 = "applyData ?c r"
  have f1: "find (submittalKey l a) (submittals s1) = Some ?r1"
    by (simp add: find_filter uniq1)
  from processSubmittal_existing [OF f1 sync] obtain cs where
    rows2: "submittals s2 = updateWhere (submittalKey l a) (submittalSyncUpdate rt now ?r1 a cs) (submittals s1)"
    by blast
  let ?r2 = "applyData (submittalSyncUpdate rt now ?r1 a cs) ?r1"
  have uniq2: "filter (submittalKey l a) (submittals s2) = [?r2]"
    unfolding rows2 by (simp add: filter_updateWhere submittalSyncUpdate_def uniq1)
  have det: "manualResponseDetected ?r1 a = manualResponseDetected r a"
    by (simp add: manualResponseDetected_def applyData_other ckeys)
  have same: "?r1 ''hasManualResponse'' = r ''hasManualResponse''"
    "?r1 ''manualResponseDetectedAt'' = r ''manualResponseDetectedAt''"
    "?r1 ''manualResponseData'' = r ''manualResponseData''"
    by (simp_all add: applyData_other ckeys)
  have conf1: "?r1 ''manualResponseConfirmedAt'' = JDate t"
    "?r1 ''manualResponseConfirmedBy'' = JStr userId"
    "?r1 ''internalStatus'' = JStr ''CLOSED''"
    by (simp_all add: applyData_def confirmedData_def)
  have keep: "?r2 ''manualResponseConfirmedAt'' = ?r1 ''manualResponseConfirmedAt''"
    "?r2 ''manualResponseConfirmedBy'' = ?r1 ''manualResponseConfirmedBy''"
    "?r2 ''internalStatus'' = ?r1 ''internalStatus''"
    by (simp_all add: submittalSyncUpdate_def applyData_other submittalUpdateData_keys)
  have manual: "truthy (?r2 ''hasManualResponse'') \<and>
           (if manualResponseDetected r a
            then ?r2 ''manualResponseData'' = manualResponseSnapshot rt now a
            else ?r2 ''hasManualResponse'' = r ''hasManualResponse'' \<and>
                 ?r2 ''manualResponseDetectedAt'' = r ''manualResponseDetectedAt'' \<and>
                 ?r2 ''manualResponseData'' = r ''manualResponseData'')"
  proof (cases "manualResponseDetected r a")
    case True
    with det have "manualResponseDetected ?r1 a" by simp
    from submittalSyncUpdate_manual [OF this, of rt now cs ?r1] True show ?thesis by simp
  next
    case False
    with det have "\<not> manualResponseDetected ?r1 a" by simp
    from submittalSyncUpdate_no_manual [OF this, of rt now cs ?r1] False tr submittal_r same
    show ?thesis by simp
  qed
  show ?thesis
    apply (rule exI [of _ ?r2])
    using uniq2 keep conf1 manual by simp
qed

lemma demo_hash_edited: "hashAccData rt demoPayloadEdited = hashAccData rt demoPayload"
  by (simp add: hashAccData_def relevantData_def demoPayloadEdited_def demoPayload_def)

lemma quote_nonempty: "quoteJSONString k \<noteq> []"
  by (simp add: quoteJSONString_def)

lemma demo_snapshot_prefix:
  "\<exists>rest. manualResponseSnapshot rt now demoPayload =
     JStr (''{'' @ quoteJSONString ''status'' @ '':'' @ quoteJSONString ''open'' @ '','' @
           quoteJSONString ''text'' @ '':'' @ quoteJSONString ''Approved'' @ rest)"
  by (simp add: manualResponseSnapshot_def stringify_def demoPayload_def jsOr_def)

lemma demo_snapshot_edited_prefix:
  "\<exists>rest. manualResponseSnapshot rt now demoPayloadEdited =
     JStr (''{'' @ quoteJSONString ''status'' @ '':'' @ quoteJSONString ''open'' @ '','' @
           quoteJSONString ''text'' @ '':'' @ quoteJSONString ''Approved as noted'' @ rest)"
  by (simp add: manualResponseSnapshot_def stringify_def demoPayloadEdited_def jsOr_def)

lemma demo_snapshots_differ:
  "manualResponseSnapshot rt now demoPayloadEdited \<noteq> manualResponseSnapshot rt' now' demoPayload"
proof -
  obtain r1 r2 where
    a: "manualResponseSnapshot rt now demoPayloadEdited =
     JStr (''{'' @ quoteJSONString ''status'' @ '':'' @ quoteJSONString ''open'' @ '','' @
           quoteJSONString ''text'' @ '':'' @ quoteJSONString ''Approved as noted'' @ r1)"
    and b: "manualResponseSnapshot rt' now' demoPayload =
     JStr (''{'' @ quoteJSONString ''status'' @ '':'' @ quoteJSONString ''open'' @ '','' @
           quoteJSONString ''text'' @ '':'' @ quoteJSONString ''Approved'' @ r2)"
    using demo_snapshot_prefix demo_snapshot_edited_prefix by blast
  show ?thesis
    unfolding a b by (simp add: quoteJSONString_def escapeChar_def)
qed

text \<open>
  C3, as the code has it. After a manual response was confirmed, a later synchronisation
  that succeeds keeps the confirmation (time, confirmer, the CLOSED status) and a set
  \<open>hasManualResponse\<close> flag. It leaves the flag, the detection time and the captured data
  unchanged when nothing is detected (the payload carries no response text, or the row
  has a \<open>responseSentAt\<close>). Confirmation does not set \<open>responseSentAt\<close>, so a payload that
  still carries a response text is detected again, and the captured data is replaced by
  the snapshot of the payload's response.
\<close>

theorem confirmed_record_resync:
  "(confirmManualRfiResponse rt t rfiId userId s = (Inr u, s1) \<and>
    filter (byId rfiId) (rfis s) = [r] \<and> filter (rfiKey l a) (rfis s) = [r] \<and>
    processRfi rt now p l a s1 = (Inr b, s2) \<longrightarrow>
      (\<exists>r2. filter (rfiKey l a) (rfis s2) = [r2] \<and>
           r2 ''manualResponseConfirmedAt'' = JDate t \<and>
           r2 ''manualResponseConfirmedBy'' = JStr userId \<and>
           r2 ''internalStatus'' = JStr ''CLOSED'' \<and>
           truthy (r2 ''hasManualResponse'') \<and>
           (if manualResponseDetected r a
            then r2 ''manualResponseData'' = manualResponseSnapshot rt now a
            else r2 ''hasManualResponse'' = r ''hasManualResponse'' \<and>
                 r2 ''manualResponseDetectedAt'' = r ''manualResponseDetectedAt'' \<and>
                 r2 ''manualResponseData'' = r ''manualResponseData''))) \<and>
   (confirmManualSubmittalResponse rt t submittalId userId s = (Inr u', s1') \<and>
    filter (byId submittalId) (submittals s) = [r'] \<and>
    filter (submittalKey l a) (submittals s) = [r'] \<and>
    processSubmittal rt now p l a s1' = (Inr b', s2') \<longrightarrow>
      (\<exists>r2. filter (submittalKey l a) (submittals s2') = [r2] \<and>
           r2 ''manualResponseConfirmedAt'' = JDate t \<and>
           r2 ''manualResponseConfirmedBy'' = JStr userId \<and>
           r2 ''internalStatus'' = JStr ''CLOSED'' \<and>
           truthy (r2 ''hasManualResponse'') \<and>
           (if manualResponseDetected r' a
            then r2 ''manualResponseData'' = manualResponseSnapshot rt now a
            else r2 ''hasManualResponse'' = r' ''hasManualResponse'' \<and>
                 r2 ''manualResponseDetectedAt'' = r' ''manualResponseDetectedAt'' \<and>
                 r2 ''manualResponseData'' = r' ''manualResponseData'')))"
  using rfi_sync_after_confirm [of rt t rfiId userId s u s1 r l a now p b s2]
    submittal_sync_after_confirm [of rt t submittalId userId s u' s1' r' l a now p b' s2']
  by blast

theorem confirmed_record_resync_witness:
  "\<forall>rt0. \<exists>u s1 s2 r2.
     confirmManualRfiResponse (rt0\<lparr>JSON_parse := \<lambda>t. Some demoParsed\<rparr>) 1500 ''rfi-1'' ''admin-1''
       (demoWorld (rt0\<lparr>JSON_parse := \<lambda>t. Some demoParsed\<rparr>)
          (demoPending (rt0\<lparr>JSON_parse := \<lambda>t. Some demoParsed\<rparr>))) = (Inr u, s1) \<and>
     filter (byId ''rfi-1'')
       (rfis (demoWorld (rt0\<lparr>JSON_parse := \<lambda>t. Some demoParsed\<rparr>)
          (demoPending (rt0\<lparr>JSON_parse := \<lambda>t. Some demoParsed\<rparr>)))) =
       [demoRfi (rt0\<lparr>JSON_parse := \<lambda>t. Some demoParsed\<rparr>)
          (demoPending (rt0\<lparr>JSON_parse := \<lambda>t. Some demoParsed\<rparr>))] \<and>
     filter (rfiKey demoLink demoPayloadEdited)
       (rfis (demoWorld (rt0\<lparr>JSON_parse := \<lambda>t. Some demoParsed\<rparr>)
          (demoPending (rt0\<lparr>JSON_parse := \<lambda>t. Some demoParsed\<rparr>)))) =
       [demoRfi (rt0\<lparr>JSON_parse := \<lambda>t. Some demoParsed\<rparr>)
          (demoPending (rt0\<lparr>JSON_parse := \<lambda>t. Some demoParsed\<rparr>))] \<and>
     processRfi (rt0\<lparr>JSON_parse := \<lambda>t. Some demoParsed\<rparr>) 2000 demoProject demoLink
       demoPayloadEdited s1 = (Inr False, s2) \<and>
     filter (rfiKey demoLink demoPayloadEdited) (rfis s2) = [r2] \<and>
     r2 ''manualResponseConfirmedAt'' = JDate 1500 \<and>
     r2 ''internalStatus'' = JStr ''CLOSED'' \<and>
     r2 ''manualResponseData'' =
       manualResponseSnapshot (rt0\<lparr>JSON_parse := \<lambda>t. Some demoParsed\<rparr>) 2000 demoPayloadEdited"
proof
  fix rt0 :: runtime
  define rt where "rt = rt0\<lparr>JSON_parse := \<lambda>t. Some demoParsed\<rparr>"
  define r where "r = demoRfi rt (demoPending rt)"
  have parse: "JSON_parse rt x = Some demoParsed" for x by (simp add: rt_def)
  have rows: "rfis (demoWorld rt (demoPending rt)) = [r]"
    by (simp add: demoWorld_def r_def)
  have rcols: "r ''id'' = JStr ''rfi-1''" "r ''projectId'' = JStr ''proj-1''"
    "r ''accProjectLinkId'' = JStr ''link-1''" "r ''accRfiId'' = JStr ''R-1''"
    "r ''hasManualResponse'' = JBool True" "r ''manualResponseConfirmedAt'' = JNull"
    "r ''responseSentAt'' = JNull" "r ''accDataHash'' = JStr (hashAccData rt demoPayload)"
    by (simp_all add: r_def demoRfi_def demoPending_def applyData_def emptyRow_def)
  have uid: "filter (byId ''rfi-1'') (rfis (demoWorld rt (demoPending rt))) = [r]"
    by (simp add: rows byId_def rcols)
  have ukey: "filter (rfiKey demoLink demoPayloadEdited) (rfis (demoWorld rt (demoPending rt))) = [r]"
    by (simp add: rows rfiKey_def rcols demoLink_def demoPayloadEdited_def applyData_def)
  have members: "membershipsOf (JStr ''proj-1'') ''admin-1'' (logged lv c m (demoWorld rt d)) =
      [demoMember ''admin-1'' ''PROJECT_ADMIN'' False]" for lv c m d
    by (simp add: membershipsOf_def logged_def demoWorld_def demoMember_def applyData_def)
  have admin: "isAdmin (demoMember ''admin-1'' ''PROJECT_ADMIN'' False)"
    by (simp add: isAdmin_def demoMember_def applyData_def)
  have notnull: "demoParsed \<noteq> JNull" by (simp add: demoParsed_def)
  have c: "\<not> isl (fst (confirmManualRfiResponse rt 1500 ''rfi-1'' ''admin-1''
      (demoWorld rt (demoPending rt))))"
    using uid
    by (simp add: confirmManualRfiResponse_def Let_def find_filter logged_def rows rcols
        members [unfolded logged_def] admin parse notnull)
  then obtain u s1 where conf: "confirmManualRfiResponse rt 1500 ''rfi-1'' ''admin-1''
      (demoWorld rt (demoPending rt)) = (Inr u, s1)"
    by (metis prod.collapse sum.collapse(2))
  from confirmManualRfiResponse_success [OF conf] obtain mr where
    rows1: "rfis s1 = updateWhere (byId ''rfi-1'') (confirmedData 1500 ''admin-1'' mr) [r]"
    by (auto simp: rows)
  let ?r1 = "applyData (confirmedData 1500 ''admin-1'' mr) r"
  have rows1': "rfis s1 = [?r1]"
    by (simp add: rows1 updateWhere_def byId_def rcols)
  have r1cols: "?r1 ''accProjectLinkId'' = JStr ''link-1''" "?r1 ''accRfiId'' = JStr ''R-1''"
    "?r1 ''accDataHash'' = JStr (hashAccData rt demoPayloadEdited)"
    by (simp_all add: applyData_def confirmedData_def rcols demo_hash_edited)
  have ids: "demoLink ''id'' = JStr ''link-1''" "jsGet demoPayloadEdited ''id'' = JStr ''R-1''"
    by (simp_all add: demoLink_def demoPayloadEdited_def applyData_def)
  have f1: "find (rfiKey demoLink demoPayloadEdited) (rfis s1) = Some ?r1"
    by (simp add: rows1' rfiKey_def r1cols ids)
  from processRfi_same_hash [OF f1 r1cols(3), of 2000 demoProject]
  obtain s2 where sync: "processRfi rt 2000 demoProject demoLink demoPayloadEdited s1 =
      (Inr False, s2)"
    by (metis prod.collapse)
  have det: "manualResponseDetected r demoPayloadEdited"
    by (simp add: manualResponseDetected_def rcols demoPayloadEdited_def)
  from confirmed_record_resync [of rt 1500 "''rfi-1''" "''admin-1''"
      "demoWorld rt (demoPending rt)" u s1 r demoLink demoPayloadEdited
      2000 demoProject False s2, THEN conjunct1] conf uid ukey sync det
  obtain r2 where "filter (rfiKey demoLink demoPayloadEdited) (rfis s2) = [r2]"
    "r2 ''manualResponseConfirmedAt'' = JDate 1500" "r2 ''internalStatus'' = JStr ''CLOSED''"
    "r2 ''manualResponseData'' = manualResponseSnapshot rt 2000 demoPayloadEdited"
    by auto
  with conf uid ukey sync
  show "\<exists>u s1 s2 r2.
     confirmManualRfiResponse (rt0\<lparr>JSON_parse := \<lambda>t. Some demoParsed\<rparr>) 1500 ''rfi-1'' ''admin-1''
       (demoWorld (rt0\<lparr>JSON_parse := \<lambda>t. Some demoParsed\<rparr>)
          (demoPending (rt0\<lparr>JSON_parse := \<lambda>t. Some demoParsed\<rparr>))) = (Inr u, s1) \<and>
     filter (byId ''rfi-1'')
       (rfis (demoWorld (rt0\<lparr>JSON_parse := \<lambda>t. Some demoParsed\<rparr>)
          (demoPending (rt0\<lparr>JSON_parse := \<lambda>t. Some demoParsed\<rparr>)))) =
       [demoRfi (rt0\<lparr>JSON_parse := \<lambda>t. Some demoParsed\<rparr>)
          (demoPending (rt0\<lparr>JSON_parse := \<lambda>t. Some demoParsed\<rparr>))] \<and>
     filter (rfiKey demoLink demoPayloadEdited)
       (rfis (demoWorld (rt0\<lparr>JSON_parse := \<lambda>t. Some demoParsed\<rparr>)
          (demoPending (rt0\<lparr>JSON_parse := \<lambda>t. Some demoParsed\<rparr>)))) =
       [demoRfi (rt0\<lparr>JSON_parse := \<lambda>t. Some demoParsed\<rparr>)
          (demoPending (rt0\<lparr>JSON_parse := \<lambda>t. Some demoParsed\<rparr>))] \<and>
     processRfi (rt0\<lparr>JSON_parse := \<lambda>t. Some demoParsed\<rparr>) 2000 demoProject demoLink
       demoPayloadEdited s1 = (Inr False, s2) \<and>
     filter (rfiKey demoLink demoPayloadEdited) (rfis s2) = [r2] \<and>
     r2 ''manualResponseConfirmedAt'' = JDate 1500 \<and>
     r2 ''internalStatus'' = JStr ''CLOSED'' \<and>
     r2 ''manualResponseData'' =
       manualResponseSnapshot (rt0\<lparr>JSON_parse := \<lambda>t. Some demoParsed\<rparr>) 2000 demoPayloadEdited"
    unfolding rt_def [symmetric] r_def [symmetric] by blast
qed

theorem confirmed_record_reflagged:
  "\<forall>rt. map (\<lambda>r. (r ''manualResponseConfirmedAt'',
                   r ''manualResponseDetectedAt'',
                   r ''manualResponseData'' = manualResponseSnapshot rt 1000 demoPayload))
     (rfis (snd (processRfi rt 2000 demoProject demoLink demoPayloadEdited
        (demoWorld rt (demoConfirmed rt))))) =
     [(JDate 1500, JDate 2000, False)]"
proof
  fix rt
  let ?r = "demoRfi rt (demoConfirmed rt)"
  have rows: "rfis (demoWorld rt (demoConfirmed rt)) = [?r]"
    by (simp add: demoWorld_def)
  have rcols: "?r ''accProjectLinkId'' = JStr ''link-1''" "?r ''accRfiId'' = JStr ''R-1''"
    "?r ''responseSentAt'' = JNull" "?r ''manualResponseConfirmedAt'' = JDate 1500"
    "?r ''accDataHash'' = JStr (hashAccData rt demoPayloadEdited)"
    by (simp_all add: demoRfi_def demoConfirmed_def applyData_def emptyRow_def demo_hash_edited)
  have key: "rfiKey demoLink demoPayloadEdited ?r"
    by (simp add: rfiKey_def rcols demoLink_def demoPayloadEdited_def applyData_def)
  have f: "find (rfiKey demoLink demoPayloadEdited) (rfis (demoWorld rt (demoConfirmed rt))) =
      Some ?r"
    by (simp add: rows key)
  have det: "manualResponseDetected ?r demoPayloadEdited"
    by (simp add: manualResponseDetected_def rcols demoPayloadEdited_def)
  have keep: "applyData (rfiSyncUpdate rt 2000 ?r demoPayloadEdited JNull) ?r
      ''manualResponseConfirmedAt'' = JDate 1500"
    by (simp add: rfiSyncUpdate_def applyData_other rfiUpdateData_keys rcols)
  show "map (\<lambda>r. (r ''manualResponseConfirmedAt'',
                   r ''manualResponseDetectedAt'',
                   r ''manualResponseData'' = manualResponseSnapshot rt 1000 demoPayload))
     (rfis (snd (processRfi rt 2000 demoProject demoLink demoPayloadEdited
        (demoWorld rt (demoConfirmed rt))))) =
     [(JDate 1500, JDate 2000, False)]"
    using processRfi_same_hash [OF f rcols(5), of 2000 demoProject]
      rfiSyncUpdate_manual [OF det, of rt 2000 JNull ?r] keep demo_snapshots_differ [of rt 2000 rt 1000]
    by (simp add: rows updateWhere_def key)
qed

section \<open>The serialisation of JSON values is injective\<close>

lemma hexDigit_code: "d < 10 \<Longrightarrow> of_char (hexDigit d) = 48 + d"
proof -
  assume "d < 10"
  then have "d \<in> {0, 1, 2, 3, 4, 5, 6, 7, 8, 9}" by auto
  then show ?thesis by (auto simp: hexDigit_def)
qed

lemma showNat_digits: "list_all isDigit (showNat n) \<and> showNat n \<noteq> []"
proof (induction n rule: showNat.induct)
  case (1 n)
  show ?case
  proof (cases "n < 10")
    case True
    then show ?thesis
      by (subst showNat.simps, subst showNat.simps) (simp add: isDigit_def hexDigit_code)
  next
    case False
    then have "list_all isDigit (showNat (n div 10))" using 1 by simp
    moreover have "isDigit (hexDigit (n mod 10))" by (simp add: isDigit_def hexDigit_code)
    ultimately show ?thesis
      using False by (subst showNat.simps, subst showNat.simps) simp
  qed
qed

lemma decode_showNat: "decodeNat (showNat n) = n"
proof (induction n rule: showNat.induct)
  case (1 n)
  show ?case
  proof (cases "n < 10")
    case True
    then show ?thesis by (subst showNat.simps) (simp add: hexDigit_code decodeNat_def)
  next
    case False
    then have "decodeNat (showNat (n div 10)) = n div 10" using 1 by simp
    then show ?thesis
      using False by (subst showNat.simps) (simp add: hexDigit_code decodeNat_def)
  qed
qed

lemma showNat_inj: "showNat a = showNat b \<Longrightarrow> a = b"
  by (metis decode_showNat)

lemma delimited_not_digit: "delimited (c # cs) \<Longrightarrow> \<not> isDigit c"
  by (auto simp: delimited_def isDigit_def)

lemma digits_prefix:
  "list_all isDigit xs \<Longrightarrow> list_all isDigit ys \<Longrightarrow> delimited r \<Longrightarrow> delimited r' \<Longrightarrow>
   xs @ r = ys @ r' \<Longrightarrow> xs = ys \<and> r = r'"
proof (induction xs arbitrary: ys)
  case Nil
  show ?case
  proof (cases ys)
    case Nil
    then show ?thesis using Nil.prems by simp
  next
    case (Cons y ys')
    then have "r = y # ys' @ r'" "isDigit y" using Nil.prems by simp_all
    then show ?thesis using Nil.prems(3) delimited_not_digit by blast
  qed
next
  case (Cons x xs)
  show ?case
  proof (cases ys)
    case Nil
    then have "r' = x # xs @ r" "isDigit x" using Cons.prems by simp_all
    then show ?thesis using Cons.prems(4) delimited_not_digit by blast
  next
    case c: (Cons y ys')
    then have "x = y" "xs @ r = ys' @ r'" "list_all isDigit xs" "list_all isDigit ys'"
      using Cons.prems by simp_all
    then show ?thesis using Cons.IH [of ys'] Cons.prems(3,4) c by simp
  qed
qed

lemma showInt_prefix:
  assumes "showInt a @ r = showInt b @ r'" "delimited r" "delimited r'"
  shows "a = b \<and> r = r'"
proof -
  have dash: "\<not> isDigit CHR ''-''" by (simp add: isDigit_def)
  have hd: "\<And>n x. hd (showNat n @ x) \<noteq> CHR ''-''"
  proof -
    fix n x
    obtain c cs where "showNat n = c # cs" "isDigit c"
      using showNat_digits [of n] by (cases "showNat n") auto
    then show "hd (showNat n @ x) \<noteq> CHR ''-''" using dash by auto
  qed
  show ?thesis
  proof (cases "a < 0")
    case an: True
    show ?thesis
    proof (cases "b < 0")
      case True
      then have "showNat (nat (- a)) @ r = showNat (nat (- b)) @ r'"
        using assms(1) an by (simp add: showInt_def)
      then have "showNat (nat (- a)) = showNat (nat (- b)) \<and> r = r'"
        using digits_prefix showNat_digits assms(2,3) by blast
      then show ?thesis using showNat_inj an True by fastforce
    next
      case False
      then have "CHR ''-'' # showNat (nat (- a)) @ r = showNat (nat b) @ r'"
        using assms(1) an by (simp add: showInt_def)
      then have "hd (showNat (nat b) @ r') = CHR ''-''" by (metis list.sel(1))
      then show ?thesis using hd by blast
    qed
  next
    case ap: False
    show ?thesis
    proof (cases "b < 0")
      case True
      then have "showNat (nat a) @ r = CHR ''-'' # showNat (nat (- b)) @ r'"
        using assms(1) ap by (simp add: showInt_def)
      then have "hd (showNat (nat a) @ r) = CHR ''-''" by (metis list.sel(1))
      then show ?thesis using hd by blast
    next
      case False
      then have "showNat (nat a) @ r = showNat (nat b) @ r'"
        using assms(1) ap by (simp add: showInt_def)
      then have "showNat (nat a) = showNat (nat b) \<and> r = r'"
        using digits_prefix showNat_digits assms(2,3) by blast
      then show ?thesis using showNat_inj ap False by fastforce
    qed
  qed
qed

lemma plain_escape: "plainChar c \<Longrightarrow> escapeChar c = [c] \<and> c \<noteq> CHR 0x5C \<and> c \<noteq> CHR 0x22"
  by (auto simp: plainChar_def escapeChar_def)

lemma special_escape:
  "\<not> plainChar c \<Longrightarrow> \<exists>q t. escapeChar c = CHR 0x5C # q # t"
  by (auto simp: plainChar_def escapeChar_def Let_def)

lemma special_escape_prefix:
  assumes "\<not> plainChar c" "\<not> plainChar d" "escapeChar c @ x = escapeChar d @ y"
  shows "c = d \<and> x = y"
proof -
  define S where "S = {0x22, 0x5C, 8, 12, 10, 13, 9 :: nat}"
  define code where "code = (\<lambda>q. if q = CHR 0x22 then 0x22 else if q = CHR 0x5C then 0x5C
      else if q = CHR ''b'' then 8 else if q = CHR ''f'' then 12 else if q = CHR ''n'' then 10
      else if q = CHR ''r'' then 13 else (9 :: nat))"
  have short: "\<exists>q. escapeChar e = [CHR 0x5C, q] \<and> q \<noteq> CHR ''u'' \<and> of_char e = code q"
    if inS: "of_char e \<in> S" for e
  proof -
    consider "of_char e = (0x22 :: nat)" | "of_char e = (0x5C :: nat)" | "of_char e = (8 :: nat)"
      | "of_char e = (12 :: nat)" | "of_char e = (10 :: nat)" | "of_char e = (13 :: nat)"
      | "of_char e = (9 :: nat)" using inS by (auto simp: S_def)
    then show ?thesis by cases (simp_all add: escapeChar_def code_def)
  qed
  have long: "of_char e < (32 :: nat) \<and> escapeChar e =
      [CHR 0x5C, CHR ''u'', CHR ''0'', CHR ''0'',
       hexDigit (of_char e div 16), hexDigit (of_char e mod 16)]"
    if "\<not> plainChar e" "of_char e \<notin> S" for e
    using that by (simp add: S_def escapeChar_def plainChar_def Let_def)
  show ?thesis
  proof (cases "of_char c \<in> S")
    case cs: True
    then obtain q where q: "escapeChar c = [CHR 0x5C, q]" "q \<noteq> CHR ''u''" "of_char c = code q"
      using short by blast
    show ?thesis
    proof (cases "of_char d \<in> S")
      case True
      then obtain q' where q': "escapeChar d = [CHR 0x5C, q']" "of_char d = code q'"
        using short by blast
      then have "q = q'" "x = y" using assms(3) q by simp_all
      then have "(of_char c :: nat) = of_char d" using q q' by simp
      then show ?thesis using \<open>x = y\<close> by simp
    next
      case False
      then show ?thesis using long [OF assms(2)] assms(3) q by simp
    qed
  next
    case cl: False
    show ?thesis
    proof (cases "of_char d \<in> S")
      case True
      then obtain q' where q': "escapeChar d = [CHR 0x5C, q']" "q' \<noteq> CHR ''u''"
        using short by blast
      then show ?thesis using long [OF assms(1) cl] assms(3) by simp
    next
      case False
      define n where "n = (of_char c :: nat)"
      define m where "m = (of_char d :: nat)"
      have nm: "n < 32" "m < 32"
        using long [OF assms(1) cl] long [OF assms(2) False] by (simp_all add: n_def m_def)
      then have low: "n div 16 < 16" "m div 16 < 16" "n mod 16 < 16" "m mod 16 < 16"
        by arith+
      have "hexDigit (n div 16) = hexDigit (m div 16)" "hexDigit (n mod 16) = hexDigit (m mod 16)"
        and xy: "x = y"
        using long [OF assms(1) cl] long [OF assms(2) False] assms(3)
        by (simp_all add: n_def m_def)
      then have "n div 16 = m div 16" "n mod 16 = m mod 16"
        using hexDigit_inj low by blast+
      then have "n = m" by (metis div_mult_mod_eq)
      then show ?thesis using xy by (simp add: n_def m_def)
    qed
  qed
qed

lemma escapeChar_prefix:
  assumes "escapeChar c @ x = escapeChar d @ y"
  shows "c = d \<and> x = y"
proof (cases "plainChar c")
  case pc: True
  show ?thesis
  proof (cases "plainChar d")
    case True
    then show ?thesis using assms pc by (simp add: plain_escape)
  next
    case False
    then obtain q t where "escapeChar d = CHR 0x5C # q # t" using special_escape by blast
    then show ?thesis using assms plain_escape [OF pc] by simp
  qed
next
  case sc: False
  show ?thesis
  proof (cases "plainChar d")
    case True
    moreover obtain q t where "escapeChar c = CHR 0x5C # q # t" using special_escape sc by blast
    ultimately show ?thesis using assms plain_escape [of d] by simp
  next
    case False
    then show ?thesis using assms sc by (rule special_escape_prefix [rotated])
  qed
qed

lemma escapeChar_head: "\<exists>h t. escapeChar c = h # t \<and> h \<noteq> CHR 0x22"
proof (cases "plainChar c")
  case True
  then show ?thesis using plain_escape by simp
next
  case False
  then show ?thesis using special_escape by fastforce
qed

lemma quoteJSONString_prefix:
  "quoteJSONString s @ r = quoteJSONString t @ r' \<Longrightarrow> s = t \<and> r = r'"
proof -
  have body: "concat (map escapeChar s) @ CHR 0x22 # r = concat (map escapeChar t) @ CHR 0x22 # r'
      \<Longrightarrow> s = t \<and> r = r'" for s t
  proof (induction s arbitrary: t)
    case Nil
    show ?case
    proof (cases t)
      case Nil
      then show ?thesis using Nil.prems by simp
    next
      case (Cons d t')
      obtain h u where "escapeChar d = h # u" "h \<noteq> CHR 0x22" using escapeChar_head by blast
      then show ?thesis using Nil.prems Cons by simp
    qed
  next
    case (Cons c s')
    show ?case
    proof (cases t)
      case Nil
      obtain h u where "escapeChar c = h # u" "h \<noteq> CHR 0x22" using escapeChar_head by blast
      then show ?thesis using Cons.prems Nil by simp
    next
      case d: (Cons d t')
      have "escapeChar c @ (concat (map escapeChar s') @ CHR 0x22 # r) =
            escapeChar d @ (concat (map escapeChar t') @ CHR 0x22 # r')"
        using Cons.prems d by simp
      then have "c = d" "concat (map escapeChar s') @ CHR 0x22 # r =
          concat (map escapeChar t') @ CHR 0x22 # r'"
        using escapeChar_prefix by blast+
      then show ?thesis using Cons.IH [of t'] d by simp
    qed
  qed
  assume "quoteJSONString s @ r = quoteJSONString t @ r'"
  then have "concat (map escapeChar s) @ CHR 0x22 # r = concat (map escapeChar t) @ CHR 0x22 # r'"
    by (simp add: quoteJSONString_def)
  then show ?thesis by (rule body)
qed

lemma showInt_head: "\<exists>h t. showInt i = h # t \<and> (isDigit h \<or> h = CHR ''-'')"
proof (cases "i < 0")
  case True
  then show ?thesis by (simp add: showInt_def)
next
  case False
  obtain h t where "showNat (nat i) = h # t" "isDigit h"
    using showNat_digits [of "nat i"] by (cases "showNat (nat i)") auto
  then show ?thesis using False by (simp add: showInt_def)
qed

lemma JSON_stringify_head:
  "isJson v \<Longrightarrow> \<exists>h t. JSON_stringify fmt v = h # t \<and>
     (case v of
        JNull \<Rightarrow> h = CHR ''n''
      | JBool b \<Rightarrow> h = (if b then CHR ''t'' else CHR ''f'')
      | JNum n \<Rightarrow> isDigit h \<or> h = CHR ''-''
      | JStr s \<Rightarrow> h = CHR 0x22
      | JArr xs \<Rightarrow> h = CHR ''[''
      | JObj kvs \<Rightarrow> h = CHR ''{''
      | _ \<Rightarrow> False)"
proof (cases v)
  case (JNum n)
  then show ?thesis using showInt_head [of n] by auto
qed (simp_all add: quoteJSONString_def)

lemma JSON_stringify_element:
  "isJson v \<Longrightarrow> \<exists>h t. JSON_stringify fmt v = h # t \<and> h \<noteq> CHR '']'' \<and> h \<noteq> CHR ''}'' \<and> h \<noteq> CHR '',''"
  using JSON_stringify_head [of v fmt] by (cases v) (auto simp: isDigit_def)

lemma joinWith_Cons:
  "joinWith sep (x # xs) = x @ (if xs = [] then [] else sep @ joinWith sep xs)"
  by (cases xs) simp_all

lemma joinWith_prefix:
  fixes f :: "'a \<Rightarrow> string"
  assumes hd: "\<And>y. ok y \<Longrightarrow> \<exists>h t. f y = h # t \<and> h \<noteq> cl \<and> h \<noteq> CHR '',''"
    and cl: "cl = CHR '']'' \<or> cl = CHR ''}''"
  shows "(\<And>x y R R'. x \<in> set xs \<Longrightarrow> ok y \<Longrightarrow> delimited R \<Longrightarrow> delimited R' \<Longrightarrow>
            f x @ R = f y @ R' \<Longrightarrow> x = y \<and> R = R') \<Longrightarrow>
         list_all ok xs \<Longrightarrow> list_all ok ys \<Longrightarrow>
         joinWith '','' (map f xs) @ cl # r = joinWith '','' (map f ys) @ cl # r' \<Longrightarrow>
         xs = ys \<and> r = r'"
proof (induction xs arbitrary: ys)
  case Nil
  show ?case
  proof (cases ys)
    case Nil
    then show ?thesis using Nil.prems by simp
  next
    case (Cons y ys')
    then obtain h t where "f y = h # t" "h \<noteq> cl" using hd [of y] Nil.prems(3) by auto
    then show ?thesis using Nil.prems(4) Cons by (simp add: joinWith_Cons)
  qed
next
  case (Cons x xs)
  show ?case
  proof (cases ys)
    case Nil
    obtain h t where "f x = h # t" "h \<noteq> cl" using hd [of x] Cons.prems(2) by auto
    then show ?thesis using Cons.prems(4) Nil by (simp add: joinWith_Cons)
  next
    case ys: (Cons y ys')
    define R where "R = (if xs = [] then [] else '','' @ joinWith '','' (map f xs)) @ cl # r"
    define R' where "R' = (if ys' = [] then [] else '','' @ joinWith '','' (map f ys')) @ cl # r'"
    have eq: "f x @ R = f y @ R'"
      using Cons.prems(4) ys by (simp add: joinWith_Cons R_def R'_def)
    have d: "delimited R" "delimited R'"
      using cl by (auto simp: R_def R'_def delimited_def)
    have "ok y" using Cons.prems(3) ys by simp
    then have xy: "x = y" and RR: "R = R'"
      using Cons.prems(1) [of x y R R'] d eq by simp_all
    have comma: "cl \<noteq> CHR '',''" using cl by auto
    show ?thesis
    proof (cases "xs = []")
      case True
      then have "ys' = []" using RR comma by (auto simp: R_def R'_def split: if_splits)
      then show ?thesis using RR True xy ys by (simp add: R_def R'_def)
    next
      case False
      then have ne: "ys' \<noteq> []" using RR comma by (auto simp: R_def R'_def split: if_splits)
      then have j: "joinWith '','' (map f xs) @ cl # r = joinWith '','' (map f ys') @ cl # r'"
        using RR False by (simp add: R_def R'_def)
      have l: "list_all ok xs" "list_all ok ys'" using Cons.prems(2,3) ys by simp_all
      have pre: "x' = y' \<and> Ra = Rb"
        if "x' \<in> set xs" "ok y'" "delimited Ra" "delimited Rb" "f x' @ Ra = f y' @ Rb"
        for x' y' Ra Rb
        using Cons.prems(1) [of x' y' Ra Rb] that by simp
      have "xs = ys' \<and> r = r'" by (rule Cons.IH [OF pre l j])
      then show ?thesis using xy ys by simp
    qed
  qed
qed

lemma JSON_stringify_same_kind:
  assumes "isJson v" "isJson w" "JSON_stringify fmt v @ r = JSON_stringify fmt w @ r'"
  shows "case v of
           JNull \<Rightarrow> w = JNull
         | JBool b \<Rightarrow> (\<exists>c. w = JBool c)
         | JNum n \<Rightarrow> (\<exists>m. w = JNum m)
         | JStr s \<Rightarrow> (\<exists>t. w = JStr t)
         | JArr xs \<Rightarrow> (\<exists>ys. w = JArr ys)
         | JObj kvs \<Rightarrow> (\<exists>kvs'. w = JObj kvs')
         | _ \<Rightarrow> False"
proof -
  obtain h t where v: "JSON_stringify fmt v = h # t"
      "case v of JNull \<Rightarrow> h = CHR ''n'' | JBool b \<Rightarrow> h = (if b then CHR ''t'' else CHR ''f'')
       | JNum n \<Rightarrow> isDigit h \<or> h = CHR ''-'' | JStr s \<Rightarrow> h = CHR 0x22
       | JArr xs \<Rightarrow> h = CHR ''['' | JObj kvs \<Rightarrow> h = CHR ''{'' | _ \<Rightarrow> False"
    using JSON_stringify_head [OF assms(1), of fmt] by blast
  obtain h' t' where w: "JSON_stringify fmt w = h' # t'"
      "case w of JNull \<Rightarrow> h' = CHR ''n'' | JBool b \<Rightarrow> h' = (if b then CHR ''t'' else CHR ''f'')
       | JNum n \<Rightarrow> isDigit h' \<or> h' = CHR ''-'' | JStr s \<Rightarrow> h' = CHR 0x22
       | JArr xs \<Rightarrow> h' = CHR ''['' | JObj kvs \<Rightarrow> h' = CHR ''{'' | _ \<Rightarrow> False"
    using JSON_stringify_head [OF assms(2), of fmt] by blast
  have "h = h'" using assms(3) v(1) w(1) by simp
  then show ?thesis
    using v(2) w(2) by (cases v; cases w) (auto simp: isDigit_def split: if_splits)
qed

lemma filter_json_fields:
  "list_all (\<lambda>(k, v). isJson v) kvs \<Longrightarrow> filter (\<lambda>(k, v). v \<noteq> JUndefined) kvs = kvs"
  by (induction kvs) auto

lemma JSON_stringify_prefix:
  "isJson v \<Longrightarrow> isJson w \<Longrightarrow> delimited r \<Longrightarrow> delimited r' \<Longrightarrow>
   JSON_stringify fmt v @ r = JSON_stringify fmt w @ r' \<Longrightarrow> v = w \<and> r = r'"
proof (induction v arbitrary: w r r')
  case JNull
  then have "w = JNull" using JSON_stringify_same_kind [of JNull w fmt r r'] by simp
  then show ?case using JNull.prems by simp
next
  case (JBool b)
  then obtain c where "w = JBool c" using JSON_stringify_same_kind [of "JBool b" w fmt r r'] by auto
  then show ?case using JBool.prems by (auto split: if_splits)
next
  case (JNum n)
  then obtain m where "w = JNum m" using JSON_stringify_same_kind [of "JNum n" w fmt r r'] by auto
  then show ?case using JNum.prems showInt_prefix [of n r m r'] by simp
next
  case (JStr s)
  then obtain t where "w = JStr t" using JSON_stringify_same_kind [of "JStr s" w fmt r r'] by auto
  then show ?case using JStr.prems quoteJSONString_prefix [of s r t r'] by simp
next
  case (JArr xs)
  then obtain ys where w: "w = JArr ys"
    using JSON_stringify_same_kind [of "JArr xs" w fmt r r'] by auto
  have l: "list_all isJson xs" "list_all isJson ys" using JArr.prems w by simp_all
  have j: "joinWith '','' (map (JSON_stringify fmt) xs) @ CHR '']'' # r =
           joinWith '','' (map (JSON_stringify fmt) ys) @ CHR '']'' # r'"
    using JArr.prems(5) w by simp
  have hd: "\<exists>h t. JSON_stringify fmt y = h # t \<and> h \<noteq> CHR '']'' \<and> h \<noteq> CHR '',''"
    if "isJson y" for y
    using JSON_stringify_element [OF that, of fmt] by blast
  have pre: "x = y \<and> Ra = Rb"
    if "x \<in> set xs" "isJson y" "delimited Ra" "delimited Rb"
      "JSON_stringify fmt x @ Ra = JSON_stringify fmt y @ Rb" for x y Ra Rb
  proof -
    have "isJson x" using l(1) that(1) by (simp add: list_all_iff)
    then show ?thesis using JArr.IH [of x y Ra Rb] that by simp
  qed
  have "xs = ys \<and> r = r'"
    by (rule joinWith_prefix [where f = "JSON_stringify fmt" and ok = isJson, OF hd _ pre l j])
      simp_all
  then show ?case using w by simp
next
  case (JObj kvs)
  then obtain kvs' where w: "w = JObj kvs'"
    using JSON_stringify_same_kind [of "JObj kvs" w fmt r r'] by auto
  let ?f = "\<lambda>(k, v). quoteJSONString k @ '':'' @ JSON_stringify fmt v"
  let ?ok = "\<lambda>(k :: string, v). isJson v"
  have l: "list_all ?ok kvs" "list_all ?ok kvs'" using JObj.prems w by simp_all
  have j: "joinWith '','' (map ?f kvs) @ CHR ''}'' # r = joinWith '','' (map ?f kvs') @ CHR ''}'' # r'"
    using JObj.prems(5) w l by (simp add: filter_json_fields)
  have hd: "\<exists>h t. ?f y = h # t \<and> h \<noteq> CHR ''}'' \<and> h \<noteq> CHR '',''" if "?ok y" for y
    by (cases y) (simp add: quoteJSONString_def)
  have pre: "x = y \<and> Ra = Rb"
    if "x \<in> set kvs" "?ok y" "delimited Ra" "delimited Rb" "?f x @ Ra = ?f y @ Rb" for x y Ra Rb
  proof -
    obtain k v where x: "x = (k, v)" by (cases x)
    obtain k' v' where y: "y = (k', v')" by (cases y)
    have "quoteJSONString k @ (CHR '':'' # JSON_stringify fmt v @ Ra) =
          quoteJSONString k' @ (CHR '':'' # JSON_stringify fmt v' @ Rb)"
      using that(5) x y by simp
    then have kk: "k = k'" and e: "JSON_stringify fmt v @ Ra = JSON_stringify fmt v' @ Rb"
      using quoteJSONString_prefix by blast+
    have "isJson v" using l(1) that(1) x by (auto simp: list_all_iff)
    moreover have "isJson v'" using that(2) y by simp
    moreover have "v \<in> Basic_BNFs.snds x" using x by (simp add: prod_set_simps)
    ultimately have "v = v' \<and> Ra = Rb"
      using JObj.IH [of x v v' Ra Rb] that(1,3,4) e by simp
    then show ?thesis using kk x y by simp
  qed
  have "kvs = kvs' \<and> r = r'"
    by (rule joinWith_prefix [where f = ?f and ok = ?ok, OF hd _ pre l j]) simp_all
  then show ?case using w by simp
qed simp_all

lemma JSON_stringify_inj:
  "isJson v \<Longrightarrow> isJson w \<Longrightarrow> JSON_stringify fmt v = JSON_stringify fmt w \<Longrightarrow> v = w"
  using JSON_stringify_prefix [of v w "[]" "[]" fmt] by (simp add: delimited_def)

lemma filter_defined_eq:
  fixes kvs kvs' :: "(string \<times> jsval) list"
  shows "map fst kvs = map fst kvs' \<Longrightarrow> distinct (map fst kvs) \<Longrightarrow>
   filter (\<lambda>(k, v). v \<noteq> JUndefined) kvs = filter (\<lambda>(k, v). v \<noteq> JUndefined) kvs' \<Longrightarrow>
   kvs = kvs'"
proof (induction kvs arbitrary: kvs')
  case Nil
  then show ?case by simp
next
  case (Cons p kvs)
  let ?D = "filter (\<lambda>(k :: string, v). v \<noteq> JUndefined)"
  obtain k v where p: "p = (k, v)" by (cases p)
  obtain v' rest where k': "kvs' = (k, v') # rest" "map fst kvs = map fst rest"
    using Cons.prems(1) p by (cases kvs') auto
  have kn: "k \<notin> fst ` set kvs" using Cons.prems(2) p by simp
  have "set (map fst kvs) = set (map fst rest)" using k'(2) by simp
  then have kr: "k \<notin> fst ` set rest" using kn by simp
  have notin: "(k, u) \<notin> set (?D kvs)" "(k, u) \<notin> set (?D rest)" for u
    using kn kr by force+
  have d: "distinct (map fst kvs)" using Cons.prems(2) by simp
  have e: "?D ((k, v) # kvs) = ?D ((k, v') # rest)" using Cons.prems(3) p k' by simp
  show ?case
  proof (cases "v = JUndefined")
    case vu: True
    show ?thesis
    proof (cases "v' = JUndefined")
      case True
      then have "?D kvs = ?D rest" using e vu by simp
      then have "kvs = rest" using Cons.IH [OF k'(2) d] by simp
      then show ?thesis using p k' vu True by simp
    next
      case False
      then have "?D kvs = (k, v') # ?D rest" using e vu by simp
      then have "(k, v') \<in> set (?D kvs)" by simp
      then show ?thesis using notin(1) by blast
    qed
  next
    case vd: False
    show ?thesis
    proof (cases "v' = JUndefined")
      case True
      then have "(k, v) # ?D kvs = ?D rest" using e vd by simp
      then have "set ((k, v) # ?D kvs) = set (?D rest)" by simp
      then have "(k, v) \<in> set (?D rest)" by (simp del: set_filter) blast
      then show ?thesis using notin(2) by blast
    next
      case False
      then have "v = v'" "?D kvs = ?D rest" using e vd by simp_all
      then have "kvs = rest" using Cons.IH [OF k'(2) d] by simp
      then show ?thesis using p k' \<open>v = v'\<close> by simp
    qed
  qed
qed

lemma relevantData_fields:
  "relevantData d = JObj (map (\<lambda>f. (f, jsGet d f)) projectedFields)"
  by (simp add: relevantData_def projectedFields_def)

lemma relevantData_inj:
  assumes "jsonProjection a" "jsonProjection b"
    and "JSON_stringify fmt (relevantData a) = JSON_stringify fmt (relevantData b)"
  shows "relevantData a = relevantData b"
proof -
  let ?F = "\<lambda>d. map (\<lambda>f. (f, jsGet d f)) projectedFields"
  let ?D = "filter (\<lambda>(k :: string, v). v \<noteq> JUndefined)"
  have ser: "JSON_stringify fmt (JObj kvs) = JSON_stringify fmt (JObj (?D kvs))" for kvs
    by simp
  have js: "isJson (JObj (?D (?F d)))" if "jsonProjection d" for d
    using that by (auto simp: jsonProjection_def list_all_iff)
  have "JSON_stringify fmt (JObj (?D (?F a))) = JSON_stringify fmt (JObj (?D (?F b)))"
    using assms(3) ser [of "?F a"] ser [of "?F b"] by (simp only: relevantData_fields)
  then have "JObj (?D (?F a)) = JObj (?D (?F b))"
    using JSON_stringify_inj [OF js [OF assms(1)] js [OF assms(2)]] by blast
  then have "?D (?F a) = ?D (?F b)" by simp
  moreover have "map fst (?F a) = map fst (?F b)" by (simp add: comp_def)
  moreover have "distinct (map fst (?F a))" by (simp add: comp_def projectedFields_def)
  ultimately have "?F a = ?F b" by (rule filter_defined_eq [rotated 2])
  then show ?thesis by (simp only: relevantData_fields)
qed

section \<open>Properties of the fingerprint\<close>

lemma relevantData_projection:
  "relevantData a = relevantData b \<longleftrightarrow>
   map (jsGet a) projectedFields = map (jsGet b) projectedFields"
  by (auto simp: relevantData_def projectedFields_def)

lemma nibble_less: "unat ((w :: 256 word) AND 15) < 16"
proof -
  have "w AND 15 \<le> 15" by (rule word_and_le1)
  then have "unat (w AND 15) \<le> unat (15 :: 256 word)" by (simp add: word_le_nat_alt)
  then show ?thesis by simp
qed

lemma hexDigest_inj: "hexDigest v = hexDigest w \<Longrightarrow> v = w"
proof -
  assume eq: "hexDigest v = hexDigest w"
  have nib: "drop_bit (4 * (63 - i)) v AND 15 = drop_bit (4 * (63 - i)) w AND 15" if "i < 64" for i
  proof -
    from eq have "hexDigest v ! i = hexDigest w ! i" by simp
    with that have "hexDigit (unat (drop_bit (4 * (63 - i)) v AND 15)) =
        hexDigit (unat (drop_bit (4 * (63 - i)) w AND 15))"
      by (simp add: hexDigest_def)
    then have "unat (drop_bit (4 * (63 - i)) v AND 15) = unat (drop_bit (4 * (63 - i)) w AND 15)"
      by (rule hexDigit_inj [OF nibble_less nibble_less])
    then show ?thesis by (simp add: word_unat_eq_iff)
  qed
  show "v = w"
  proof (rule bit_eqI)
    fix n
    assume "possible_bit TYPE(256 word) n"
    then have n: "n < 256" by (simp add: possible_bit_def)
    define i where "i = 63 - n div 4"
    have i: "i < 64" and k: "4 * (63 - i) + n mod 4 = n"
      using n by (auto simp: i_def)
    from nib [OF i] have "bit (drop_bit (4 * (63 - i)) v AND 15) (n mod 4) =
        bit (drop_bit (4 * (63 - i)) w AND 15) (n mod 4)"
      by simp
    moreover have "bit (15 :: 256 word) (n mod 4)"
    proof -
      have m: "(15 :: 256 word) = mask 4" by (simp add: mask_eq_exp_minus_1)
      have "bit (mask 4 :: 256 word) (n mod 4)" by (simp add: bit_mask_iff)
      then show ?thesis by (simp only: m)
    qed
    ultimately show "bit v n = bit w n"
      using k by (simp add: bit_and_iff bit_drop_bit_eq)
  qed
qed

lemma projection_collision:
  "\<exists>a b. jsGet a ''title'' \<noteq> jsGet b ''title'' \<and> hashAccData rt a = hashAccData rt b"
proof -
  let ?f = "\<lambda>n :: nat. hashAccData rt (JObj [(''title'', JStr (replicate n CHR ''a''))])"
  have "range ?f \<subseteq> range hexDigest" by (auto simp: hashAccData_def)
  moreover have "finite (range hexDigest)" by simp
  ultimately have "finite (range ?f)" by (rule finite_subset)
  then have "\<not> inj ?f" using finite_imageD by fastforce
  then obtain n m where "n \<noteq> m" "?f n = ?f m" by (auto simp: inj_on_def)
  moreover have "replicate n CHR ''a'' \<noteq> replicate m CHR ''a''"
    using \<open>n \<noteq> m\<close> by (metis length_replicate)
  ultimately show ?thesis
    by (intro exI [of _ "JObj [(''title'', JStr (replicate n CHR ''a''))]"]
        exI [of _ "JObj [(''title'', JStr (replicate m CHR ''a''))]"]) simp
qed

text \<open>
  C7, as the code has it. Payloads that agree on the seven projected fields get the same
  digest, whatever else they carry and in whatever order. Two payloads get the same
  digest exactly when SHA-256 gives the serialisations of their projections the same
  value. And when each projected field is absent or a JSON value, payloads that differ
  in a projected field have different serialisations; so their digests differ unless
  SHA-256 collides on these two strings.
\<close>

theorem fingerprint_of_projection:
  "(map (jsGet a) projectedFields = map (jsGet b) projectedFields \<longrightarrow>
      hashAccData rt a = hashAccData rt b) \<and>
   (hashAccData rt a = hashAccData rt b \<longleftrightarrow>
      sha256 rt (stringify rt (relevantData a)) = sha256 rt (stringify rt (relevantData b))) \<and>
   (jsonProjection a \<and> jsonProjection b \<and>
    map (jsGet a) projectedFields \<noteq> map (jsGet b) projectedFields \<longrightarrow>
      stringify rt (relevantData a) \<noteq> stringify rt (relevantData b))"
proof -
  have "hashAccData rt a = hashAccData rt b"
    if "map (jsGet a) projectedFields = map (jsGet b) projectedFields"
    using that unfolding hashAccData_def relevantData_projection [symmetric] by simp
  moreover have "hashAccData rt a = hashAccData rt b \<longleftrightarrow>
      sha256 rt (stringify rt (relevantData a)) = sha256 rt (stringify rt (relevantData b))"
    unfolding hashAccData_def by (auto dest: hexDigest_inj)
  moreover have "stringify rt (relevantData a) \<noteq> stringify rt (relevantData b)"
    if "jsonProjection a" "jsonProjection b"
      "map (jsGet a) projectedFields \<noteq> map (jsGet b) projectedFields"
  proof
    assume "stringify rt (relevantData a) = stringify rt (relevantData b)"
    then have "relevantData a = relevantData b"
      using relevantData_inj [OF that(1,2)] by (simp add: stringify_def)
    then show False using that(3) by (simp only: relevantData_projection)
  qed
  ultimately show ?thesis by blast
qed

text \<open>
  The demonstration payload and a payload with the same projected fields in another order
  get the same digest; the demonstration payload and one whose status differs are
  serialised differently.
\<close>

theorem fingerprint_of_projection_witness:
  "\<forall>rt. map (jsGet demoPayload) projectedFields =
          map (jsGet (JObj [(''title'', JStr ''Clarify beam size''), (''number'', JStr ''RFI-7''),
                            (''status'', JStr ''open''), (''id'', JStr ''R-1'')]))
            projectedFields \<and>
        hashAccData rt demoPayload =
          hashAccData rt (JObj [(''title'', JStr ''Clarify beam size''), (''number'', JStr ''RFI-7''),
                                (''status'', JStr ''open''), (''id'', JStr ''R-1'')]) \<and>
        jsonProjection demoPayload \<and>
        jsonProjection (JObj [(''status'', JStr ''answered''), (''dueDate'', JNull)]) \<and>
        stringify rt (relevantData demoPayload) \<noteq>
          stringify rt (relevantData (JObj [(''status'', JStr ''answered''), (''dueDate'', JNull)]))"
proof
  fix rt
  let ?b = "JObj [(''title'', JStr ''Clarify beam size''), (''number'', JStr ''RFI-7''),
                  (''status'', JStr ''open''), (''id'', JStr ''R-1'')]"
  let ?c = "JObj [(''status'', JStr ''answered''), (''dueDate'', JNull)]"
  have p: "map (jsGet demoPayload) projectedFields = map (jsGet ?b) projectedFields"
    by (simp add: projectedFields_def demoPayload_def)
  have j: "jsonProjection demoPayload" "jsonProjection ?c"
    by (simp_all add: jsonProjection_def projectedFields_def demoPayload_def)
  have d: "map (jsGet demoPayload) projectedFields \<noteq> map (jsGet ?c) projectedFields"
    by (simp add: projectedFields_def demoPayload_def)
  have "hashAccData rt demoPayload = hashAccData rt ?b"
    using fingerprint_of_projection [of demoPayload ?b rt] p by blast
  moreover have "stringify rt (relevantData demoPayload) \<noteq> stringify rt (relevantData ?c)"
    using fingerprint_of_projection [of demoPayload ?c rt] j d by blast
  ultimately show "map (jsGet demoPayload) projectedFields = map (jsGet ?b) projectedFields \<and>
      hashAccData rt demoPayload = hashAccData rt ?b \<and>
      jsonProjection demoPayload \<and> jsonProjection ?c \<and>
      stringify rt (relevantData demoPayload) \<noteq> stringify rt (relevantData ?c)"
    using p j by blast
qed

theorem fingerprint_collision:
  "\<forall>rt. \<exists>a b. jsGet a ''title'' \<noteq> jsGet b ''title'' \<and> hashAccData rt a = hashAccData rt b"
  using projection_collision by blast

section \<open>Properties of the number arithmetic\<close>

lemma bitLength_nonneg: "0 \<le> bitLength n"
proof (induction n rule: bitLength.induct)
  case (1 n)
  then show ?case by (subst bitLength.simps) auto
qed

lemma bitLength_pos: "0 < n \<Longrightarrow> 1 \<le> bitLength n"
  using bitLength_nonneg [of "n div 2"] by (subst bitLength.simps) simp

lemma bitLength_bounds:
  "0 < n \<Longrightarrow> 2 ^ nat (bitLength n - 1) \<le> n \<and> n < 2 ^ nat (bitLength n)"
proof (induction n rule: bitLength.induct)
  case (1 n)
  show ?case
  proof (cases "n = 1")
    case True
    have "bitLength 1 = 1"
      by (subst bitLength.simps) (simp add: bitLength.simps [of 0])
    then show ?thesis using True by simp
  next
    case False
    then have h: "0 < n div 2" using 1(2) by simp
    then have IH: "2 ^ nat (bitLength (n div 2) - 1) \<le> n div 2"
      "n div 2 < 2 ^ nat (bitLength (n div 2))"
      using 1 by simp_all
    have b: "bitLength n = 1 + bitLength (n div 2)"
      using 1(2) by (subst bitLength.simps) simp
    have p: "1 \<le> bitLength (n div 2)" using h by (rule bitLength_pos)
    then have e1: "nat (bitLength n - 1) = Suc (nat (bitLength (n div 2) - 1))"
      and e2: "nat (bitLength n) = Suc (nat (bitLength (n div 2)))"
      using b by simp_all
    have "2 * 2 ^ nat (bitLength (n div 2) - 1) \<le> 2 * (n div 2)" using IH(1) by simp
    also have "\<dots> \<le> n" by simp
    finally have lo: "2 ^ nat (bitLength n - 1) \<le> n" by (simp add: e1)
    have "n div 2 + 1 \<le> 2 ^ nat (bitLength (n div 2))" using IH(2) by simp
    then have "2 * (n div 2) + 2 \<le> 2 * 2 ^ nat (bitLength (n div 2))" by simp
    moreover have "n \<le> 2 * (n div 2) + 1" by presburger
    ultimately have hi: "n < 2 ^ nat (bitLength n)" by (simp add: e2)
    show ?thesis using lo hi by simp
  qed
qed

lemma bitLength_powi:
  assumes "0 < n"
  shows "(2 :: rat) powi (bitLength n - 1) \<le> of_int n" "(of_int n :: rat) < 2 powi bitLength n"
proof -
  have p: "1 \<le> bitLength n" using assms by (rule bitLength_pos)
  have "(of_int (2 ^ nat (bitLength n - 1)) :: rat) \<le> of_int n"
    using bitLength_bounds [OF assms] by (simp only: of_int_le_iff)
  then show "(2 :: rat) powi (bitLength n - 1) \<le> of_int n"
    using p by (simp add: power_int_def)
  have "(of_int n :: rat) < of_int (2 ^ nat (bitLength n))"
    using bitLength_bounds [OF assms] by (simp only: of_int_less_iff)
  then show "(of_int n :: rat) < 2 powi bitLength n"
    using p by (simp add: power_int_def)
qed

lemma floorLog2_bounds:
  assumes "0 < q"
  shows "2 powi floorLog2 q \<le> q \<and> q < 2 powi (floorLog2 q + 1)"
proof -
  obtain a b where ab: "quotient_of q = (a, b)" by (cases "quotient_of q")
  then have b: "0 < b" and q: "q = of_int a / of_int b"
    using quotient_of_denom_pos quotient_of_div by blast+
  then have a: "0 < a" using assms by (simp add: zero_less_divide_iff)
  define e where "e = bitLength a - bitLength b"
  have bq: "(0 :: rat) < of_int b" using b by simp
  have lo: "(2 :: rat) powi (e - 1) < q"
  proof -
    have "(2 :: rat) powi (e - 1) * of_int b < 2 powi (e - 1) * 2 powi bitLength b"
      using bitLength_powi(2) [OF b] by simp
    also have "\<dots> = 2 powi (bitLength a - 1)"
      by (simp add: e_def power_int_add [symmetric])
    also have "\<dots> \<le> of_int a" using bitLength_powi(1) [OF a] .
    finally show ?thesis using bq by (simp add: q pos_less_divide_eq)
  qed
  have hi: "q < (2 :: rat) powi (e + 1)"
  proof -
    have "(of_int a :: rat) < 2 powi bitLength a" using bitLength_powi(2) [OF a] .
    also have "\<dots> = 2 powi (e + 1) * 2 powi (bitLength b - 1)"
      by (simp add: e_def power_int_add [symmetric])
    also have "\<dots> \<le> 2 powi (e + 1) * of_int b"
      using bitLength_powi(1) [OF b] by simp
    finally show ?thesis using bq by (simp add: q pos_divide_less_eq)
  qed
  show ?thesis
  proof (cases "2 powi e \<le> q")
    case True
    then have "floorLog2 q = e" by (simp add: floorLog2_def ab e_def Let_def)
    then show ?thesis using True hi by simp
  next
    case False
    then have "floorLog2 q = e - 1" by (simp add: floorLog2_def ab e_def Let_def)
    then show ?thesis using False lo by simp
  qed
qed

lemma roundHalfEven_int: "roundHalfEven (of_int n) = n"
  by (simp add: roundHalfEven_def)

text \<open>A value with at most 53 significant bits in the exponent range is not rounded.\<close>

lemma roundDouble_exact:
  assumes "\<bar>m\<bar> < 2 ^ 53" "- 1074 \<le> j" "j \<le> 971"
  shows "roundDouble (of_int m * 2 powi j) = Finite (of_int m * 2 powi j)"
proof (cases "m = 0")
  case True
  then show ?thesis by (simp add: roundDouble_def)
next
  case False
  define q :: rat where "q = of_int m * 2 powi j"
  have q0: "q \<noteq> 0" using False by (simp add: q_def)
  have aq: "\<bar>q\<bar> = of_int \<bar>m\<bar> * 2 powi j" by (simp add: q_def abs_mult)
  have "(of_int \<bar>m\<bar> :: rat) < of_int (2 ^ 53)" using assms(1) by (simp only: of_int_less_iff)
  then have "\<bar>q\<bar> < 2 ^ 53 * 2 powi j" by (simp add: aq)
  also have "\<dots> = 2 powi (53 + j)" by (simp add: power_int_add)
  finally have up: "\<bar>q\<bar> < 2 powi (53 + j)" .
  have "2 powi floorLog2 \<bar>q\<bar> \<le> \<bar>q\<bar>" using floorLog2_bounds [of "\<bar>q\<bar>"] q0 by simp
  then have "(2 :: rat) powi floorLog2 \<bar>q\<bar> < 2 powi (53 + j)" using up by simp
  note this
  have "floorLog2 \<bar>q\<bar> < 53 + j"
  proof (rule ccontr)
    assume "\<not> floorLog2 \<bar>q\<bar> < 53 + j"
    then have "53 + j \<le> floorLog2 \<bar>q\<bar>" by simp
    then have "(2 :: rat) powi (53 + j) \<le> 2 powi floorLog2 \<bar>q\<bar>"
      by (intro power_int_increasing) simp_all
    then show False using \<open>(2 :: rat) powi floorLog2 \<bar>q\<bar> < 2 powi (53 + j)\<close> by simp
  qed
  define k where "k = max (floorLog2 \<bar>q\<bar> - 52) (- 1074)"
  have kj: "k \<le> j" using \<open>floorLog2 \<bar>q\<bar> < 53 + j\<close> assms(2) by (simp add: k_def)
  have "\<bar>q\<bar> / 2 powi k = of_int \<bar>m\<bar> * 2 powi (j - k)"
    by (simp add: aq power_int_diff)
  also have "\<dots> = of_int (\<bar>m\<bar> * 2 ^ nat (j - k))"
    using kj by (simp add: power_int_def)
  finally have "roundHalfEven (\<bar>q\<bar> / 2 powi k) = \<bar>m\<bar> * 2 ^ nat (j - k)"
    by (simp only: roundHalfEven_int)
  then have r: "of_int (roundHalfEven (\<bar>q\<bar> / 2 powi k)) * 2 powi k = \<bar>q\<bar>"
    using \<open>\<bar>q\<bar> / 2 powi k = of_int \<bar>m\<bar> * 2 powi (j - k)\<close>
      \<open>of_int \<bar>m\<bar> * 2 powi (j - k) = of_int (\<bar>m\<bar> * 2 ^ nat (j - k))\<close>
    by (metis nonzero_divide_eq_eq power_int_eq_0_iff zero_neq_numeral)
  have "\<bar>q\<bar> < 2 powi (53 + j)" by (rule up)
  also have "\<dots> \<le> 2 powi 1024" using assms(3) by (intro power_int_increasing) simp_all
  finally have small: "\<not> 2 ^ 1024 \<le> \<bar>q\<bar>" by simp
  have "roundDouble q =
      (if 2 ^ 1024 \<le> \<bar>q\<bar> then (if 0 < q then PosInf else NegInf)
       else Finite (if 0 < q then \<bar>q\<bar> else - \<bar>q\<bar>))"
    unfolding roundDouble_def Let_def k_def [symmetric] r using q0 by (simp only: if_False)
  then have "roundDouble q = Finite (if 0 < q then \<bar>q\<bar> else - \<bar>q\<bar>)"
    using small by (simp only: if_False)
  moreover have "(if 0 < q then \<bar>q\<bar> else - \<bar>q\<bar>) = q" by simp
  ultimately show ?thesis by (simp only: q_def)
qed

lemma roundDouble_int: "\<bar>m\<bar> < 2 ^ 53 \<Longrightarrow> roundDouble (of_int m) = Finite (of_int m)"
  using roundDouble_exact [of m 0] by simp

lemma roundDouble_half:
  "\<bar>m\<bar> < 2 ^ 53 \<Longrightarrow> roundDouble (of_int m / 2) = Finite (of_int m / 2)"
  using roundDouble_exact [of m "- 1"] by (simp add: power_int_minus field_simps)

lemma roundDouble_quarter:
  "\<bar>m\<bar> < 2 ^ 53 \<Longrightarrow> roundDouble (of_int m / 4) = Finite (of_int m / 4)"
  using roundDouble_exact [of m "- 2"] by (simp add: power_int_minus field_simps)

lemma timeValue_exact: "\<bar>t\<bar> < 2 ^ 53 \<Longrightarrow> timeValue t = Finite (of_int t)"
  by (simp add: timeValue_def roundDouble_int)

lemma default_percent_numbers:
  "toNumber rt (JNum 50) = Inr (Finite 50)" "toNumber rt (JNum 75) = Inr (Finite 75)"
  using roundDouble_int [of 50] roundDouble_int [of 75] by (simp_all add: toNumber_def)

lemma default_fractions:
  "ndiv (Finite 50) (Finite 100) = Finite (1 / 2)" "ndiv (Finite 75) (Finite 100) = Finite (3 / 4)"
  using roundDouble_half [of 1] roundDouble_quarter [of 3] by simp_all

text \<open>
  With the default percentages and times within 2^49 ms of the epoch no operation rounds:
  the deadlines are the instants half way and three quarters of the way from now to the
  due date, the fraction of a millisecond cut off.
\<close>

lemma default_deadlines:
  assumes "\<bar>now\<bar> \<le> 2 ^ 49" "\<bar>due\<bar> \<le> 2 ^ 49"
  shows "deadlineAt now (nsub (timeValue due) (timeValue now)) (Finite 50) =
           JDate (truncToZero ((of_int now + of_int due) / 2))"
    and "deadlineAt now (nsub (timeValue due) (timeValue now)) (Finite 75) =
           JDate (truncToZero ((of_int now + 3 * of_int due) / 4))"
proof -
  have n: "timeValue now = Finite (of_int now)" and d: "timeValue due = Finite (of_int due)"
    using assms by (simp_all add: timeValue_exact)
  have b: "\<bar>due - now\<bar> < 2 ^ 53" "\<bar>3 * (due - now)\<bar> < 2 ^ 53" "\<bar>now + due\<bar> < 2 ^ 53"
    "\<bar>now + 3 * due\<bar> < 2 ^ 53"
    using assms by simp_all
  have t: "nsub (Finite (of_int due)) (Finite (of_int now)) = Finite (of_int (due - now))"
    using roundDouble_int [OF b(1)] by (simp add: nsub_def)
  have m1: "nmul (Finite (of_int (due - now))) (Finite (1 / 2)) = Finite (of_int (due - now) / 2)"
  proof -
    have "(of_int (due - now) :: rat) * (1 / 2) = of_int (due - now) / 2" by simp
    then show ?thesis by (simp only: nmul.simps roundDouble_half [OF b(1)])
  qed
  have m2: "nmul (Finite (of_int (due - now))) (Finite (3 / 4)) =
      Finite (of_int (3 * (due - now)) / 4)"
  proof -
    have "(of_int (due - now) :: rat) * (3 / 4) = of_int (3 * (due - now)) / 4" by simp
    then show ?thesis by (simp only: nmul.simps roundDouble_quarter [OF b(2)])
  qed
  have a1: "nadd (Finite (of_int now)) (Finite (of_int (due - now) / 2)) =
      Finite (of_int (now + due) / 2)"
  proof -
    have "(of_int now :: rat) + of_int (due - now) / 2 = of_int (now + due) / 2"
      by (simp add: field_simps)
    then show ?thesis by (simp only: nadd.simps roundDouble_half [OF b(3)])
  qed
  have a2: "nadd (Finite (of_int now)) (Finite (of_int (3 * (due - now)) / 4)) =
      Finite (of_int (now + 3 * due) / 4)"
  proof -
    have "(of_int now :: rat) + of_int (3 * (due - now)) / 4 = of_int (now + 3 * due) / 4"
      by (simp add: field_simps)
    then show ?thesis by (simp only: nadd.simps roundDouble_quarter [OF b(4)])
  qed
  have c1: "\<not> 8640000000000000 < \<bar>(of_int (now + due) :: rat) / 2\<bar>"
  proof -
    have "\<bar>now + due\<bar> \<le> 2 * 8640000000000000" using assms by simp
    then have "\<bar>(of_int (now + due) :: rat)\<bar> \<le> of_int (2 * 8640000000000000)"
      by (simp only: of_int_abs [symmetric] of_int_le_iff)
    then show ?thesis by simp
  qed
  have c2: "\<not> 8640000000000000 < \<bar>(of_int (now + 3 * due) :: rat) / 4\<bar>"
  proof -
    have "\<bar>now + 3 * due\<bar> \<le> 4 * 8640000000000000" using assms by simp
    then have "\<bar>(of_int (now + 3 * due) :: rat)\<bar> \<le> of_int (4 * 8640000000000000)"
      by (simp only: of_int_abs [symmetric] of_int_le_iff)
    then show ?thesis by simp
  qed
  have "deadlineAt now (nsub (timeValue due) (timeValue now)) (Finite 50) =
      timeClip (Finite (of_int (now + due) / 2))"
    by (simp only: deadlineAt_def n d t default_fractions m1 a1)
  then show "deadlineAt now (nsub (timeValue due) (timeValue now)) (Finite 50) =
           JDate (truncToZero ((of_int now + of_int due) / 2))"
    using c1 by simp
  have "deadlineAt now (nsub (timeValue due) (timeValue now)) (Finite 75) =
      timeClip (Finite (of_int (now + 3 * due) / 4))"
    by (simp only: deadlineAt_def n d t default_fractions m2 a2)
  then show "deadlineAt now (nsub (timeValue due) (timeValue now)) (Finite 75) =
           JDate (truncToZero ((of_int now + 3 * of_int due) / 4))"
    using c2 by simp
qed

lemma deadlineAt_defined: "deadlineAt now ms pc \<noteq> JUndefined"
  by (cases "nadd (timeValue now) (nmul ms (ndiv pc (Finite 100)))")
     (simp_all add: deadlineAt_def)

section \<open>Properties of the assignment\<close>

lemma calculateInternalDeadlines_projects:
  "projects s' = projects s \<Longrightarrow>
   calculateInternalDeadlines rt now pid due prio s' =
     calculateInternalDeadlines rt now pid due prio s"
  by (simp add: calculateInternalDeadlines_def loadDeadlineRules_def)

lemma loadDeadlineRules_parsed:
  "find (byIdValue pid) (projects s) = Some P \<Longrightarrow> P ''deadlineRules'' = JStr t \<Longrightarrow> t \<noteq> [] \<Longrightarrow>
   JSON_parse rt t = Some rules \<Longrightarrow> loadDeadlineRules rt pid s = Inr rules"
  by (simp add: loadDeadlineRules_def)

lemma loadDeadlineRules_none:
  "find (byIdValue pid) (projects s) = Some P \<Longrightarrow> \<not> truthy (P ''deadlineRules'') \<Longrightarrow>
   loadDeadlineRules rt pid s = Inr JNull"
  by (simp add: loadDeadlineRules_def)

lemma deadlinePercents_entry:
  "truthy rules \<Longrightarrow> p \<noteq> [] \<Longrightarrow> truthy (jsMember rules (toLowerCase p)) \<Longrightarrow>
   deadlinePercents rules (JStr p) =
     Inr (jsOr (jsGet (jsMember rules (toLowerCase p)) ''reviewPercent'') (JNum 50),
          jsOr (jsGet (jsMember rules (toLowerCase p)) ''qcPercent'') (JNum 75))"
  by (simp add: deadlinePercents_def Let_def)

lemma deadlinePercents_default:
  "\<not> truthy rules \<or> \<not> truthy priority \<or>
   (\<exists>p. priority = JStr p \<and> \<not> truthy (jsMember rules (toLowerCase p))) \<Longrightarrow>
   deadlinePercents rules priority = Inr (JNum 50, JNum 75)"
  by (auto simp: deadlinePercents_def Let_def)

text \<open>The deadlines of a record due at \<open>due\<close> whose rules have an entry for its priority.\<close>

lemma deadlines_from_entry:
  assumes "find (byIdValue pid) (projects s) = Some P" "P ''deadlineRules'' = JStr t" "t \<noteq> []"
    and "JSON_parse rt t = Some rules" "truthy rules" "p \<noteq> []"
    and "truthy (jsMember rules (toLowerCase p))"
    and "toNumber rt (jsOr (jsGet (jsMember rules (toLowerCase p)) ''reviewPercent'') (JNum 50)) =
           Inr x"
    and "toNumber rt (jsOr (jsGet (jsMember rules (toLowerCase p)) ''qcPercent'') (JNum 75)) =
           Inr y"
  shows "calculateInternalDeadlines rt now pid (JDate due) (JStr p) s =
     Inr (deadlineAt now (nsub (timeValue due) (timeValue now)) x,
          deadlineAt now (nsub (timeValue due) (timeValue now)) y)"
  using assms
  by (simp add: calculateInternalDeadlines_def loadDeadlineRules_parsed deadlinePercents_entry
      getTime_def Let_def)

text \<open>The deadlines of a record due at \<open>due\<close> when no rule applies to it.\<close>

lemma deadlines_by_default:
  assumes "find (byIdValue pid) (projects s) = Some P"
    and "\<not> truthy (P ''deadlineRules'') \<or>
         (\<exists>t rules. P ''deadlineRules'' = JStr t \<and> JSON_parse rt t = Some rules \<and>
            (\<not> truthy rules \<or> \<not> truthy priority \<or>
             (\<exists>p. priority = JStr p \<and> \<not> truthy (jsMember rules (toLowerCase p)))))"
  shows "calculateInternalDeadlines rt now pid (JDate due) priority s =
     Inr (deadlineAt now (nsub (timeValue due) (timeValue now)) (Finite 50),
          deadlineAt now (nsub (timeValue due) (timeValue now)) (Finite 75))"
proof -
  obtain rules where l: "loadDeadlineRules rt pid s = Inr rules"
    and d: "\<not> truthy rules \<or> \<not> truthy priority \<or>
            (\<exists>p. priority = JStr p \<and> \<not> truthy (jsMember rules (toLowerCase p)))"
  proof (cases "truthy (P ''deadlineRules'')")
    case False
    then have "loadDeadlineRules rt pid s = Inr JNull"
      using assms(1) by (rule loadDeadlineRules_none [rotated])
    then show ?thesis using that [of JNull] by simp
  next
    case True
    then obtain t rules where t: "P ''deadlineRules'' = JStr t" "JSON_parse rt t = Some rules"
      and d: "\<not> truthy rules \<or> \<not> truthy priority \<or>
              (\<exists>p. priority = JStr p \<and> \<not> truthy (jsMember rules (toLowerCase p)))"
      using assms(2) by blast
    have "t \<noteq> []" using True t(1) by auto
    then have "loadDeadlineRules rt pid s = Inr rules"
      using loadDeadlineRules_parsed [OF assms(1) t(1) _ t(2)] by simp
    then show ?thesis using that [of rules] d by simp
  qed
  show ?thesis
    by (simp add: calculateInternalDeadlines_def l deadlinePercents_default [OF d] getTime_def
        default_percent_numbers Let_def)
qed

lemma assignRfi_with_due_date:
  assumes uid: "filter (byId rfiId) (rfis s) = [r]"
    and usr: "find (byId userId) (users s) = Some usr"
    and due: "r ''accDueDate'' = JDate due"
    and calc: "calculateInternalDeadlines rt now (r ''projectId'') (JDate due) (r ''priority'') s =
                 Inr (deadlineAt now ms x, deadlineAt now ms y)"
  shows "\<exists>assignment s' r'.
           assignRfi rt now rfiId userId role assignedBy s = (Inr assignment, s') \<and>
           rfiAssignments s' = rfiAssignments s @ [assignment] \<and>
           assignment ''role'' = JStr (roleName role) \<and>
           filter (byId rfiId) (rfis s') = [r'] \<and>
           r' ''reviewDeadline'' = deadlineAt now ms x \<and>
           r' ''qcDeadline'' = deadlineAt now ms y \<and>
           r' ''internalStatus'' = JStr ''ASSIGNED_FOR_REVIEW''"
proof -
  let ?d = "[(''reviewDeadline'', deadlineAt now ms x),
             (''qcDeadline'', deadlineAt now ms y),
             (''internalStatus'', JStr ''ASSIGNED_FOR_REVIEW'')]"
  have f: "find (byId rfiId) (rfis s) = Some r" by (simp add: find_filter uid)
  have calc': "calculateInternalDeadlines rt now (r ''projectId'') (JDate due) (r ''priority'')
      s' = Inr (deadlineAt now ms x, deadlineAt now ms y)"
    if "projects s' = projects s" for s'
    using calculateInternalDeadlines_projects [OF that] calc by simp
  have idk: "byId rfiId (applyData ?d z) = byId rfiId z" for z
    by (simp add: byId_def applyData_def)
  have uid': "filter (byId rfiId) (updateWhere (byId rfiId) ?d (rfis s)) = [applyData ?d r]"
    using filter_updateWhere [of "byId rfiId" ?d "rfis s"] idk uid by simp
  have cols: "applyData ?d r ''reviewDeadline'' = deadlineAt now ms x"
    "applyData ?d r ''qcDeadline'' = deadlineAt now ms y"
    "applyData ?d r ''internalStatus'' = JStr ''ASSIGNED_FOR_REVIEW''"
    by (simp_all add: applyData_def deadlineAt_defined)
  have role: "createRow
        [(''rfiId'', JStr rfiId), (''userId'', JStr userId), (''role'', JStr (roleName role)),
         (''assignedBy'', JStr assignedBy), (''isUnread'', JBool True)] emptyRow ''role'' =
      JStr (roleName role)"
    by (simp add: createRow_def applyData_def)
  show ?thesis
    using uid' cols role
    by (simp add: assignRfi_def Let_def logged_def f usr due createNotification_def calc')
qed

lemma assignRfi_without_due_date:
  assumes uid: "filter (byId rfiId) (rfis s) = [r]"
    and usr: "find (byId userId) (users s) = Some usr"
    and due: "\<not> truthy (r ''accDueDate'')"
  shows "\<exists>assignment s'.
           assignRfi rt now rfiId userId role assignedBy s = (Inr assignment, s') \<and>
           rfiAssignments s' = rfiAssignments s @ [assignment] \<and>
           assignment ''role'' = JStr (roleName role) \<and>
           rfis s' = rfis s"
proof -
  have f: "find (byId rfiId) (rfis s) = Some r" by (simp add: find_filter uid)
  show ?thesis
    by (simp add: assignRfi_def Let_def logged_def f usr due createNotification_def
        createRow_def applyData_def)
qed

text \<open>The three cases of an assignment, on a record with the given unique id.\<close>

lemma assignRfi_cases:
  assumes uid: "filter (byId rfiId) (rfis s) = [r]"
    and usr: "find (byId userId) (users s) = Some usr"
  shows "r ''accDueDate'' = JDate due \<and>
         find (byIdValue (r ''projectId'')) (projects s) = Some P \<and>
         P ''deadlineRules'' = JStr t \<and> t \<noteq> [] \<and> JSON_parse rt t = Some rules \<and>
         truthy rules \<and> r ''priority'' = JStr p \<and> p \<noteq> [] \<and>
         truthy (jsMember rules (toLowerCase p)) \<and>
         toNumber rt (jsOr (jsGet (jsMember rules (toLowerCase p)) ''reviewPercent'') (JNum 50)) =
           Inr x \<and>
         toNumber rt (jsOr (jsGet (jsMember rules (toLowerCase p)) ''qcPercent'') (JNum 75)) =
           Inr y \<longrightarrow>
           (\<exists>assignment s' r'.
              assignRfi rt now rfiId userId role assignedBy s = (Inr assignment, s') \<and>
              rfiAssignments s' = rfiAssignments s @ [assignment] \<and>
              assignment ''role'' = JStr (roleName role) \<and>
              filter (byId rfiId) (rfis s') = [r'] \<and>
              r' ''reviewDeadline'' = deadlineAt now (nsub (timeValue due) (timeValue now)) x \<and>
              r' ''qcDeadline'' = deadlineAt now (nsub (timeValue due) (timeValue now)) y \<and>
              r' ''internalStatus'' = JStr ''ASSIGNED_FOR_REVIEW'')"
    and "r ''accDueDate'' = JDate due \<and>
         find (byIdValue (r ''projectId'')) (projects s) = Some P \<and>
         (\<not> truthy (P ''deadlineRules'') \<or>
          (\<exists>t rules. P ''deadlineRules'' = JStr t \<and> JSON_parse rt t = Some rules \<and>
             (\<not> truthy rules \<or> \<not> truthy (r ''priority'') \<or>
              (\<exists>p. r ''priority'' = JStr p \<and> \<not> truthy (jsMember rules (toLowerCase p)))))) \<longrightarrow>
           (\<exists>assignment s' r'.
              assignRfi rt now rfiId userId role assignedBy s = (Inr assignment, s') \<and>
              rfiAssignments s' = rfiAssignments s @ [assignment] \<and>
              assignment ''role'' = JStr (roleName role) \<and>
              filter (byId rfiId) (rfis s') = [r'] \<and>
              r' ''reviewDeadline'' =
                deadlineAt now (nsub (timeValue due) (timeValue now)) (Finite 50) \<and>
              r' ''qcDeadline'' =
                deadlineAt now (nsub (timeValue due) (timeValue now)) (Finite 75) \<and>
              r' ''internalStatus'' = JStr ''ASSIGNED_FOR_REVIEW'')"
    and "\<not> truthy (r ''accDueDate'') \<longrightarrow>
           (\<exists>assignment s' r'.
              assignRfi rt now rfiId userId role assignedBy s = (Inr assignment, s') \<and>
              rfiAssignments s' = rfiAssignments s @ [assignment] \<and>
              assignment ''role'' = JStr (roleName role) \<and>
              filter (byId rfiId) (rfis s') = [r'] \<and>
              r' ''reviewDeadline'' = r ''reviewDeadline'' \<and>
              r' ''qcDeadline'' = r ''qcDeadline'')"
proof -
  show "r ''accDueDate'' = JDate due \<and>
         find (byIdValue (r ''projectId'')) (projects s) = Some P \<and>
         P ''deadlineRules'' = JStr t \<and> t \<noteq> [] \<and> JSON_parse rt t = Some rules \<and>
         truthy rules \<and> r ''priority'' = JStr p \<and> p \<noteq> [] \<and>
         truthy (jsMember rules (toLowerCase p)) \<and>
         toNumber rt (jsOr (jsGet (jsMember rules (toLowerCase p)) ''reviewPercent'') (JNum 50)) =
           Inr x \<and>
         toNumber rt (jsOr (jsGet (jsMember rules (toLowerCase p)) ''qcPercent'') (JNum 75)) =
           Inr y \<longrightarrow>
           (\<exists>assignment s' r'.
              assignRfi rt now rfiId userId role assignedBy s = (Inr assignment, s') \<and>
              rfiAssignments s' = rfiAssignments s @ [assignment] \<and>
              assignment ''role'' = JStr (roleName role) \<and>
              filter (byId rfiId) (rfis s') = [r'] \<and>
              r' ''reviewDeadline'' = deadlineAt now (nsub (timeValue due) (timeValue now)) x \<and>
              r' ''qcDeadline'' = deadlineAt now (nsub (timeValue due) (timeValue now)) y \<and>
              r' ''internalStatus'' = JStr ''ASSIGNED_FOR_REVIEW'')"
  proof
    assume h: "r ''accDueDate'' = JDate due \<and>
         find (byIdValue (r ''projectId'')) (projects s) = Some P \<and>
         P ''deadlineRules'' = JStr t \<and> t \<noteq> [] \<and> JSON_parse rt t = Some rules \<and>
         truthy rules \<and> r ''priority'' = JStr p \<and> p \<noteq> [] \<and>
         truthy (jsMember rules (toLowerCase p)) \<and>
         toNumber rt (jsOr (jsGet (jsMember rules (toLowerCase p)) ''reviewPercent'') (JNum 50)) =
           Inr x \<and>
         toNumber rt (jsOr (jsGet (jsMember rules (toLowerCase p)) ''qcPercent'') (JNum 75)) =
           Inr y"
    then have "calculateInternalDeadlines rt now (r ''projectId'') (JDate due) (JStr p) s =
        Inr (deadlineAt now (nsub (timeValue due) (timeValue now)) x,
             deadlineAt now (nsub (timeValue due) (timeValue now)) y)"
      by (intro deadlines_from_entry [of _ _ P t]; blast)
    then show "\<exists>assignment s' r'.
              assignRfi rt now rfiId userId role assignedBy s = (Inr assignment, s') \<and>
              rfiAssignments s' = rfiAssignments s @ [assignment] \<and>
              assignment ''role'' = JStr (roleName role) \<and>
              filter (byId rfiId) (rfis s') = [r'] \<and>
              r' ''reviewDeadline'' = deadlineAt now (nsub (timeValue due) (timeValue now)) x \<and>
              r' ''qcDeadline'' = deadlineAt now (nsub (timeValue due) (timeValue now)) y \<and>
              r' ''internalStatus'' = JStr ''ASSIGNED_FOR_REVIEW''"
      using h by (intro assignRfi_with_due_date [OF uid usr]; simp)
  qed
  show "r ''accDueDate'' = JDate due \<and>
         find (byIdValue (r ''projectId'')) (projects s) = Some P \<and>
         (\<not> truthy (P ''deadlineRules'') \<or>
          (\<exists>t rules. P ''deadlineRules'' = JStr t \<and> JSON_parse rt t = Some rules \<and>
             (\<not> truthy rules \<or> \<not> truthy (r ''priority'') \<or>
              (\<exists>p. r ''priority'' = JStr p \<and> \<not> truthy (jsMember rules (toLowerCase p)))))) \<longrightarrow>
           (\<exists>assignment s' r'.
              assignRfi rt now rfiId userId role assignedBy s = (Inr assignment, s') \<and>
              rfiAssignments s' = rfiAssignments s @ [assignment] \<and>
              assignment ''role'' = JStr (roleName role) \<and>
              filter (byId rfiId) (rfis s') = [r'] \<and>
              r' ''reviewDeadline'' =
                deadlineAt now (nsub (timeValue due) (timeValue now)) (Finite 50) \<and>
              r' ''qcDeadline'' =
                deadlineAt now (nsub (timeValue due) (timeValue now)) (Finite 75) \<and>
              r' ''internalStatus'' = JStr ''ASSIGNED_FOR_REVIEW'')"
  proof
    assume h: "r ''accDueDate'' = JDate due \<and>
         find (byIdValue (r ''projectId'')) (projects s) = Some P \<and>
         (\<not> truthy (P ''deadlineRules'') \<or>
          (\<exists>t rules. P ''deadlineRules'' = JStr t \<and> JSON_parse rt t = Some rules \<and>
             (\<not> truthy rules \<or> \<not> truthy (r ''priority'') \<or>
              (\<exists>p. r ''priority'' = JStr p \<and> \<not> truthy (jsMember rules (toLowerCase p))))))"
    then have "calculateInternalDeadlines rt now (r ''projectId'') (JDate due) (r ''priority'') s =
        Inr (deadlineAt now (nsub (timeValue due) (timeValue now)) (Finite 50),
             deadlineAt now (nsub (timeValue due) (timeValue now)) (Finite 75))"
      by (intro deadlines_by_default [of _ _ P]; blast)
    then show "\<exists>assignment s' r'.
              assignRfi rt now rfiId userId role assignedBy s = (Inr assignment, s') \<and>
              rfiAssignments s' = rfiAssignments s @ [assignment] \<and>
              assignment ''role'' = JStr (roleName role) \<and>
              filter (byId rfiId) (rfis s') = [r'] \<and>
              r' ''reviewDeadline'' =
                deadlineAt now (nsub (timeValue due) (timeValue now)) (Finite 50) \<and>
              r' ''qcDeadline'' =
                deadlineAt now (nsub (timeValue due) (timeValue now)) (Finite 75) \<and>
              r' ''internalStatus'' = JStr ''ASSIGNED_FOR_REVIEW''"
      using h by (intro assignRfi_with_due_date [OF uid usr]; simp)
  qed
  show "\<not> truthy (r ''accDueDate'') \<longrightarrow>
           (\<exists>assignment s' r'.
              assignRfi rt now rfiId userId role assignedBy s = (Inr assignment, s') \<and>
              rfiAssignments s' = rfiAssignments s @ [assignment] \<and>
              assignment ''role'' = JStr (roleName role) \<and>
              filter (byId rfiId) (rfis s') = [r'] \<and>
              r' ''reviewDeadline'' = r ''reviewDeadline'' \<and>
              r' ''qcDeadline'' = r ''qcDeadline'')"
    using assignRfi_without_due_date [OF uid usr, of rt now role assignedBy] uid by auto
qed

lemma assignSubmittal_with_due_date:
  assumes uid: "filter (byId submittalId) (submittals s) = [r]"
    and usr: "find (byId userId) (users s) = Some usr"
    and due: "r ''accDueDate'' = JDate due"
    and calc: "calculateInternalDeadlines rt now (r ''projectId'') (JDate due) (r ''priority'') s =
                 Inr (deadlineAt now ms x, deadlineAt now ms y)"
  shows "\<exists>assignment s' r'.
           assignSubmittal rt now submittalId userId role assignedBy s = (Inr assignment, s') \<and>
           submittalAssignments s' = submittalAssignments s @ [assignment] \<and>
           assignment ''role'' = JStr (roleName role) \<and>
           filter (byId submittalId) (submittals s') = [r'] \<and>
           r' ''reviewDeadline'' = deadlineAt now ms x \<and>
           r' ''qcDeadline'' = deadlineAt now ms y \<and>
           r' ''internalStatus'' = JStr ''ASSIGNED_FOR_REVIEW''"
proof -
  let ?d = "[(''reviewDeadline'', deadlineAt now ms x),
             (''qcDeadline'', deadlineAt now ms y),
             (''internalStatus'', JStr ''ASSIGNED_FOR_REVIEW'')]"
  have f: "find (byId submittalId) (submittals s) = Some r" by (simp add: find_filter uid)
  have calc': "calculateInternalDeadlines rt now (r ''projectId'') (JDate due) (r ''priority'')
      s' = Inr (deadlineAt now ms x, deadlineAt now ms y)"
    if "projects s' = projects s" for s'
    using calculateInternalDeadlines_projects [OF that] calc by simp
  have idk: "byId submittalId (applyData ?d z) = byId submittalId z" for z
    by (simp add: byId_def applyData_def)
  have uid': "filter (byId submittalId) (updateWhere (byId submittalId) ?d (submittals s)) = [applyData ?d r]"
    using filter_updateWhere [of "byId submittalId" ?d "submittals s"] idk uid by simp
  have cols: "applyData ?d r ''reviewDeadline'' = deadlineAt now ms x"
    "applyData ?d r ''qcDeadline'' = deadlineAt now ms y"
    "applyData ?d r ''internalStatus'' = JStr ''ASSIGNED_FOR_REVIEW''"
    by (simp_all add: applyData_def deadlineAt_defined)
  have role: "createRow
        [(''submittalId'', JStr submittalId), (''userId'', JStr userId), (''role'', JStr (roleName role)),
         (''assignedBy'', JStr assignedBy), (''isUnread'', JBool True)] emptyRow ''role'' =
      JStr (roleName role)"
    by (simp add: createRow_def applyData_def)
  show ?thesis
    using uid' cols role
    by (simp add: assignSubmittal_def Let_def logged_def f usr due createNotification_def calc')
qed

lemma assignSubmittal_without_due_date:
  assumes uid: "filter (byId submittalId) (submittals s) = [r]"
    and usr: "find (byId userId) (users s) = Some usr"
    and due: "\<not> truthy (r ''accDueDate'')"
  shows "\<exists>assignment s'.
           assignSubmittal rt now submittalId userId role assignedBy s = (Inr assignment, s') \<and>
           submittalAssignments s' = submittalAssignments s @ [assignment] \<and>
           assignment ''role'' = JStr (roleName role) \<and>
           submittals s' = submittals s"
proof -
  have f: "find (byId submittalId) (submittals s) = Some r" by (simp add: find_filter uid)
  show ?thesis
    by (simp add: assignSubmittal_def Let_def logged_def f usr due createNotification_def
        createRow_def applyData_def)
qed

text \<open>The three cases of an assignment, on a record with the given unique id.\<close>

lemma assignSubmittal_cases:
  assumes uid: "filter (byId submittalId) (submittals s) = [r]"
    and usr: "find (byId userId) (users s) = Some usr"
  shows "r ''accDueDate'' = JDate due \<and>
         find (byIdValue (r ''projectId'')) (projects s) = Some P \<and>
         P ''deadlineRules'' = JStr t \<and> t \<noteq> [] \<and> JSON_parse rt t = Some rules \<and>
         truthy rules \<and> r ''priority'' = JStr p \<and> p \<noteq> [] \<and>
         truthy (jsMember rules (toLowerCase p)) \<and>
         toNumber rt (jsOr (jsGet (jsMember rules (toLowerCase p)) ''reviewPercent'') (JNum 50)) =
           Inr x \<and>
         toNumber rt (jsOr (jsGet (jsMember rules (toLowerCase p)) ''qcPercent'') (JNum 75)) =
           Inr y \<longrightarrow>
           (\<exists>assignment s' r'.
              assignSubmittal rt now submittalId userId role assignedBy s = (Inr assignment, s') \<and>
              submittalAssignments s' = submittalAssignments s @ [assignment] \<and>
              assignment ''role'' = JStr (roleName role) \<and>
              filter (byId submittalId) (submittals s') = [r'] \<and>
              r' ''reviewDeadline'' = deadlineAt now (nsub (timeValue due) (timeValue now)) x \<and>
              r' ''qcDeadline'' = deadlineAt now (nsub (timeValue due) (timeValue now)) y \<and>
              r' ''internalStatus'' = JStr ''ASSIGNED_FOR_REVIEW'')"
    and "r ''accDueDate'' = JDate due \<and>
         find (byIdValue (r ''projectId'')) (projects s) = Some P \<and>
         (\<not> truthy (P ''deadlineRules'') \<or>
          (\<exists>t rules. P ''deadlineRules'' = JStr t \<and> JSON_parse rt t = Some rules \<and>
             (\<not> truthy rules \<or> \<not> truthy (r ''priority'') \<or>
              (\<exists>p. r ''priority'' = JStr p \<and> \<not> truthy (jsMember rules (toLowerCase p)))))) \<longrightarrow>
           (\<exists>assignment s' r'.
              assignSubmittal rt now submittalId userId role assignedBy s = (Inr assignment, s') \<and>
              submittalAssignments s' = submittalAssignments s @ [assignment] \<and>
              assignment ''role'' = JStr (roleName role) \<and>
              filter (byId submittalId) (submittals s') = [r'] \<and>
              r' ''reviewDeadline'' =
                deadlineAt now (nsub (timeValue due) (timeValue now)) (Finite 50) \<and>
              r' ''qcDeadline'' =
                deadlineAt now (nsub (timeValue due) (timeValue now)) (Finite 75) \<and>
              r' ''internalStatus'' = JStr ''ASSIGNED_FOR_REVIEW'')"
    and "\<not> truthy (r ''accDueDate'') \<longrightarrow>
           (\<exists>assignment s' r'.
              assignSubmittal rt now submittalId userId role assignedBy s = (Inr assignment, s') \<and>
              submittalAssignments s' = submittalAssignments s @ [assignment] \<and>
              assignment ''role'' = JStr (roleName role) \<and>
              filter (byId submittalId) (submittals s') = [r'] \<and>
              r' ''reviewDeadline'' = r ''reviewDeadline'' \<and>
              r' ''qcDeadline'' = r ''qcDeadline'')"
proof -
  show "r ''accDueDate'' = JDate due \<and>
         find (byIdValue (r ''projectId'')) (projects s) = Some P \<and>
         P ''deadlineRules'' = JStr t \<and> t \<noteq> [] \<and> JSON_parse rt t = Some rules \<and>
         truthy rules \<and> r ''priority'' = JStr p \<and> p \<noteq> [] \<and>
         truthy (jsMember rules (toLowerCase p)) \<and>
         toNumber rt (jsOr (jsGet (jsMember rules (toLowerCase p)) ''reviewPercent'') (JNum 50)) =
           Inr x \<and>
         toNumber rt (jsOr (jsGet (jsMember rules (toLowerCase p)) ''qcPercent'') (JNum 75)) =
           Inr y \<longrightarrow>
           (\<exists>assignment s' r'.
              assignSubmittal rt now submittalId userId role assignedBy s = (Inr assignment, s') \<and>
              submittalAssignments s' = submittalAssignments s @ [assignment] \<and>
              assignment ''role'' = JStr (roleName role) \<and>
              filter (byId submittalId) (submittals s') = [r'] \<and>
              r' ''reviewDeadline'' = deadlineAt now (nsub (timeValue due) (timeValue now)) x \<and>
              r' ''qcDeadline'' = deadlineAt now (nsub (timeValue due) (timeValue now)) y \<and>
              r' ''internalStatus'' = JStr ''ASSIGNED_FOR_REVIEW'')"
  proof
    assume h: "r ''accDueDate'' = JDate due \<and>
         find (byIdValue (r ''projectId'')) (projects s) = Some P \<and>
         P ''deadlineRules'' = JStr t \<and> t \<noteq> [] \<and> JSON_parse rt t = Some rules \<and>
         truthy rules \<and> r ''priority'' = JStr p \<and> p \<noteq> [] \<and>
         truthy (jsMember rules (toLowerCase p)) \<and>
         toNumber rt (jsOr (jsGet (jsMember rules (toLowerCase p)) ''reviewPercent'') (JNum 50)) =
           Inr x \<and>
         toNumber rt (jsOr (jsGet (jsMember rules (toLowerCase p)) ''qcPercent'') (JNum 75)) =
           Inr y"
    then have "calculateInternalDeadlines rt now (r ''projectId'') (JDate due) (JStr p) s =
        Inr (deadlineAt now (nsub (timeValue due) (timeValue now)) x,
             deadlineAt now (nsub (timeValue due) (timeValue now)) y)"
      by (intro deadlines_from_entry [of _ _ P t]; blast)
    then show "\<exists>assignment s' r'.
              assignSubmittal rt now submittalId userId role assignedBy s = (Inr assignment, s') \<and>
              submittalAssignments s' = submittalAssignments s @ [assignment] \<and>
              assignment ''role'' = JStr (roleName role) \<and>
              filter (byId submittalId) (submittals s') = [r'] \<and>
              r' ''reviewDeadline'' = deadlineAt now (nsub (timeValue due) (timeValue now)) x \<and>
              r' ''qcDeadline'' = deadlineAt now (nsub (timeValue due) (timeValue now)) y \<and>
              r' ''internalStatus'' = JStr ''ASSIGNED_FOR_REVIEW''"
      using h by (intro assignSubmittal_with_due_date [OF uid usr]; simp)
  qed
  show "r ''accDueDate'' = JDate due \<and>
         find (byIdValue (r ''projectId'')) (projects s) = Some P \<and>
         (\<not> truthy (P ''deadlineRules'') \<or>
          (\<exists>t rules. P ''deadlineRules'' = JStr t \<and> JSON_parse rt t = Some rules \<and>
             (\<not> truthy rules \<or> \<not> truthy (r ''priority'') \<or>
              (\<exists>p. r ''priority'' = JStr p \<and> \<not> truthy (jsMember rules (toLowerCase p)))))) \<longrightarrow>
           (\<exists>assignment s' r'.
              assignSubmittal rt now submittalId userId role assignedBy s = (Inr assignment, s') \<and>
              submittalAssignments s' = submittalAssignments s @ [assignment] \<and>
              assignment ''role'' = JStr (roleName role) \<and>
              filter (byId submittalId) (submittals s') = [r'] \<and>
              r' ''reviewDeadline'' =
                deadlineAt now (nsub (timeValue due) (timeValue now)) (Finite 50) \<and>
              r' ''qcDeadline'' =
                deadlineAt now (nsub (timeValue due) (timeValue now)) (Finite 75) \<and>
              r' ''internalStatus'' = JStr ''ASSIGNED_FOR_REVIEW'')"
  proof
    assume h: "r ''accDueDate'' = JDate due \<and>
         find (byIdValue (r ''projectId'')) (projects s) = Some P \<and>
         (\<not> truthy (P ''deadlineRules'') \<or>
          (\<exists>t rules. P ''deadlineRules'' = JStr t \<and> JSON_parse rt t = Some rules \<and>
             (\<not> truthy rules \<or> \<not> truthy (r ''priority'') \<or>
              (\<exists>p. r ''priority'' = JStr p \<and> \<not> truthy (jsMember rules (toLowerCase p))))))"
    then have "calculateInternalDeadlines rt now (r ''projectId'') (JDate due) (r ''priority'') s =
        Inr (deadlineAt now (nsub (timeValue due) (timeValue now)) (Finite 50),
             deadlineAt now (nsub (timeValue due) (timeValue now)) (Finite 75))"
      by (intro deadlines_by_default [of _ _ P]; blast)
    then show "\<exists>assignment s' r'.
              assignSubmittal rt now submittalId userId role assignedBy s = (Inr assignment, s') \<and>
              submittalAssignments s' = submittalAssignments s @ [assignment] \<and>
              assignment ''role'' = JStr (roleName role) \<and>
              filter (byId submittalId) (submittals s') = [r'] \<and>
              r' ''reviewDeadline'' =
                deadlineAt now (nsub (timeValue due) (timeValue now)) (Finite 50) \<and>
              r' ''qcDeadline'' =
                deadlineAt now (nsub (timeValue due) (timeValue now)) (Finite 75) \<and>
              r' ''internalStatus'' = JStr ''ASSIGNED_FOR_REVIEW''"
      using h by (intro assignSubmittal_with_due_date [OF uid usr]; simp)
  qed
  show "\<not> truthy (r ''accDueDate'') \<longrightarrow>
           (\<exists>assignment s' r'.
              assignSubmittal rt now submittalId userId role assignedBy s = (Inr assignment, s') \<and>
              submittalAssignments s' = submittalAssignments s @ [assignment] \<and>
              assignment ''role'' = JStr (roleName role) \<and>
              filter (byId submittalId) (submittals s') = [r'] \<and>
              r' ''reviewDeadline'' = r ''reviewDeadline'' \<and>
              r' ''qcDeadline'' = r ''qcDeadline'')"
    using assignSubmittal_without_due_date [OF uid usr, of rt now role assignedBy] uid by auto
qed

text \<open>
  C9, as the code has it. An assignment to a record that has an external due date stores
  the review and QC deadlines and sets the internal status to ASSIGNED_FOR_REVIEW. Each
  deadline is \<^verbatim>\<open>now + (due - now) * (percent / 100)\<close> in double-precision arithmetic, the
  fraction of a millisecond cut off; the percentages are those of the entry that the
  project's rules have for the lower-cased priority (50 and 75 where the entry gives
  none), converted to numbers, and 50 and 75 when the project has no rules, the record no
  priority or the rules no entry for it. With the default percentages and times within
  2^49 ms of the epoch the deadlines are the instants half way and three quarters of the
  way from now to the due date. An assignment to a record without an external due date is
  recorded and stores no deadline.
\<close>

theorem assignment_sets_deadlines:
  "(filter (byId rfiId) (rfis s) = [r] \<and> find (byId userId) (users s) = Some usr \<longrightarrow>
      (r ''accDueDate'' = JDate due \<and>
       find (byIdValue (r ''projectId'')) (projects s) = Some P \<and>
       P ''deadlineRules'' = JStr t \<and> t \<noteq> [] \<and> JSON_parse rt t = Some rules \<and>
       truthy rules \<and> r ''priority'' = JStr p \<and> p \<noteq> [] \<and>
       truthy (jsMember rules (toLowerCase p)) \<and>
       toNumber rt (jsOr (jsGet (jsMember rules (toLowerCase p)) ''reviewPercent'') (JNum 50)) =
         Inr x \<and>
       toNumber rt (jsOr (jsGet (jsMember rules (toLowerCase p)) ''qcPercent'') (JNum 75)) =
         Inr y \<longrightarrow>
         (\<exists>assignment s' r'.
            assignRfi rt now rfiId userId role assignedBy s = (Inr assignment, s') \<and>
            rfiAssignments s' = rfiAssignments s @ [assignment] \<and>
            assignment ''role'' = JStr (roleName role) \<and>
            filter (byId rfiId) (rfis s') = [r'] \<and>
            r' ''reviewDeadline'' = deadlineAt now (nsub (timeValue due) (timeValue now)) x \<and>
            r' ''qcDeadline'' = deadlineAt now (nsub (timeValue due) (timeValue now)) y \<and>
            r' ''internalStatus'' = JStr ''ASSIGNED_FOR_REVIEW'')) \<and>
      (r ''accDueDate'' = JDate due \<and>
       find (byIdValue (r ''projectId'')) (projects s) = Some P \<and>
       (\<not> truthy (P ''deadlineRules'') \<or>
        (\<exists>t rules. P ''deadlineRules'' = JStr t \<and> JSON_parse rt t = Some rules \<and>
           (\<not> truthy rules \<or> \<not> truthy (r ''priority'') \<or>
            (\<exists>p. r ''priority'' = JStr p \<and> \<not> truthy (jsMember rules (toLowerCase p)))))) \<longrightarrow>
         (\<exists>assignment s' r'.
            assignRfi rt now rfiId userId role assignedBy s = (Inr assignment, s') \<and>
            rfiAssignments s' = rfiAssignments s @ [assignment] \<and>
            assignment ''role'' = JStr (roleName role) \<and>
            filter (byId rfiId) (rfis s') = [r'] \<and>
            r' ''reviewDeadline'' =
              deadlineAt now (nsub (timeValue due) (timeValue now)) (Finite 50) \<and>
            r' ''qcDeadline'' =
              deadlineAt now (nsub (timeValue due) (timeValue now)) (Finite 75) \<and>
            r' ''internalStatus'' = JStr ''ASSIGNED_FOR_REVIEW'')) \<and>
      (\<not> truthy (r ''accDueDate'') \<longrightarrow>
         (\<exists>assignment s' r'.
            assignRfi rt now rfiId userId role assignedBy s = (Inr assignment, s') \<and>
            rfiAssignments s' = rfiAssignments s @ [assignment] \<and>
            assignment ''role'' = JStr (roleName role) \<and>
            filter (byId rfiId) (rfis s') = [r'] \<and>
            r' ''reviewDeadline'' = r ''reviewDeadline'' \<and>
            r' ''qcDeadline'' = r ''qcDeadline''))) \<and>
   (filter (byId submittalId) (submittals s) = [r] \<and> find (byId userId) (users s) = Some usr \<longrightarrow>
      (r ''accDueDate'' = JDate due \<and>
       find (byIdValue (r ''projectId'')) (projects s) = Some P \<and>
       P ''deadlineRules'' = JStr t \<and> t \<noteq> [] \<and> JSON_parse rt t = Some rules \<and>
       truthy rules \<and> r ''priority'' = JStr p \<and> p \<noteq> [] \<and>
       truthy (jsMember rules (toLowerCase p)) \<and>
       toNumber rt (jsOr (jsGet (jsMember rules (toLowerCase p)) ''reviewPercent'') (JNum 50)) =
         Inr x \<and>
       toNumber rt (jsOr (jsGet (jsMember rules (toLowerCase p)) ''qcPercent'') (JNum 75)) =
         Inr y \<longrightarrow>
         (\<exists>assignment s' r'.
            assignSubmittal rt now submittalId userId role assignedBy s = (Inr assignment, s') \<and>
            submittalAssignments s' = submittalAssignments s @ [assignment] \<and>
            assignment ''role'' = JStr (roleName role) \<and>
            filter (byId submittalId) (submittals s') = [r'] \<and>
            r' ''reviewDeadline'' = deadlineAt now (nsub (timeValue due) (timeValue now)) x \<and>
            r' ''qcDeadline'' = deadlineAt now (nsub (timeValue due) (timeValue now)) y \<and>
            r' ''internalStatus'' = JStr ''ASSIGNED_FOR_REVIEW'')) \<and>
      (r ''accDueDate'' = JDate due \<and>
       find (byIdValue (r ''projectId'')) (projects s) = Some P \<and>
       (\<not> truthy (P ''deadlineRules'') \<or>
        (\<exists>t rules. P ''deadlineRules'' = JStr t \<and> JSON_parse rt t = Some rules \<and>
           (\<not> truthy rules \<or> \<not> truthy (r ''priority'') \<or>
            (\<exists>p. r ''priority'' = JStr p \<and> \<not> truthy (jsMember rules (toLowerCase p)))))) \<longrightarrow>
         (\<exists>assignment s' r'.
            assignSubmittal rt now submittalId userId role assignedBy s = (Inr assignment, s') \<and>
            submittalAssignments s' = submittalAssignments s @ [assignment] \<and>
            assignment ''role'' = JStr (roleName role) \<and>
            filter (byId submittalId) (submittals s') = [r'] \<and>
            r' ''reviewDeadline'' =
              deadlineAt now (nsub (timeValue due) (timeValue now)) (Finite 50) \<and>
            r' ''qcDeadline'' =
              deadlineAt now (nsub (timeValue due) (timeValue now)) (Finite 75) \<and>
            r' ''internalStatus'' = JStr ''ASSIGNED_FOR_REVIEW'')) \<and>
      (\<not> truthy (r ''accDueDate'') \<longrightarrow>
         (\<exists>assignment s' r'.
            assignSubmittal rt now submittalId userId role assignedBy s = (Inr assignment, s') \<and>
            submittalAssignments s' = submittalAssignments s @ [assignment] \<and>
            assignment ''role'' = JStr (roleName role) \<and>
            filter (byId submittalId) (submittals s') = [r'] \<and>
            r' ''reviewDeadline'' = r ''reviewDeadline'' \<and>
            r' ''qcDeadline'' = r ''qcDeadline''))) \<and>
   (\<bar>now\<bar> \<le> 2 ^ 49 \<and> \<bar>due\<bar> \<le> 2 ^ 49 \<longrightarrow>
      deadlineAt now (nsub (timeValue due) (timeValue now)) (Finite 50) =
        JDate (truncToZero ((of_int now + of_int due) / 2)) \<and>
      deadlineAt now (nsub (timeValue due) (timeValue now)) (Finite 75) =
        JDate (truncToZero ((of_int now + 3 * of_int due) / 4)))"
  (is "(?U \<longrightarrow> ?R) \<and> (?V \<longrightarrow> ?S) \<and> ?A")
proof (intro conjI)
  show "?U \<longrightarrow> ?R"
  proof
    assume "?U"
    then have u: "filter (byId rfiId) (rfis s) = [r]" "find (byId userId) (users s) = Some usr"
      by blast+
    show ?R by (intro conjI) (rule assignRfi_cases [OF u])+
  qed
  show "?V \<longrightarrow> ?S"
  proof
    assume "?V"
    then have u: "filter (byId submittalId) (submittals s) = [r]"
      "find (byId userId) (users s) = Some usr"
      by blast+
    show ?S by (intro conjI) (rule assignSubmittal_cases [OF u])+
  qed
  show ?A using default_deadlines [of now due] by blast
qed

text \<open>
  The arithmetic of the example, operation by operation: 40 / 100 is not a double and is
  rounded, and so is its product with 4000, to 1600.
\<close>

lemma demo_fraction: "ndiv (Finite 40) (Finite 100) = Finite (3602879701896397 / 2 ^ 53)"
  by code_simp

lemma demo_product: "nmul (Finite 4000) (Finite (3602879701896397 / 2 ^ 53)) = Finite 1600"
  by code_simp

lemma demo_deadlines:
  "deadlineAt 1000 (nsub (timeValue 5000) (timeValue 1000)) (Finite 40) = JDate 2600"
  "deadlineAt 1000 (nsub (timeValue 5000) (timeValue 1000)) (Finite 75) = JDate 4000"
proof -
  have t: "timeValue 1000 = Finite 1000" "timeValue 5000 = Finite 5000"
    using timeValue_exact [of 1000] timeValue_exact [of 5000] by simp_all
  have s: "nsub (Finite 5000) (Finite 1000) = Finite 4000"
    using roundDouble_int [of 4000] by (simp add: nsub_def)
  have a: "nadd (Finite 1000) (Finite 1600) = Finite 2600"
    using roundDouble_int [of 2600] by simp
  have "deadlineAt 1000 (nsub (timeValue 5000) (timeValue 1000)) (Finite 40) =
      timeClip (Finite 2600)"
    by (simp only: deadlineAt_def t s demo_fraction demo_product a)
  then show "deadlineAt 1000 (nsub (timeValue 5000) (timeValue 1000)) (Finite 40) = JDate 2600"
    by (simp add: truncToZero_def)
  show "deadlineAt 1000 (nsub (timeValue 5000) (timeValue 1000)) (Finite 75) = JDate 4000"
    using default_deadlines(2) [of 1000 5000] by (simp add: truncToZero_def)
qed

text \<open>
  A product that rounds below an integer: 29 per cent of 100 ms is cut off to 28 ms, as
  28.999999999999996 is in the source language.
\<close>

lemma rounded_deadline: "deadlineAt 0 (Finite 100) (Finite 29) = JDate 28"
proof -
  have "timeValue 0 = Finite 0" by (simp add: timeValue_def roundDouble_def)
  moreover have "ndiv (Finite 29) (Finite 100) = Finite (5224175567749775 / 2 ^ 54)"
    by code_simp
  moreover have "nmul (Finite 100) (Finite (5224175567749775 / 2 ^ 54)) =
      Finite (8162774324609023 / 2 ^ 48)"
    by code_simp
  moreover have "nadd (Finite 0) (Finite (8162774324609023 / 2 ^ 48)) =
      Finite (8162774324609023 / 2 ^ 48)"
    by code_simp
  moreover have "timeClip (Finite (8162774324609023 / 2 ^ 48)) = JDate 28"
    by code_simp
  ultimately show ?thesis by (simp only: deadlineAt_def)
qed

text \<open>
  The RFI of the example is due at 5000 with priority High in a project whose rules give
  "40" for the review of high-priority items: assigned at 1000, it gets the review
  deadline 2600 and the QC deadline 4000. The Submittal of the example, due at 5000 in a
  project without rules, gets 3000 and 4000. The RFI without a due date keeps its empty
  deadlines.
\<close>

theorem assignment_sets_deadlines_witness:
  "\<forall>rt0.
     (let rt = demoRulesRuntime rt0; s = demoRulesWorld rt; r = demoRfi rt demoDue in
      filter (byId ''rfi-1'') (rfis s) = [r] \<and>
      find (byId ''reviewer-1'') (users s) = Some (demoUser ''reviewer-1'' ''Rex'' ''Reviewer'') \<and>
      r ''accDueDate'' = JDate 5000 \<and> r ''priority'' = JStr ''High'' \<and>
      jsMember demoRules (toLowerCase ''High'') = JObj [(''reviewPercent'', JStr ''40'')] \<and>
      toNumber rt (JStr ''40'') = Inr (Finite 40) \<and>
      (\<exists>assignment s' r'.
         assignRfi rt 1000 ''rfi-1'' ''reviewer-1'' REVIEWER ''admin-1'' s = (Inr assignment, s') \<and>
         filter (byId ''rfi-1'') (rfis s') = [r'] \<and>
         r' ''reviewDeadline'' = JDate 2600 \<and>
         r' ''qcDeadline'' = JDate 4000 \<and>
         r' ''internalStatus'' = JStr ''ASSIGNED_FOR_REVIEW'')) \<and>
     (let s = demoWorld rt0 demoDue; r = demoSubmittal rt0 demoDue in
      filter (byId ''sub-1'') (submittals s) = [r] \<and>
      r ''accDueDate'' = JDate 5000 \<and>
      find (byIdValue (r ''projectId'')) (projects s) = Some demoProject \<and>
      \<not> truthy (demoProject ''deadlineRules'') \<and>
      (\<exists>assignment s' r'.
         assignSubmittal rt0 1000 ''sub-1'' ''reviewer-1'' QC_REVIEWER ''admin-1'' s =
           (Inr assignment, s') \<and>
         filter (byId ''sub-1'') (submittals s') = [r'] \<and>
         r' ''reviewDeadline'' = JDate 3000 \<and>
         r' ''qcDeadline'' = JDate 4000 \<and>
         r' ''internalStatus'' = JStr ''ASSIGNED_FOR_REVIEW'')) \<and>
     (let s = demoWorld rt0 []; r = demoRfi rt0 [] in
      filter (byId ''rfi-1'') (rfis s) = [r] \<and> \<not> truthy (r ''accDueDate'') \<and>
      (\<exists>assignment s' r'.
         assignRfi rt0 1000 ''rfi-1'' ''reviewer-1'' REVIEWER ''admin-1'' s = (Inr assignment, s') \<and>
         filter (byId ''rfi-1'') (rfis s') = [r'] \<and>
         r' ''reviewDeadline'' = JNull \<and> r' ''qcDeadline'' = JNull))"
proof
  fix rt0 :: runtime
  define rt where "rt = demoRulesRuntime rt0"
  define r where "r = demoRfi rt demoDue"
  define P where "P = applyData [(''deadlineRules'', JStr ''{\"high\":{\"reviewPercent\":\"40\"}}'')]
      demoProject"
  have usr: "find (byId ''reviewer-1'') (users (demoRulesWorld rt)) =
      Some (demoUser ''reviewer-1'' ''Rex'' ''Reviewer'')"
    by (simp add: demoRulesWorld_def demoWorld_def byId_def demoUser_def applyData_def)
  have usr': "find (byId ''reviewer-1'') (users (demoWorld rt0 e)) =
      Some (demoUser ''reviewer-1'' ''Rex'' ''Reviewer'')" for e
    by (simp add: demoWorld_def byId_def demoUser_def applyData_def)
  have rcols: "r ''id'' = JStr ''rfi-1''" "r ''projectId'' = JStr ''proj-1''"
    "r ''accDueDate'' = JDate 5000" "r ''priority'' = JStr ''High''"
    by (simp_all add: r_def demoRfi_def demoDue_def applyData_def)
  have h1: "filter (byId ''rfi-1'') (rfis (demoRulesWorld rt)) = [r]"
    by (simp add: demoRulesWorld_def demoWorld_def r_def [symmetric] byId_def rcols)
  have proj: "find (byIdValue (r ''projectId'')) (projects (demoRulesWorld rt)) = Some P"
    by (simp add: demoRulesWorld_def byIdValue_def demoProject_def applyData_def rcols P_def)
  have pcol: "P ''deadlineRules'' = JStr ''{\"high\":{\"reviewPercent\":\"40\"}}''"
    by (simp add: P_def applyData_def)
  have tne: "''{\"high\":{\"reviewPercent\":\"40\"}}'' \<noteq> []" and pne: "''High'' \<noteq> []"
    by simp_all
  have parse: "JSON_parse rt ''{\"high\":{\"reviewPercent\":\"40\"}}'' = Some demoRules"
    by (simp add: rt_def demoRulesRuntime_def)
  have lower: "toLowerCase ''High'' = ''high''"
    by code_simp
  have entry: "jsMember demoRules (toLowerCase ''High'') = JObj [(''reviewPercent'', JStr ''40'')]"
    by (simp add: lower demoRules_def)
  have n40: "toNumber rt (JStr ''40'') = Inr (Finite 40)"
    by (simp add: toNumber_def rt_def demoRulesRuntime_def)
  have pcs: "toNumber rt (jsOr (jsGet (jsMember demoRules (toLowerCase ''High'')) ''reviewPercent'')
        (JNum 50)) = Inr (Finite 40)"
    "toNumber rt (jsOr (jsGet (jsMember demoRules (toLowerCase ''High'')) ''qcPercent'')
        (JNum 75)) = Inr (Finite 75)"
    by (simp_all add: entry jsOr_def n40 default_percent_numbers)
  have tr: "truthy demoRules" "truthy (jsMember demoRules (toLowerCase ''High''))"
    by (simp add: demoRules_def) (simp add: entry)
  note e1 = assignment_sets_deadlines [where rfiId = "''rfi-1''" and s = "demoRulesWorld rt"
      and r = r and userId = "''reviewer-1''"
      and usr = "demoUser ''reviewer-1'' ''Rex'' ''Reviewer''"
      and due = 5000 and P = P and t = "''{\"high\":{\"reviewPercent\":\"40\"}}''" and rt = rt
      and rules = demoRules and p = "''High''" and x = "Finite 40" and y = "Finite 75"
      and now = 1000 and role = REVIEWER and assignedBy = "''admin-1''",
      THEN conjunct1, THEN mp, THEN conjunct1, THEN mp, unfolded demo_deadlines]
  from e1 [OF conjI [OF h1 usr]
      conjI [OF rcols(3) conjI [OF proj conjI [OF pcol conjI [OF tne conjI [OF parse conjI [OF tr(1) conjI [OF rcols(4) conjI [OF pne conjI [OF tr(2) conjI [OF pcs(1) pcs(2)]]]]]]]]]]]
  obtain a1 s1 r1 where w1:
    "assignRfi rt 1000 ''rfi-1'' ''reviewer-1'' REVIEWER ''admin-1'' (demoRulesWorld rt) =
       (Inr a1, s1)"
    "filter (byId ''rfi-1'') (rfis s1) = [r1]"
    "r1 ''reviewDeadline'' = JDate 2600" "r1 ''qcDeadline'' = JDate 4000"
    "r1 ''internalStatus'' = JStr ''ASSIGNED_FOR_REVIEW''"
    by blast
  have B1: "(let rt = demoRulesRuntime rt0; s = demoRulesWorld rt; r = demoRfi rt demoDue in
        filter (byId ''rfi-1'') (rfis s) = [r] \<and>
        find (byId ''reviewer-1'') (users s) = Some (demoUser ''reviewer-1'' ''Rex'' ''Reviewer'') \<and>
        r ''accDueDate'' = JDate 5000 \<and> r ''priority'' = JStr ''High'' \<and>
        jsMember demoRules (toLowerCase ''High'') = JObj [(''reviewPercent'', JStr ''40'')] \<and>
        toNumber rt (JStr ''40'') = Inr (Finite 40) \<and>
        (\<exists>assignment s' r'.
           assignRfi rt 1000 ''rfi-1'' ''reviewer-1'' REVIEWER ''admin-1'' s = (Inr assignment, s') \<and>
           filter (byId ''rfi-1'') (rfis s') = [r'] \<and>
           r' ''reviewDeadline'' = JDate 2600 \<and>
           r' ''qcDeadline'' = JDate 4000 \<and>
           r' ''internalStatus'' = JStr ''ASSIGNED_FOR_REVIEW''))"
    unfolding Let_def rt_def [symmetric] r_def [symmetric]
    using h1 usr rcols(3,4) entry n40 w1 by blast
  define q where "q = demoSubmittal rt0 demoDue"
  have qcols: "q ''id'' = JStr ''sub-1''" "q ''projectId'' = JStr ''proj-1''"
    "q ''accDueDate'' = JDate 5000"
    by (simp_all add: q_def demoSubmittal_def demoDue_def applyData_def)
  have h2: "filter (byId ''sub-1'') (submittals (demoWorld rt0 demoDue)) = [q]"
    by (simp add: demoWorld_def q_def [symmetric] byId_def qcols)
  have proj2: "find (byIdValue (q ''projectId'')) (projects (demoWorld rt0 demoDue)) =
      Some demoProject"
    by (simp add: demoWorld_def byIdValue_def demoProject_def applyData_def qcols)
  have norules: "\<not> truthy (demoProject ''deadlineRules'')"
    by (simp add: demoProject_def applyData_def emptyRow_def)
  have ar: "deadlineAt 1000 (nsub (timeValue 5000) (timeValue 1000)) (Finite 50) = JDate 3000"
    using assignment_sets_deadlines [where due = 5000 and now = 1000,
        THEN conjunct2, THEN conjunct2]
    by (simp add: truncToZero_def)
  note e2 = assignment_sets_deadlines [where submittalId = "''sub-1''"
      and s = "demoWorld rt0 demoDue" and r = q and userId = "''reviewer-1''"
      and usr = "demoUser ''reviewer-1'' ''Rex'' ''Reviewer''" and due = 5000
      and P = demoProject and rt = rt0 and now = 1000 and role = QC_REVIEWER
      and assignedBy = "''admin-1''",
      THEN conjunct2, THEN conjunct1, THEN mp, THEN conjunct2, THEN conjunct1, THEN mp,
      unfolded demo_deadlines ar]
  from e2 [OF conjI [OF h2 usr'] conjI [OF qcols(3) conjI [OF proj2 disjI1 [OF norules]]]]
  obtain a2 s2 r2 where w2:
    "assignSubmittal rt0 1000 ''sub-1'' ''reviewer-1'' QC_REVIEWER ''admin-1''
       (demoWorld rt0 demoDue) = (Inr a2, s2)"
    "filter (byId ''sub-1'') (submittals s2) = [r2]"
    "r2 ''reviewDeadline'' = JDate 3000" "r2 ''qcDeadline'' = JDate 4000"
    "r2 ''internalStatus'' = JStr ''ASSIGNED_FOR_REVIEW''"
    by blast
  have B2: "(let s = demoWorld rt0 demoDue; r = demoSubmittal rt0 demoDue in
        filter (byId ''sub-1'') (submittals s) = [r] \<and>
        r ''accDueDate'' = JDate 5000 \<and>
        find (byIdValue (r ''projectId'')) (projects s) = Some demoProject \<and>
        \<not> truthy (demoProject ''deadlineRules'') \<and>
        (\<exists>assignment s' r'.
           assignSubmittal rt0 1000 ''sub-1'' ''reviewer-1'' QC_REVIEWER ''admin-1'' s =
             (Inr assignment, s') \<and>
           filter (byId ''sub-1'') (submittals s') = [r'] \<and>
           r' ''reviewDeadline'' = JDate 3000 \<and>
           r' ''qcDeadline'' = JDate 4000 \<and>
           r' ''internalStatus'' = JStr ''ASSIGNED_FOR_REVIEW''))"
    unfolding Let_def q_def [symmetric]
    using h2 qcols(3) proj2 norules w2 by blast
  define z where "z = demoRfi rt0 []"
  have zcols: "z ''id'' = JStr ''rfi-1''" "z ''accDueDate'' = JNull"
    "z ''reviewDeadline'' = JNull" "z ''qcDeadline'' = JNull"
    by (simp_all add: z_def demoRfi_def applyData_def emptyRow_def)
  have h3: "filter (byId ''rfi-1'') (rfis (demoWorld rt0 [])) = [z]"
    by (simp add: demoWorld_def z_def [symmetric] byId_def zcols)
  have nodue: "\<not> truthy (z ''accDueDate'')" by (simp add: zcols)
  note e3 = assignment_sets_deadlines [where rfiId = "''rfi-1''" and s = "demoWorld rt0 []"
      and r = z and userId = "''reviewer-1''"
      and usr = "demoUser ''reviewer-1'' ''Rex'' ''Reviewer''"
      and rt = rt0 and now = 1000 and role = REVIEWER and assignedBy = "''admin-1''",
      THEN conjunct1, THEN mp, THEN conjunct2, THEN conjunct2, THEN mp, unfolded zcols]
  have nodue': "\<not> truthy JNull" by simp
  from e3 [OF conjI [OF h3 usr'] nodue']
  obtain a3 s3 r3 where w3:
    "assignRfi rt0 1000 ''rfi-1'' ''reviewer-1'' REVIEWER ''admin-1'' (demoWorld rt0 []) =
       (Inr a3, s3)"
    "filter (byId ''rfi-1'') (rfis s3) = [r3]"
    "r3 ''reviewDeadline'' = JNull" "r3 ''qcDeadline'' = JNull"
    by blast
  have B3: "(let s = demoWorld rt0 []; r = demoRfi rt0 [] in
        filter (byId ''rfi-1'') (rfis s) = [r] \<and> \<not> truthy (r ''accDueDate'') \<and>
        (\<exists>assignment s' r'.
           assignRfi rt0 1000 ''rfi-1'' ''reviewer-1'' REVIEWER ''admin-1'' s = (Inr assignment, s') \<and>
           filter (byId ''rfi-1'') (rfis s') = [r'] \<and>
           r' ''reviewDeadline'' = JNull \<and> r' ''qcDeadline'' = JNull))"
    unfolding Let_def z_def [symmetric]
    using h3 nodue w3 by blast
  show "(let rt = demoRulesRuntime rt0; s = demoRulesWorld rt; r = demoRfi rt demoDue in
        filter (byId ''rfi-1'') (rfis s) = [r] \<and>
        find (byId ''reviewer-1'') (users s) = Some (demoUser ''reviewer-1'' ''Rex'' ''Reviewer'') \<and>
        r ''accDueDate'' = JDate 5000 \<and> r ''priority'' = JStr ''High'' \<and>
        jsMember demoRules (toLowerCase ''High'') = JObj [(''reviewPercent'', JStr ''40'')] \<and>
        toNumber rt (JStr ''40'') = Inr (Finite 40) \<and>
        (\<exists>assignment s' r'.
           assignRfi rt 1000 ''rfi-1'' ''reviewer-1'' REVIEWER ''admin-1'' s = (Inr assignment, s') \<and>
           filter (byId ''rfi-1'') (rfis s') = [r'] \<and>
           r' ''reviewDeadline'' = JDate 2600 \<and>
           r' ''qcDeadline'' = JDate 4000 \<and>
           r' ''internalStatus'' = JStr ''ASSIGNED_FOR_REVIEW'')) \<and>
       (let s = demoWorld rt0 demoDue; r = demoSubmittal rt0 demoDue in
        filter (byId ''sub-1'') (submittals s) = [r] \<and>
        r ''accDueDate'' = JDate 5000 \<and>
        find (byIdValue (r ''projectId'')) (projects s) = Some demoProject \<and>
        \<not> truthy (demoProject ''deadlineRules'') \<and>
        (\<exists>assignment s' r'.
           assignSubmittal rt0 1000 ''sub-1'' ''reviewer-1'' QC_REVIEWER ''admin-1'' s =
             (Inr assignment, s') \<and>
           filter (byId ''sub-1'') (submittals s') = [r'] \<and>
           r' ''reviewDeadline'' = JDate 3000 \<and>
           r' ''qcDeadline'' = JDate 4000 \<and>
           r' ''internalStatus'' = JStr ''ASSIGNED_FOR_REVIEW'')) \<and>
       (let s = demoWorld rt0 []; r = demoRfi rt0 [] in
        filter (byId ''rfi-1'') (rfis s) = [r] \<and> \<not> truthy (r ''accDueDate'') \<and>
        (\<exists>assignment s' r'.
           assignRfi rt0 1000 ''rfi-1'' ''reviewer-1'' REVIEWER ''admin-1'' s = (Inr assignment, s') \<and>
           filter (byId ''rfi-1'') (rfis s') = [r'] \<and>
           r' ''reviewDeadline'' = JNull \<and> r' ''qcDeadline'' = JNull))"
    by (intro conjI B1 B2 B3)
qed

text \<open>
  C9, where the claim fails: the RFI of the example has no external due date and the
  status UNASSIGNED; the assignment is recorded, no deadline is stored and the status is
  not changed.
\<close>

theorem assignment_without_due_date:
  "\<forall>rt. \<not> isl (fst (assignRfi rt 1000 ''rfi-1'' ''reviewer-1'' REVIEWER ''admin-1''
                      (demoWorld rt [(''internalStatus'', JStr ''UNASSIGNED'')]))) \<and>
        map (\<lambda>r. (r ''accDueDate'', r ''internalStatus'', r ''reviewDeadline'', r ''qcDeadline''))
          (rfis (snd (assignRfi rt 1000 ''rfi-1'' ''reviewer-1'' REVIEWER ''admin-1''
                      (demoWorld rt [(''internalStatus'', JStr ''UNASSIGNED'')])))) =
          [(JNull, JStr ''UNASSIGNED'', JNull, JNull)] \<and>
        map (\<lambda>r. r ''role'')
          (rfiAssignments (snd (assignRfi rt 1000 ''rfi-1'' ''reviewer-1'' REVIEWER ''admin-1''
                      (demoWorld rt [(''internalStatus'', JStr ''UNASSIGNED'')])))) =
          [JStr ''REVIEWER'']"
proof
  fix rt
  let ?r = "demoRfi rt [(''internalStatus'', JStr ''UNASSIGNED'')]"
  let ?s = "demoWorld rt [(''internalStatus'', JStr ''UNASSIGNED'')]"
  have rcols: "?r ''id'' = JStr ''rfi-1''" "?r ''accDueDate'' = JNull"
    "?r ''internalStatus'' = JStr ''UNASSIGNED''" "?r ''reviewDeadline'' = JNull"
    "?r ''qcDeadline'' = JNull"
    by (simp_all add: demoRfi_def applyData_def emptyRow_def)
  have f: "find (byId ''rfi-1'') (rfis ?s) = Some ?r"
    by (simp add: demoWorld_def byId_def rcols)
  have u: "find (byId ''reviewer-1'') (users ?s) = Some (demoUser ''reviewer-1'' ''Rex'' ''Reviewer'')"
    by (simp add: demoWorld_def byId_def demoUser_def applyData_def)
  have rows: "rfis ?s = [?r]" "rfiAssignments ?s = []"
    by (simp_all add: demoWorld_def emptyWorld_def)
  have b: "byId ''rfi-1'' ?r" by (simp add: byId_def rcols)
  show "\<not> isl (fst (assignRfi rt 1000 ''rfi-1'' ''reviewer-1'' REVIEWER ''admin-1'' ?s)) \<and>
        map (\<lambda>r. (r ''accDueDate'', r ''internalStatus'', r ''reviewDeadline'', r ''qcDeadline''))
          (rfis (snd (assignRfi rt 1000 ''rfi-1'' ''reviewer-1'' REVIEWER ''admin-1'' ?s))) =
          [(JNull, JStr ''UNASSIGNED'', JNull, JNull)] \<and>
        map (\<lambda>r. r ''role'')
          (rfiAssignments (snd (assignRfi rt 1000 ''rfi-1'' ''reviewer-1'' REVIEWER ''admin-1'' ?s))) =
          [JStr ''REVIEWER'']"
    by (simp add: assignRfi_def Let_def logged_def b u rcols createNotification_def rows
        createRow_def applyData_def)
qed

section \<open>Properties of the response dispatch and the confirmation\<close>

lemma uploadRfiFiles_tables:
  "uploadRfiFiles ext rt rfiId pid aid tok paths s = (res, s') \<Longrightarrow>
   rfis s' = rfis s \<and> auditLog s' = auditLog s \<and> statusHistory s' = statusHistory s"
  by (induction paths arbitrary: s)
     (auto simp: Let_def logged_def called_def split: sum.splits)

lemma uploadRfiFiles_error:
  "uploadRfiFiles ext rt rfiId pid aid tok paths s = (Inl e, s') \<Longrightarrow>
   \<exists>p \<in> set paths. e = Error (''Failed to upload file: '' @ basename rt p)"
  by (induction paths arbitrary: s)
     (auto simp: Let_def split: sum.splits)

lemma sendRfiEffects_tables:
  "sendRfiEffects ext rt rfiId rfi link dto s = (res, s') \<Longrightarrow>
   rfis s' = rfis s \<and> auditLog s' = auditLog s \<and> statusHistory s' = statusHistory s"
  by (auto simp: sendRfiEffects_def Let_def called_def split: sum.splits
      dest!: uploadRfiFiles_tables)

lemma sendRfi_denied:
  assumes "find (byId rfiId) (rfis s) = Some rfi"
    and "linkOf (rfi ''projectId'') s = Some link"
  shows "(membershipsOf (rfi ''projectId'') userId s = m # ms \<and> \<not> isAdmin m \<longrightarrow>
          sendRfiResponseToAcc ext rt now rfiId userId dto s =
            (Inl (Error ''Only project admins are authorized to send responses to ACC''),
             s\<lparr>logs := logs s @
                [(''info'', [(''rfiId'', JStr rfiId), (''userId'', JStr userId)],
                  ''Sending RFI response to ACC''),
                 (''warn'', [(''rfiId'', JStr rfiId), (''userId'', JStr userId),
                             (''role'', m ''role'')],
                  ''Non-admin attempted to send response to ACC'')]\<rparr>)) \<and>
         (membershipsOf (rfi ''projectId'') userId s = [] \<longrightarrow>
          sendRfiResponseToAcc ext rt now rfiId userId dto s =
            (Inl (Error ''User is not a member of this project''),
             s\<lparr>logs := logs s @
                [(''info'', [(''rfiId'', JStr rfiId), (''userId'', JStr userId)],
                  ''Sending RFI response to ACC'')]\<rparr>))"
  using assms
  by (simp add: sendRfiResponseToAcc_def Let_def logged_def linkOf_def membershipsOf_def)

lemma confirmManualRfiResponse_denied:
  assumes "find (byId rfiId) (rfis s) = Some rfi"
  shows "(membershipsOf (rfi ''projectId'') userId s = m # ms \<and> \<not> isAdmin m \<longrightarrow>
          confirmManualRfiResponse rt now rfiId userId s =
            (Inl (Error ''Only project admins can confirm manual responses''),
             s\<lparr>logs := logs s @
                [(''info'', [(''rfiId'', JStr rfiId), (''userId'', JStr userId)],
                  ''Admin confirming manual RFI response''),
                 (''warn'', [(''rfiId'', JStr rfiId), (''userId'', JStr userId),
                             (''role'', m ''role'')],
                  ''Non-admin attempted to confirm manual response'')]\<rparr>)) \<and>
         (membershipsOf (rfi ''projectId'') userId s = [] \<longrightarrow>
          confirmManualRfiResponse rt now rfiId userId s =
            (Inl (Error ''User is not a member of this project''),
             s\<lparr>logs := logs s @
                [(''info'', [(''rfiId'', JStr rfiId), (''userId'', JStr userId)],
                  ''Admin confirming manual RFI response'')]\<rparr>))"
  using assms
  by (simp add: confirmManualRfiResponse_def Let_def logged_def membershipsOf_def)

lemma sendRfi_aborts:
  assumes "find (byId rfiId) (rfis s) = Some rfi"
    and "linkOf (rfi ''projectId'') s = Some link"
    and "membershipsOf (rfi ''projectId'') userId s = m # ms" and "isAdmin m"
    and "responseStatus dto \<noteq> []" and "trim (responseText dto) \<noteq> []"
    and "selectedFilePaths dto \<noteq> []"
    and eff: "sendRfiEffects ext rt rfiId rfi link dto
           (logged ''info'' [(''rfiId'', JStr rfiId), (''userId'', JStr userId)]
              ''Sending RFI response to ACC'' s) = (Inl e, s1)"
  shows "\<exists>s'. sendRfiResponseToAcc ext rt now rfiId userId dto s = (Inl e, s') \<and>
           rfis s' = rfis s \<and> statusHistory s' = statusHistory s \<and>
           auditLog s' = auditLog s @
             [createRow
                [(''userId'', JStr userId),
                 (''action'', JStr ''SEND_TO_ACC_FAILED''),
                 (''entityType'', JStr ''RFI''),
                 (''entityId'', JStr rfiId),
                 (''rfiId'', JStr rfiId),
                 (''details'', JStr (stringify rt (JObj [(''error'', JStr (errorMessage e))])))]
                emptyRow]"
proof -
  from sendRfiEffects_tables [OF eff]
  have t: "rfis s1 = rfis s" "auditLog s1 = auditLog s" "statusHistory s1 = statusHistory s"
    by (simp_all add: logged_def)
  have "sendRfiResponseToAcc ext rt now rfiId userId dto s =
      (Inl e, sendRfiFailed rt rfiId userId e s1)"
    using assms
    by (simp add: sendRfiResponseToAcc_def Let_def logged_def linkOf_def membershipsOf_def)
  then show ?thesis
    by (simp add: sendRfiFailed_def Let_def logged_def t)
qed

lemma sendRfi_step_failures:
  "(getValidToken ext (accCalls s) (link ''oauthToken'') = Inl e \<longrightarrow>
      fst (sendRfiEffects ext rt rfiId rfi link dto s) = Inl e) \<and>
   (getValidToken ext (accCalls s) (link ''oauthToken'') = Inr tok \<and>
    updateRFIStatus ext (accCalls (called ''getValidToken'' [link ''oauthToken''] s))
      (link ''accProjectId'') (rfi ''accRfiId'') (JStr (responseStatus dto)) tok = Inl e \<longrightarrow>
      fst (sendRfiEffects ext rt rfiId rfi link dto s) = Inl e) \<and>
   (getValidToken ext (accCalls s) (link ''oauthToken'') = Inr tok \<and>
    updateRFIStatus ext (accCalls (called ''getValidToken'' [link ''oauthToken''] s))
      (link ''accProjectId'') (rfi ''accRfiId'') (JStr (responseStatus dto)) tok = Inr u \<and>
    postRFIResponse ext
      (accCalls (called ''updateRFIStatus''
         [link ''accProjectId'', rfi ''accRfiId'', JStr (responseStatus dto), tok]
         (called ''getValidToken'' [link ''oauthToken''] s)))
      (link ''accProjectId'') (rfi ''accRfiId'') (JStr (responseText dto)) tok = Inl e \<longrightarrow>
      fst (sendRfiEffects ext rt rfiId rfi link dto s) = Inl e)"
  by (simp add: sendRfiEffects_def Let_def)

lemma sendRfi_file_failure:
  "readFile ext (accCalls s) (JStr p) = Inl x \<or>
   (\<exists>buffer. readFile ext (accCalls s) (JStr p) = Inr buffer \<and>
      uploadRFIAttachment ext (accCalls (called ''readFile'' [JStr p] s)) pid aid buffer
        (JStr (basename rt p)) tok = Inl x) \<Longrightarrow>
   fst (uploadRfiFiles ext rt rfiId pid aid tok (p # rest) s) =
     Inl (Error (''Failed to upload file: '' @ basename rt p))"
  by (auto simp: Let_def)

lemma uploadRfiFiles_append:
  "uploadRfiFiles ext rt rfiId pid aid tok pre s = (Inr u, s') \<Longrightarrow>
   uploadRfiFiles ext rt rfiId pid aid tok (pre @ rest) s =
     uploadRfiFiles ext rt rfiId pid aid tok rest s'"
  by (induction pre arbitrary: s) (auto simp: Let_def split: sum.splits)

lemma sendRfi_later_file_failure:
  assumes "uploadRfiFiles ext rt rfiId pid aid tok pre s = (Inr u, s')"
    and "readFile ext (accCalls s') (JStr p) = Inl x \<or>
         (\<exists>buffer. readFile ext (accCalls s') (JStr p) = Inr buffer \<and>
            uploadRFIAttachment ext (accCalls (called ''readFile'' [JStr p] s')) pid aid buffer
              (JStr (basename rt p)) tok = Inl x)"
  shows "fst (uploadRfiFiles ext rt rfiId pid aid tok (pre @ p # rest) s) =
     Inl (Error (''Failed to upload file: '' @ basename rt p))"
  using uploadRfiFiles_append [OF assms(1), of "p # rest"] sendRfi_file_failure [OF assms(2)]
  by simp

lemma rfiFilesAccepted_run:
  "rfiFilesAccepted ext rt pid aid tok pre (accCalls s) = Some tr \<Longrightarrow>
   \<exists>s'. uploadRfiFiles ext rt rfiId pid aid tok pre s = (Inr (), s') \<and> accCalls s' = tr"
  by (induction pre arbitrary: s)
     (auto simp: Let_def called_def logged_def split: sum.splits)

text \<open>
  A failure of the token request, of the status push, of the response post or of the read
  or upload of one file, the earlier calls having returned, is the result of the external
  steps. The hypothesis speaks of the collaborators' answers only.
\<close>

lemma sendRfiEffects_failure:
  assumes T: "accCalls s = T"
    and F: "(getValidToken ext (T) (link ''oauthToken'') = Inl e \<or>
          getValidToken ext (T) (link ''oauthToken'') = Inr tok \<and>
          (updateRFIStatus ext (T @ [(''getValidToken'', [link ''oauthToken''])])
             (link ''accProjectId'') (rfi ''accRfiId'') (JStr (responseStatus dto)) tok = Inl e \<or>
           updateRFIStatus ext (T @ [(''getValidToken'', [link ''oauthToken''])])
             (link ''accProjectId'') (rfi ''accRfiId'') (JStr (responseStatus dto)) tok = Inr () \<and>
           (postRFIResponse ext
              (T @
                [(''getValidToken'', [link ''oauthToken'']),
                 (''updateRFIStatus'',
                 [link ''accProjectId'', rfi ''accRfiId'', JStr (responseStatus dto), tok])])
              (link ''accProjectId'') (rfi ''accRfiId'') (JStr (responseText dto)) tok = Inl e \<or>
            postRFIResponse ext
              (T @
                [(''getValidToken'', [link ''oauthToken'']),
                 (''updateRFIStatus'',
                 [link ''accProjectId'', rfi ''accRfiId'', JStr (responseStatus dto), tok])])
              (link ''accProjectId'') (rfi ''accRfiId'') (JStr (responseText dto)) tok = Inr () \<and>
            selectedFilePaths dto = pre @ p # rest \<and>
            rfiFilesAccepted ext rt (link ''accProjectId'') (rfi ''accRfiId'') tok pre
              (T @
                [(''getValidToken'', [link ''oauthToken'']),
                 (''updateRFIStatus'',
                 [link ''accProjectId'', rfi ''accRfiId'', JStr (responseStatus dto), tok]),
                 (''postRFIResponse'',
                 [link ''accProjectId'', rfi ''accRfiId'', JStr (responseText dto), tok])]) = Some tr \<and>
            (readFile ext tr (JStr p) = Inl x \<or>
             readFile ext tr (JStr p) = Inr buffer \<and>
             uploadRFIAttachment ext (tr @ [(''readFile'', [JStr p])]) (link ''accProjectId'')
               (rfi ''accRfiId'') buffer (JStr (basename rt p)) tok = Inl x) \<and>
            e = Error (''Failed to upload file: '' @ basename rt p))))"
  shows "\<exists>s1. sendRfiEffects ext rt rfiId rfi link dto s = (Inl e, s1)"
proof -
  let ?s1 = "called ''getValidToken'' [link ''oauthToken''] s"
  let ?s2 = "called ''updateRFIStatus''
      [link ''accProjectId'', rfi ''accRfiId'', JStr (responseStatus dto), tok] ?s1"
  let ?s3 = "called ''postRFIResponse''
      [link ''accProjectId'', rfi ''accRfiId'', JStr (responseText dto), tok] ?s2"
  have c1: "accCalls ?s1 = T @ [(''getValidToken'', [link ''oauthToken''])]"
    and c2: "accCalls ?s2 = T @
       [(''getValidToken'', [link ''oauthToken'']),
        (''updateRFIStatus'',
         [link ''accProjectId'', rfi ''accRfiId'', JStr (responseStatus dto), tok])]"
    and c3: "accCalls ?s3 = T @
       [(''getValidToken'', [link ''oauthToken'']),
        (''updateRFIStatus'',
         [link ''accProjectId'', rfi ''accRfiId'', JStr (responseStatus dto), tok]),
        (''postRFIResponse'',
         [link ''accProjectId'', rfi ''accRfiId'', JStr (responseText dto), tok])]"
    by (simp_all add: called_def T)
  consider
      (token) "getValidToken ext (accCalls s) (link ''oauthToken'') = Inl e"
    | (status) "getValidToken ext (accCalls s) (link ''oauthToken'') = Inr tok"
        "updateRFIStatus ext (accCalls ?s1) (link ''accProjectId'') (rfi ''accRfiId'')
           (JStr (responseStatus dto)) tok = Inl e"
    | (post) "getValidToken ext (accCalls s) (link ''oauthToken'') = Inr tok"
        "updateRFIStatus ext (accCalls ?s1) (link ''accProjectId'') (rfi ''accRfiId'')
           (JStr (responseStatus dto)) tok = Inr ()"
        "postRFIResponse ext (accCalls ?s2) (link ''accProjectId'') (rfi ''accRfiId'')
           (JStr (responseText dto)) tok = Inl e"
    | (upload) "getValidToken ext (accCalls s) (link ''oauthToken'') = Inr tok"
        "updateRFIStatus ext (accCalls ?s1) (link ''accProjectId'') (rfi ''accRfiId'')
           (JStr (responseStatus dto)) tok = Inr ()"
        "postRFIResponse ext (accCalls ?s2) (link ''accProjectId'') (rfi ''accRfiId'')
           (JStr (responseText dto)) tok = Inr ()"
        "selectedFilePaths dto = pre @ p # rest"
        "rfiFilesAccepted ext rt (link ''accProjectId'') (rfi ''accRfiId'') tok pre
           (accCalls ?s3) = Some tr"
        "readFile ext tr (JStr p) = Inl x \<or>
         readFile ext tr (JStr p) = Inr buffer \<and>
         uploadRFIAttachment ext (tr @ [(''readFile'', [JStr p])]) (link ''accProjectId'')
           (rfi ''accRfiId'') buffer (JStr (basename rt p)) tok = Inl x"
        "e = Error (''Failed to upload file: '' @ basename rt p)"
    using F unfolding c1 c2 c3 T by blast
  then show ?thesis
  proof cases
    case token
    then show ?thesis by (simp add: sendRfiEffects_def)
  next
    case status
    then show ?thesis by (simp add: sendRfiEffects_def Let_def)
  next
    case post
    then show ?thesis by (simp add: sendRfiEffects_def Let_def)
  next
    case upload
    have eff: "sendRfiEffects ext rt rfiId rfi link dto s =
        uploadRfiFiles ext rt rfiId (link ''accProjectId'') (rfi ''accRfiId'') tok
          (pre @ p # rest) ?s3"
      using upload(1-4) by (simp add: sendRfiEffects_def Let_def)
    obtain s' where run: "uploadRfiFiles ext rt rfiId (link ''accProjectId'') (rfi ''accRfiId'')
          tok pre ?s3 = (Inr (), s')" and tr: "accCalls s' = tr"
      using rfiFilesAccepted_run [OF upload(5)] by blast
    have "readFile ext (accCalls s') (JStr p) = Inl x \<or>
         (\<exists>buffer. readFile ext (accCalls s') (JStr p) = Inr buffer \<and>
            uploadRFIAttachment ext (accCalls (called ''readFile'' [JStr p] s'))
              (link ''accProjectId'') (rfi ''accRfiId'') buffer (JStr (basename rt p)) tok = Inl x)"
      using upload(6) by (auto simp: tr called_def)
    then have "fst (uploadRfiFiles ext rt rfiId (link ''accProjectId'') (rfi ''accRfiId'') tok
          (pre @ p # rest) ?s3) = Inl e"
      using sendRfi_later_file_failure [OF run] upload(7) by simp
    then show ?thesis by (simp only: eff) (metis prod.collapse)
  qed
qed

text \<open>The same for the whole call, after authorisation and validation.\<close>

lemma sendRfi_external_failure:
  assumes "find (byId rfiId) (rfis s) = Some rfi"
    and "linkOf (rfi ''projectId'') s = Some link"
    and "membershipsOf (rfi ''projectId'') userId s = m # ms" and "isAdmin m"
    and "responseStatus dto \<noteq> []" and "trim (responseText dto) \<noteq> []"
    and "selectedFilePaths dto \<noteq> []"
    and F: "(getValidToken ext (accCalls s) (link ''oauthToken'') = Inl e \<or>
          getValidToken ext (accCalls s) (link ''oauthToken'') = Inr tok \<and>
          (updateRFIStatus ext (accCalls s @ [(''getValidToken'', [link ''oauthToken''])])
             (link ''accProjectId'') (rfi ''accRfiId'') (JStr (responseStatus dto)) tok = Inl e \<or>
           updateRFIStatus ext (accCalls s @ [(''getValidToken'', [link ''oauthToken''])])
             (link ''accProjectId'') (rfi ''accRfiId'') (JStr (responseStatus dto)) tok = Inr () \<and>
           (postRFIResponse ext
              (accCalls s @
                [(''getValidToken'', [link ''oauthToken'']),
                 (''updateRFIStatus'',
                 [link ''accProjectId'', rfi ''accRfiId'', JStr (responseStatus dto), tok])])
              (link ''accProjectId'') (rfi ''accRfiId'') (JStr (responseText dto)) tok = Inl e \<or>
            postRFIResponse ext
              (accCalls s @
                [(''getValidToken'', [link ''oauthToken'']),
                 (''updateRFIStatus'',
                 [link ''accProjectId'', rfi ''accRfiId'', JStr (responseStatus dto), tok])])
              (link ''accProjectId'') (rfi ''accRfiId'') (JStr (responseText dto)) tok = Inr () \<and>
            selectedFilePaths dto = pre @ p # rest \<and>
            rfiFilesAccepted ext rt (link ''accProjectId'') (rfi ''accRfiId'') tok pre
              (accCalls s @
                [(''getValidToken'', [link ''oauthToken'']),
                 (''updateRFIStatus'',
                 [link ''accProjectId'', rfi ''accRfiId'', JStr (responseStatus dto), tok]),
                 (''postRFIResponse'',
                 [link ''accProjectId'', rfi ''accRfiId'', JStr (responseText dto), tok])]) = Some tr \<and>
            (readFile ext tr (JStr p) = Inl x \<or>
             readFile ext tr (JStr p) = Inr buffer \<and>
             uploadRFIAttachment ext (tr @ [(''readFile'', [JStr p])]) (link ''accProjectId'')
               (rfi ''accRfiId'') buffer (JStr (basename rt p)) tok = Inl x) \<and>
            e = Error (''Failed to upload file: '' @ basename rt p))))"
  shows "\<exists>s'. sendRfiResponseToAcc ext rt now rfiId userId dto s = (Inl e, s') \<and>
           rfis s' = rfis s \<and> statusHistory s' = statusHistory s \<and>
           auditLog s' = auditLog s @
             [createRow
                [(''userId'', JStr userId),
                 (''action'', JStr ''SEND_TO_ACC_FAILED''),
                 (''entityType'', JStr ''RFI''),
                 (''entityId'', JStr rfiId),
                 (''rfiId'', JStr rfiId),
                 (''details'', JStr (stringify rt (JObj [(''error'', JStr (errorMessage e))])))]
                emptyRow]"
proof -
  have acc: "accCalls (logged ''info'' [(''rfiId'', JStr rfiId), (''userId'', JStr userId)]
      ''Sending RFI response to ACC'' s) = accCalls s"
    by (simp add: logged_def)
  have "\<exists>s1. sendRfiEffects ext rt rfiId rfi link dto
      (logged ''info'' [(''rfiId'', JStr rfiId), (''userId'', JStr userId)]
         ''Sending RFI response to ACC'' s) = (Inl e, s1)"
    by (rule sendRfiEffects_failure [where T = "accCalls s" and ext = ext and rt = rt
          and rfi = rfi and link = link and dto = dto and e = e and tok = tok and pre = pre
          and p = p and rest = rest and tr = tr and x = x and buffer = buffer, OF acc F])
  then obtain s1 where "sendRfiEffects ext rt rfiId rfi link dto
      (logged ''info'' [(''rfiId'', JStr rfiId), (''userId'', JStr userId)]
         ''Sending RFI response to ACC'' s) = (Inl e, s1)"
    by blast
  then show ?thesis using assms(1-7) by (rule sendRfi_aborts [rotated 7])
qed

lemma uploadSubmittalFiles_tables:
  "uploadSubmittalFiles ext rt submittalId pid aid tok paths s = (res, s') \<Longrightarrow>
   submittals s' = submittals s \<and> auditLog s' = auditLog s \<and> statusHistory s' = statusHistory s"
  by (induction paths arbitrary: s)
     (auto simp: Let_def logged_def called_def split: sum.splits)

lemma uploadSubmittalFiles_error:
  "uploadSubmittalFiles ext rt submittalId pid aid tok paths s = (Inl e, s') \<Longrightarrow>
   \<exists>p \<in> set paths. e = Error (''Failed to upload file: '' @ basename rt p)"
  by (induction paths arbitrary: s)
     (auto simp: Let_def split: sum.splits)

lemma sendSubmittalEffects_tables:
  "sendSubmittalEffects ext rt submittalId submittal link dto s = (res, s') \<Longrightarrow>
   submittals s' = submittals s \<and> auditLog s' = auditLog s \<and> statusHistory s' = statusHistory s"
  by (auto simp: sendSubmittalEffects_def Let_def called_def split: sum.splits
      dest!: uploadSubmittalFiles_tables)

lemma sendSubmittal_denied:
  assumes "find (byId submittalId) (submittals s) = Some submittal"
    and "linkOf (submittal ''projectId'') s = Some link"
  shows "(membershipsOf (submittal ''projectId'') userId s = m # ms \<and> \<not> isAdmin m \<longrightarrow>
          sendSubmittalResponseToAcc ext rt now submittalId userId dto s =
            (Inl (Error ''Only project admins are authorized to send responses to ACC''),
             s\<lparr>logs := logs s @
                [(''info'', [(''submittalId'', JStr submittalId), (''userId'', JStr userId)],
                  ''Sending Submittal response to ACC''),
                 (''warn'', [(''submittalId'', JStr submittalId), (''userId'', JStr userId),
                             (''role'', m ''role'')],
                  ''Non-admin attempted to send response to ACC'')]\<rparr>)) \<and>
         (membershipsOf (submittal ''projectId'') userId s = [] \<longrightarrow>
          sendSubmittalResponseToAcc ext rt now submittalId userId dto s =
            (Inl (Error ''User is not a member of this project''),
             s\<lparr>logs := logs s @
                [(''info'', [(''submittalId'', JStr submittalId), (''userId'', JStr userId)],
                  ''Sending Submittal response to ACC'')]\<rparr>))"
  using assms
  by (simp add: sendSubmittalResponseToAcc_def Let_def logged_def linkOf_def membershipsOf_def)

lemma confirmManualSubmittalResponse_denied:
  assumes "find (byId submittalId) (submittals s) = Some submittal"
  shows "(membershipsOf (submittal ''projectId'') userId s = m # ms \<and> \<not> isAdmin m \<longrightarrow>
          confirmManualSubmittalResponse rt now submittalId userId s =
            (Inl (Error ''Only project admins can confirm manual responses''),
             s\<lparr>logs := logs s @
                [(''info'', [(''submittalId'', JStr submittalId), (''userId'', JStr userId)],
                  ''Admin confirming manual Submittal response''),
                 (''warn'', [(''submittalId'', JStr submittalId), (''userId'', JStr userId),
                             (''role'', m ''role'')],
                  ''Non-admin attempted to confirm manual response'')]\<rparr>)) \<and>
         (membershipsOf (submittal ''projectId'') userId s = [] \<longrightarrow>
          confirmManualSubmittalResponse rt now submittalId userId s =
            (Inl (Error ''User is not a member of this project''),
             s\<lparr>logs := logs s @
                [(''info'', [(''submittalId'', JStr submittalId), (''userId'', JStr userId)],
                  ''Admin confirming manual Submittal response'')]\<rparr>))"
  using assms
  by (simp add: confirmManualSubmittalResponse_def Let_def logged_def membershipsOf_def)

lemma sendSubmittal_aborts:
  assumes "find (byId submittalId) (submittals s) = Some submittal"
    and "linkOf (submittal ''projectId'') s = Some link"
    and "membershipsOf (submittal ''projectId'') userId s = m # ms" and "isAdmin m"
    and "responseStatus dto \<noteq> []" and "trim (responseText dto) \<noteq> []"
    and "selectedFilePaths dto \<noteq> []"
    and eff: "sendSubmittalEffects ext rt submittalId submittal link dto
           (logged ''info'' [(''submittalId'', JStr submittalId), (''userId'', JStr userId)]
              ''Sending Submittal response to ACC'' s) = (Inl e, s1)"
  shows "\<exists>s'. sendSubmittalResponseToAcc ext rt now submittalId userId dto s = (Inl e, s') \<and>
           submittals s' = submittals s \<and> statusHistory s' = statusHistory s \<and>
           auditLog s' = auditLog s @
             [createRow
                [(''userId'', JStr userId),
                 (''action'', JStr ''SEND_TO_ACC_FAILED''),
                 (''entityType'', JStr ''SUBMITTAL''),
                 (''entityId'', JStr submittalId),
                 (''submittalId'', JStr submittalId),
                 (''details'', JStr (stringify rt (JObj [(''error'', JStr (errorMessage e))])))]
                emptyRow]"
proof -
  from sendSubmittalEffects_tables [OF eff]
  have t: "submittals s1 = submittals s" "auditLog s1 = auditLog s" "statusHistory s1 = statusHistory s"
    by (simp_all add: logged_def)
  have "sendSubmittalResponseToAcc ext rt now submittalId userId dto s =
      (Inl e, sendSubmittalFailed rt submittalId userId e s1)"
    using assms
    by (simp add: sendSubmittalResponseToAcc_def Let_def logged_def linkOf_def membershipsOf_def)
  then show ?thesis
    by (simp add: sendSubmittalFailed_def Let_def logged_def t)
qed

lemma sendSubmittal_step_failures:
  "(getValidToken ext (accCalls s) (link ''oauthToken'') = Inl e \<longrightarrow>
      fst (sendSubmittalEffects ext rt submittalId submittal link dto s) = Inl e) \<and>
   (getValidToken ext (accCalls s) (link ''oauthToken'') = Inr tok \<and>
    updateSubmittalStatus ext (accCalls (called ''getValidToken'' [link ''oauthToken''] s))
      (link ''accProjectId'') (submittal ''accSubmittalId'') (JStr (responseStatus dto)) tok = Inl e \<longrightarrow>
      fst (sendSubmittalEffects ext rt submittalId submittal link dto s) = Inl e) \<and>
   (getValidToken ext (accCalls s) (link ''oauthToken'') = Inr tok \<and>
    updateSubmittalStatus ext (accCalls (called ''getValidToken'' [link ''oauthToken''] s))
      (link ''accProjectId'') (submittal ''accSubmittalId'') (JStr (responseStatus dto)) tok = Inr u \<and>
    postSubmittalResponse ext
      (accCalls (called ''updateSubmittalStatus''
         [link ''accProjectId'', submittal ''accSubmittalId'', JStr (responseStatus dto), tok]
         (called ''getValidToken'' [link ''oauthToken''] s)))
      (link ''accProjectId'') (submittal ''accSubmittalId'') (JStr (responseText dto)) tok = Inl e \<longrightarrow>
      fst (sendSubmittalEffects ext rt submittalId submittal link dto s) = Inl e)"
  by (simp add: sendSubmittalEffects_def Let_def)

lemma sendSubmittal_file_failure:
  "readFile ext (accCalls s) (JStr p) = Inl x \<or>
   (\<exists>buffer. readFile ext (accCalls s) (JStr p) = Inr buffer \<and>
      uploadSubmittalAttachment ext (accCalls (called ''readFile'' [JStr p] s)) pid aid buffer
        (JStr (basename rt p)) tok = Inl x) \<Longrightarrow>
   fst (uploadSubmittalFiles ext rt submittalId pid aid tok (p # rest) s) =
     Inl (Error (''Failed to upload file: '' @ basename rt p))"
  by (auto simp: Let_def)

lemma uploadSubmittalFiles_append:
  "uploadSubmittalFiles ext rt submittalId pid aid tok pre s = (Inr u, s') \<Longrightarrow>
   uploadSubmittalFiles ext rt submittalId pid aid tok (pre @ rest) s =
     uploadSubmittalFiles ext rt submittalId pid aid tok rest s'"
  by (induction pre arbitrary: s) (auto simp: Let_def split: sum.splits)

lemma sendSubmittal_later_file_failure:
  assumes "uploadSubmittalFiles ext rt submittalId pid aid tok pre s = (Inr u, s')"
    and "readFile ext (accCalls s') (JStr p) = Inl x \<or>
         (\<exists>buffer. readFile ext (accCalls s') (JStr p) = Inr buffer \<and>
            uploadSubmittalAttachment ext (accCalls (called ''readFile'' [JStr p] s')) pid aid buffer
              (JStr (basename rt p)) tok = Inl x)"
  shows "fst (uploadSubmittalFiles ext rt submittalId pid aid tok (pre @ p # rest) s) =
     Inl (Error (''Failed to upload file: '' @ basename rt p))"
  using uploadSubmittalFiles_append [OF assms(1), of "p # rest"] sendSubmittal_file_failure [OF assms(2)]
  by simp

lemma submittalFilesAccepted_run:
  "submittalFilesAccepted ext rt pid aid tok pre (accCalls s) = Some tr \<Longrightarrow>
   \<exists>s'. uploadSubmittalFiles ext rt submittalId pid aid tok pre s = (Inr (), s') \<and> accCalls s' = tr"
  by (induction pre arbitrary: s)
     (auto simp: Let_def called_def logged_def split: sum.splits)

text \<open>
  A failure of the token request, of the status push, of the response post or of the read
  or upload of one file, the earlier calls having returned, is the result of the external
  steps. The hypothesis speaks of the collaborators' answers only.
\<close>

lemma sendSubmittalEffects_failure:
  assumes T: "accCalls s = T"
    and F: "(getValidToken ext (T) (link ''oauthToken'') = Inl e \<or>
          getValidToken ext (T) (link ''oauthToken'') = Inr tok \<and>
          (updateSubmittalStatus ext (T @ [(''getValidToken'', [link ''oauthToken''])])
             (link ''accProjectId'') (submittal ''accSubmittalId'') (JStr (responseStatus dto)) tok = Inl e \<or>
           updateSubmittalStatus ext (T @ [(''getValidToken'', [link ''oauthToken''])])
             (link ''accProjectId'') (submittal ''accSubmittalId'') (JStr (responseStatus dto)) tok = Inr () \<and>
           (postSubmittalResponse ext
              (T @
                [(''getValidToken'', [link ''oauthToken'']),
                 (''updateSubmittalStatus'',
                 [link ''accProjectId'', submittal ''accSubmittalId'', JStr (responseStatus dto), tok])])
              (link ''accProjectId'') (submittal ''accSubmittalId'') (JStr (responseText dto)) tok = Inl e \<or>
            postSubmittalResponse ext
              (T @
                [(''getValidToken'', [link ''oauthToken'']),
                 (''updateSubmittalStatus'',
                 [link ''accProjectId'', submittal ''accSubmittalId'', JStr (responseStatus dto), tok])])
              (link ''accProjectId'') (submittal ''accSubmittalId'') (JStr (responseText dto)) tok = Inr () \<and>
            selectedFilePaths dto = pre @ p # rest \<and>
            submittalFilesAccepted ext rt (link ''accProjectId'') (submittal ''accSubmittalId'') tok pre
              (T @
                [(''getValidToken'', [link ''oauthToken'']),
                 (''updateSubmittalStatus'',
                 [link ''accProjectId'', submittal ''accSubmittalId'', JStr (responseStatus dto), tok]),
                 (''postSubmittalResponse'',
                 [link ''accProjectId'', submittal ''accSubmittalId'', JStr (responseText dto), tok])]) = Some tr \<and>
            (readFile ext tr (JStr p) = Inl x \<or>
             readFile ext tr (JStr p) = Inr buffer \<and>
             uploadSubmittalAttachment ext (tr @ [(''readFile'', [JStr p])]) (link ''accProjectId'')
               (submittal ''accSubmittalId'') buffer (JStr (basename rt p)) tok = Inl x) \<and>
            e = Error (''Failed to upload file: '' @ basename rt p))))"
  shows "\<exists>s1. sendSubmittalEffects ext rt submittalId submittal link dto s = (Inl e, s1)"
proof -
  let ?s1 = "called ''getValidToken'' [link ''oauthToken''] s"
  let ?s2 = "called ''updateSubmittalStatus''
      [link ''accProjectId'', submittal ''accSubmittalId'', JStr (responseStatus dto), tok] ?s1"
  let ?s3 = "called ''postSubmittalResponse''
      [link ''accProjectId'', submittal ''accSubmittalId'', JStr (responseText dto), tok] ?s2"
  have c1: "accCalls ?s1 = T @ [(''getValidToken'', [link ''oauthToken''])]"
    and c2: "accCalls ?s2 = T @
       [(''getValidToken'', [link ''oauthToken'']),
        (''updateSubmittalStatus'',
         [link ''accProjectId'', submittal ''accSubmittalId'', JStr (responseStatus dto), tok])]"
    and c3: "accCalls ?s3 = T @
       [(''getValidToken'', [link ''oauthToken'']),
        (''updateSubmittalStatus'',
         [link ''accProjectId'', submittal ''accSubmittalId'', JStr (responseStatus dto), tok]),
        (''postSubmittalResponse'',
         [link ''accProjectId'', submittal ''accSubmittalId'', JStr (responseText dto), tok])]"
    by (simp_all add: called_def T)
  consider
      (token) "getValidToken ext (accCalls s) (link ''oauthToken'') = Inl e"
    | (status) "getValidToken ext (accCalls s) (link ''oauthToken'') = Inr tok"
        "updateSubmittalStatus ext (accCalls ?s1) (link ''accProjectId'') (submittal ''accSubmittalId'')
           (JStr (responseStatus dto)) tok = Inl e"
    | (post) "getValidToken ext (accCalls s) (link ''oauthToken'') = Inr tok"
        "updateSubmittalStatus ext (accCalls ?s1) (link ''accProjectId'') (submittal ''accSubmittalId'')
           (JStr (responseStatus dto)) tok = Inr ()"
        "postSubmittalResponse ext (accCalls ?s2) (link ''accProjectId'') (submittal ''accSubmittalId'')
           (JStr (responseText dto)) tok = Inl e"
    | (upload) "getValidToken ext (accCalls s) (link ''oauthToken'') = Inr tok"
        "updateSubmittalStatus ext (accCalls ?s1) (link ''accProjectId'') (submittal ''accSubmittalId'')
           (JStr (responseStatus dto)) tok = Inr ()"
        "postSubmittalResponse ext (accCalls ?s2) (link ''accProjectId'') (submittal ''accSubmittalId'')
           (JStr (responseText dto)) tok = Inr ()"
        "selectedFilePaths dto = pre @ p # rest"
        "submittalFilesAccepted ext rt (link ''accProjectId'') (submittal ''accSubmittalId'') tok pre
           (accCalls ?s3) = Some tr"
        "readFile ext tr (JStr p) = Inl x \<or>
         readFile ext tr (JStr p) = Inr buffer \<and>
         uploadSubmittalAttachment ext (tr @ [(''readFile'', [JStr p])]) (link ''accProjectId'')
           (submittal ''accSubmittalId'') buffer (JStr (basename rt p)) tok = Inl x"
        "e = Error (''Failed to upload file: '' @ basename rt p)"
    using F unfolding c1 c2 c3 T by blast
  then show ?thesis
  proof cases
    case token
    then show ?thesis by (simp add: sendSubmittalEffects_def)
  next
    case status
    then show ?thesis by (simp add: sendSubmittalEffects_def Let_def)
  next
    case post
    then show ?thesis by (simp add: sendSubmittalEffects_def Let_def)
  next
    case upload
    have eff: "sendSubmittalEffects ext rt submittalId submittal link dto s =
        uploadSubmittalFiles ext rt submittalId (link ''accProjectId'') (submittal ''accSubmittalId'') tok
          (pre @ p # rest) ?s3"
      using upload(1-4) by (simp add: sendSubmittalEffects_def Let_def)
    obtain s' where run: "uploadSubmittalFiles ext rt submittalId (link ''accProjectId'') (submittal ''accSubmittalId'')
          tok pre ?s3 = (Inr (), s')" and tr: "accCalls s' = tr"
      using submittalFilesAccepted_run [OF upload(5)] by blast
    have "readFile ext (accCalls s') (JStr p) = Inl x \<or>
         (\<exists>buffer. readFile ext (accCalls s') (JStr p) = Inr buffer \<and>
            uploadSubmittalAttachment ext (accCalls (called ''readFile'' [JStr p] s'))
              (link ''accProjectId'') (submittal ''accSubmittalId'') buffer (JStr (basename rt p)) tok = Inl x)"
      using upload(6) by (auto simp: tr called_def)
    then have "fst (uploadSubmittalFiles ext rt submittalId (link ''accProjectId'') (submittal ''accSubmittalId'') tok
          (pre @ p # rest) ?s3) = Inl e"
      using sendSubmittal_later_file_failure [OF run] upload(7) by simp
    then show ?thesis by (simp only: eff) (metis prod.collapse)
  qed
qed

text \<open>The same for the whole call, after authorisation and validation.\<close>

lemma sendSubmittal_external_failure:
  assumes "find (byId submittalId) (submittals s) = Some submittal"
    and "linkOf (submittal ''projectId'') s = Some link"
    and "membershipsOf (submittal ''projectId'') userId s = m # ms" and "isAdmin m"
    and "responseStatus dto \<noteq> []" and "trim (responseText dto) \<noteq> []"
    and "selectedFilePaths dto \<noteq> []"
    and F: "(getValidToken ext (accCalls s) (link ''oauthToken'') = Inl e \<or>
          getValidToken ext (accCalls s) (link ''oauthToken'') = Inr tok \<and>
          (updateSubmittalStatus ext (accCalls s @ [(''getValidToken'', [link ''oauthToken''])])
             (link ''accProjectId'') (submittal ''accSubmittalId'') (JStr (responseStatus dto)) tok = Inl e \<or>
           updateSubmittalStatus ext (accCalls s @ [(''getValidToken'', [link ''oauthToken''])])
             (link ''accProjectId'') (submittal ''accSubmittalId'') (JStr (responseStatus dto)) tok = Inr () \<and>
           (postSubmittalResponse ext
              (accCalls s @
                [(''getValidToken'', [link ''oauthToken'']),
                 (''updateSubmittalStatus'',
                 [link ''accProjectId'', submittal ''accSubmittalId'', JStr (responseStatus dto), tok])])
              (link ''accProjectId'') (submittal ''accSubmittalId'') (JStr (responseText dto)) tok = Inl e \<or>
            postSubmittalResponse ext
              (accCalls s @
                [(''getValidToken'', [link ''oauthToken'']),
                 (''updateSubmittalStatus'',
                 [link ''accProjectId'', submittal ''accSubmittalId'', JStr (responseStatus dto), tok])])
              (link ''accProjectId'') (submittal ''accSubmittalId'') (JStr (responseText dto)) tok = Inr () \<and>
            selectedFilePaths dto = pre @ p # rest \<and>
            submittalFilesAccepted ext rt (link ''accProjectId'') (submittal ''accSubmittalId'') tok pre
              (accCalls s @
                [(''getValidToken'', [link ''oauthToken'']),
                 (''updateSubmittalStatus'',
                 [link ''accProjectId'', submittal ''accSubmittalId'', JStr (responseStatus dto), tok]),
                 (''postSubmittalResponse'',
                 [link ''accProjectId'', submittal ''accSubmittalId'', JStr (responseText dto), tok])]) = Some tr \<and>
            (readFile ext tr (JStr p) = Inl x \<or>
             readFile ext tr (JStr p) = Inr buffer \<and>
             uploadSubmittalAttachment ext (tr @ [(''readFile'', [JStr p])]) (link ''accProjectId'')
               (submittal ''accSubmittalId'') buffer (JStr (basename rt p)) tok = Inl x) \<and>
            e = Error (''Failed to upload file: '' @ basename rt p))))"
  shows "\<exists>s'. sendSubmittalResponseToAcc ext rt now submittalId userId dto s = (Inl e, s') \<and>
           submittals s' = submittals s \<and> statusHistory s' = statusHistory s \<and>
           auditLog s' = auditLog s @
             [createRow
                [(''userId'', JStr userId),
                 (''action'', JStr ''SEND_TO_ACC_FAILED''),
                 (''entityType'', JStr ''SUBMITTAL''),
                 (''entityId'', JStr submittalId),
                 (''submittalId'', JStr submittalId),
                 (''details'', JStr (stringify rt (JObj [(''error'', JStr (errorMessage e))])))]
                emptyRow]"
proof -
  have acc: "accCalls (logged ''info'' [(''submittalId'', JStr submittalId), (''userId'', JStr userId)]
      ''Sending Submittal response to ACC'' s) = accCalls s"
    by (simp add: logged_def)
  have "\<exists>s1. sendSubmittalEffects ext rt submittalId submittal link dto
      (logged ''info'' [(''submittalId'', JStr submittalId), (''userId'', JStr userId)]
         ''Sending Submittal response to ACC'' s) = (Inl e, s1)"
    by (rule sendSubmittalEffects_failure [where T = "accCalls s" and ext = ext and rt = rt
          and submittal = submittal and link = link and dto = dto and e = e and tok = tok and pre = pre
          and p = p and rest = rest and tr = tr and x = x and buffer = buffer, OF acc F])
  then obtain s1 where "sendSubmittalEffects ext rt submittalId submittal link dto
      (logged ''info'' [(''submittalId'', JStr submittalId), (''userId'', JStr userId)]
         ''Sending Submittal response to ACC'' s) = (Inl e, s1)"
    by blast
  then show ?thesis using assms(1-7) by (rule sendSubmittal_aborts [rotated 7])
qed

text \<open>
  C4, as the code has it. On an existing record (for the dispatch: of a project that has
  an ACC link), a call by a member who is neither project admin nor flagged
  \<open>canSendToAcc\<close> fails with the "only project admins" error, and a call by a user with
  no membership fails with the "not a member" error. In both cases the state after the
  call is the state before it with log lines appended: no table is written and no
  external call is made. The warning with the record, the user and the role is logged for
  the member; nothing but the entry line is logged for the user without membership.
\<close>

theorem unauthorized_calls_rejected:
  "(find (byId rfiId) (rfis s) = Some rfi \<and> linkOf (rfi ''projectId'') s = Some link \<longrightarrow>
      (membershipsOf (rfi ''projectId'') userId s = m # ms \<and> \<not> isAdmin m \<longrightarrow>
          sendRfiResponseToAcc ext rt now rfiId userId dto s =
            (Inl (Error ''Only project admins are authorized to send responses to ACC''),
             s\<lparr>logs := logs s @
                [(''info'', [(''rfiId'', JStr rfiId), (''userId'', JStr userId)],
                  ''Sending RFI response to ACC''),
                 (''warn'', [(''rfiId'', JStr rfiId), (''userId'', JStr userId),
                             (''role'', m ''role'')],
                  ''Non-admin attempted to send response to ACC'')]\<rparr>)) \<and>
      (membershipsOf (rfi ''projectId'') userId s = [] \<longrightarrow>
          sendRfiResponseToAcc ext rt now rfiId userId dto s =
            (Inl (Error ''User is not a member of this project''),
             s\<lparr>logs := logs s @
                [(''info'', [(''rfiId'', JStr rfiId), (''userId'', JStr userId)],
                  ''Sending RFI response to ACC'')]\<rparr>))) \<and>
   (find (byId submittalId) (submittals s) = Some sub \<and>
    linkOf (sub ''projectId'') s = Some link' \<longrightarrow>
      (membershipsOf (sub ''projectId'') userId s = m' # ms' \<and> \<not> isAdmin m' \<longrightarrow>
          sendSubmittalResponseToAcc ext rt now submittalId userId dto s =
            (Inl (Error ''Only project admins are authorized to send responses to ACC''),
             s\<lparr>logs := logs s @
                [(''info'', [(''submittalId'', JStr submittalId), (''userId'', JStr userId)],
                  ''Sending Submittal response to ACC''),
                 (''warn'', [(''submittalId'', JStr submittalId), (''userId'', JStr userId),
                             (''role'', m' ''role'')],
                  ''Non-admin attempted to send response to ACC'')]\<rparr>)) \<and>
      (membershipsOf (sub ''projectId'') userId s = [] \<longrightarrow>
          sendSubmittalResponseToAcc ext rt now submittalId userId dto s =
            (Inl (Error ''User is not a member of this project''),
             s\<lparr>logs := logs s @
                [(''info'', [(''submittalId'', JStr submittalId), (''userId'', JStr userId)],
                  ''Sending Submittal response to ACC'')]\<rparr>))) \<and>
   (find (byId rfiId) (rfis s) = Some rfi \<longrightarrow>
      (membershipsOf (rfi ''projectId'') userId s = m # ms \<and> \<not> isAdmin m \<longrightarrow>
          confirmManualRfiResponse rt now rfiId userId s =
            (Inl (Error ''Only project admins can confirm manual responses''),
             s\<lparr>logs := logs s @
                [(''info'', [(''rfiId'', JStr rfiId), (''userId'', JStr userId)],
                  ''Admin confirming manual RFI response''),
                 (''warn'', [(''rfiId'', JStr rfiId), (''userId'', JStr userId),
                             (''role'', m ''role'')],
                  ''Non-admin attempted to confirm manual response'')]\<rparr>)) \<and>
      (membershipsOf (rfi ''projectId'') userId s = [] \<longrightarrow>
          confirmManualRfiResponse rt now rfiId userId s =
            (Inl (Error ''User is not a member of this project''),
             s\<lparr>logs := logs s @
                [(''info'', [(''rfiId'', JStr rfiId), (''userId'', JStr userId)],
                  ''Admin confirming manual RFI response'')]\<rparr>))) \<and>
   (find (byId submittalId) (submittals s) = Some sub \<longrightarrow>
      (membershipsOf (sub ''projectId'') userId s = m' # ms' \<and> \<not> isAdmin m' \<longrightarrow>
          confirmManualSubmittalResponse rt now submittalId userId s =
            (Inl (Error ''Only project admins can confirm manual responses''),
             s\<lparr>logs := logs s @
                [(''info'', [(''submittalId'', JStr submittalId), (''userId'', JStr userId)],
                  ''Admin confirming manual Submittal response''),
                 (''warn'', [(''submittalId'', JStr submittalId), (''userId'', JStr userId),
                             (''role'', m' ''role'')],
                  ''Non-admin attempted to confirm manual response'')]\<rparr>)) \<and>
      (membershipsOf (sub ''projectId'') userId s = [] \<longrightarrow>
          confirmManualSubmittalResponse rt now submittalId userId s =
            (Inl (Error ''User is not a member of this project''),
             s\<lparr>logs := logs s @
                [(''info'', [(''submittalId'', JStr submittalId), (''userId'', JStr userId)],
                  ''Admin confirming manual Submittal response'')]\<rparr>)))"
  using sendRfi_denied [of rfiId s rfi link userId m ms ext rt now dto]
    sendSubmittal_denied [of submittalId s sub link' userId m' ms' ext rt now dto]
    confirmManualRfiResponse_denied [of rfiId s rfi userId m ms rt now]
    confirmManualSubmittalResponse_denied [of submittalId s sub userId m' ms' rt now]
  by blast

lemma demo_rows:
  "rfis (demoWorld rt d) = [demoRfi rt d]" "submittals (demoWorld rt d) = [demoSubmittal rt d]"
  "accProjectLinks (demoWorld rt d) = [demoLink]" "logs (demoWorld rt d) = []"
  "auditLog (demoWorld rt d) = []" "accCalls (demoWorld rt d) = []"
  "statusHistory (demoWorld rt d) = []"
  by (simp_all add: demoWorld_def emptyWorld_def)

lemma demo_plain_cols:
  "demoRfi rt [] ''id'' = JStr ''rfi-1''" "demoRfi rt [] ''projectId'' = JStr ''proj-1''"
  "demoRfi rt [] ''accRfiId'' = JStr ''R-1''"
  "demoSubmittal rt [] ''id'' = JStr ''sub-1''" "demoSubmittal rt [] ''projectId'' = JStr ''proj-1''"
  "demoLink ''projectId'' = JStr ''proj-1''" "demoLink ''accProjectId'' = JStr ''acc-1''"
  "demoLink ''oauthToken'' = JNull"
  by (simp_all add: demoRfi_def demoSubmittal_def demoLink_def applyData_def emptyRow_def)

lemma demo_memberships:
  "membershipsOf (JStr ''proj-1'') ''reviewer-1'' (demoWorld rt d) =
     [demoMember ''reviewer-1'' ''REVIEWER'' False]"
  "membershipsOf (JStr ''proj-1'') ''admin-1'' (demoWorld rt d) =
     [demoMember ''admin-1'' ''PROJECT_ADMIN'' False]"
  "membershipsOf (JStr ''proj-1'') ''outsider-1'' (demoWorld rt d) = []"
  by (simp_all add: membershipsOf_def demoWorld_def demoMember_def applyData_def)

lemma demo_admins:
  "\<not> isAdmin (demoMember ''reviewer-1'' ''REVIEWER'' False)"
  "isAdmin (demoMember ''admin-1'' ''PROJECT_ADMIN'' False)"
  "demoMember ''reviewer-1'' ''REVIEWER'' False ''role'' = JStr ''REVIEWER''"
  by (simp_all add: isAdmin_def demoMember_def applyData_def)

theorem unauthorized_calls_rejected_witness:
  "\<forall>ext rt.
     find (byId ''rfi-1'') (rfis (demoWorld rt [])) = Some (demoRfi rt []) \<and>
     linkOf (demoRfi rt [] ''projectId'') (demoWorld rt []) = Some demoLink \<and>
     membershipsOf (demoRfi rt [] ''projectId'') ''reviewer-1'' (demoWorld rt []) =
       [demoMember ''reviewer-1'' ''REVIEWER'' False] \<and>
     \<not> isAdmin (demoMember ''reviewer-1'' ''REVIEWER'' False) \<and>
     membershipsOf (demoRfi rt [] ''projectId'') ''outsider-1'' (demoWorld rt []) = [] \<and>
     sendRfiResponseToAcc ext rt 2000 ''rfi-1'' ''reviewer-1'' demoDto (demoWorld rt []) =
       (Inl (Error ''Only project admins are authorized to send responses to ACC''),
        (demoWorld rt [])\<lparr>logs :=
           [(''info'', [(''rfiId'', JStr ''rfi-1''), (''userId'', JStr ''reviewer-1'')],
             ''Sending RFI response to ACC''),
            (''warn'', [(''rfiId'', JStr ''rfi-1''), (''userId'', JStr ''reviewer-1''),
                        (''role'', JStr ''REVIEWER'')],
             ''Non-admin attempted to send response to ACC'')]\<rparr>) \<and>
     confirmManualRfiResponse rt 2000 ''rfi-1'' ''outsider-1'' (demoWorld rt []) =
       (Inl (Error ''User is not a member of this project''),
        (demoWorld rt [])\<lparr>logs :=
           [(''info'', [(''rfiId'', JStr ''rfi-1''), (''userId'', JStr ''outsider-1'')],
             ''Admin confirming manual RFI response'')]\<rparr>)"
proof (intro allI)
  fix ext rt
  have f: "find (byId ''rfi-1'') (rfis (demoWorld rt [])) = Some (demoRfi rt [])"
    by (simp add: demo_rows byId_def demo_plain_cols)
  have l: "linkOf (demoRfi rt [] ''projectId'') (demoWorld rt []) = Some demoLink"
    by (simp add: linkOf_def demo_rows demo_plain_cols)
  have m1: "membershipsOf (demoRfi rt [] ''projectId'') ''reviewer-1'' (demoWorld rt []) =
       [demoMember ''reviewer-1'' ''REVIEWER'' False]"
    and m2: "membershipsOf (demoRfi rt [] ''projectId'') ''outsider-1'' (demoWorld rt []) = []"
    by (simp_all add: demo_plain_cols demo_memberships)
  from unauthorized_calls_rejected [of "''rfi-1''" "demoWorld rt []" "demoRfi rt []" demoLink
      "''reviewer-1''" "demoMember ''reviewer-1'' ''REVIEWER'' False" "[]" ext rt 2000 demoDto,
      THEN conjunct1] f l m1 demo_admins(1)
  have a: "sendRfiResponseToAcc ext rt 2000 ''rfi-1'' ''reviewer-1'' demoDto (demoWorld rt []) =
       (Inl (Error ''Only project admins are authorized to send responses to ACC''),
        (demoWorld rt [])\<lparr>logs :=
           [(''info'', [(''rfiId'', JStr ''rfi-1''), (''userId'', JStr ''reviewer-1'')],
             ''Sending RFI response to ACC''),
            (''warn'', [(''rfiId'', JStr ''rfi-1''), (''userId'', JStr ''reviewer-1''),
                        (''role'', JStr ''REVIEWER'')],
             ''Non-admin attempted to send response to ACC'')]\<rparr>)"
    by (simp add: demo_rows demo_admins)
  from unauthorized_calls_rejected [of "''rfi-1''" "demoWorld rt []" "demoRfi rt []" demoLink
      "''outsider-1''" _ _ ext rt 2000 demoDto, THEN conjunct2, THEN conjunct2, THEN conjunct1]
    f m2
  have b: "confirmManualRfiResponse rt 2000 ''rfi-1'' ''outsider-1'' (demoWorld rt []) =
       (Inl (Error ''User is not a member of this project''),
        (demoWorld rt [])\<lparr>logs :=
           [(''info'', [(''rfiId'', JStr ''rfi-1''), (''userId'', JStr ''outsider-1'')],
             ''Admin confirming manual RFI response'')]\<rparr>)"
    by (simp add: demo_rows)
  from f l m1 m2 demo_admins(1) a b
  show "find (byId ''rfi-1'') (rfis (demoWorld rt [])) = Some (demoRfi rt []) \<and>
     linkOf (demoRfi rt [] ''projectId'') (demoWorld rt []) = Some demoLink \<and>
     membershipsOf (demoRfi rt [] ''projectId'') ''reviewer-1'' (demoWorld rt []) =
       [demoMember ''reviewer-1'' ''REVIEWER'' False] \<and>
     \<not> isAdmin (demoMember ''reviewer-1'' ''REVIEWER'' False) \<and>
     membershipsOf (demoRfi rt [] ''projectId'') ''outsider-1'' (demoWorld rt []) = [] \<and>
     sendRfiResponseToAcc ext rt 2000 ''rfi-1'' ''reviewer-1'' demoDto (demoWorld rt []) =
       (Inl (Error ''Only project admins are authorized to send responses to ACC''),
        (demoWorld rt [])\<lparr>logs :=
           [(''info'', [(''rfiId'', JStr ''rfi-1''), (''userId'', JStr ''reviewer-1'')],
             ''Sending RFI response to ACC''),
            (''warn'', [(''rfiId'', JStr ''rfi-1''), (''userId'', JStr ''reviewer-1''),
                        (''role'', JStr ''REVIEWER'')],
             ''Non-admin attempted to send response to ACC'')]\<rparr>) \<and>
     confirmManualRfiResponse rt 2000 ''rfi-1'' ''outsider-1'' (demoWorld rt []) =
       (Inl (Error ''User is not a member of this project''),
        (demoWorld rt [])\<lparr>logs :=
           [(''info'', [(''rfiId'', JStr ''rfi-1''), (''userId'', JStr ''outsider-1'')],
             ''Admin confirming manual RFI response'')]\<rparr>)"
    by blast
qed

theorem outsider_rejected_without_warning:
  "\<forall>ext rt.
     fst (sendRfiResponseToAcc ext rt 2000 ''rfi-1'' ''outsider-1'' demoDto (demoWorld rt [])) =
       Inl (Error ''User is not a member of this project'') \<and>
     filter (\<lambda>entry. fst entry = ''warn'')
       (logs (snd (sendRfiResponseToAcc ext rt 2000 ''rfi-1'' ''outsider-1'' demoDto
                     (demoWorld rt [])))) = [] \<and>
     fst (confirmManualRfiResponse rt 2000 ''rfi-1'' ''outsider-1'' (demoWorld rt [])) =
       Inl (Error ''User is not a member of this project'') \<and>
     filter (\<lambda>entry. fst entry = ''warn'')
       (logs (snd (confirmManualRfiResponse rt 2000 ''rfi-1'' ''outsider-1''
                     (demoWorld rt [])))) = []"
proof (intro allI)
  fix ext rt
  have f: "find (byId ''rfi-1'') (rfis (demoWorld rt [])) = Some (demoRfi rt [])"
    by (simp add: demo_rows byId_def demo_plain_cols)
  have l: "linkOf (demoRfi rt [] ''projectId'') (demoWorld rt []) = Some demoLink"
    by (simp add: linkOf_def demo_rows demo_plain_cols)
  have m2: "membershipsOf (demoRfi rt [] ''projectId'') ''outsider-1'' (demoWorld rt []) = []"
    by (simp add: demo_plain_cols demo_memberships)
  from sendRfi_denied [OF f l, of "''outsider-1''" _ _ ext rt 2000 demoDto]
    confirmManualRfiResponse_denied [OF f, of "''outsider-1''" _ _ rt 2000] m2
  show "fst (sendRfiResponseToAcc ext rt 2000 ''rfi-1'' ''outsider-1'' demoDto (demoWorld rt [])) =
       Inl (Error ''User is not a member of this project'') \<and>
     filter (\<lambda>entry. fst entry = ''warn'')
       (logs (snd (sendRfiResponseToAcc ext rt 2000 ''rfi-1'' ''outsider-1'' demoDto
                     (demoWorld rt [])))) = [] \<and>
     fst (confirmManualRfiResponse rt 2000 ''rfi-1'' ''outsider-1'' (demoWorld rt [])) =
       Inl (Error ''User is not a member of this project'') \<and>
     filter (\<lambda>entry. fst entry = ''warn'')
       (logs (snd (confirmManualRfiResponse rt 2000 ''rfi-1'' ''outsider-1''
                     (demoWorld rt [])))) = []"
    by (simp add: demo_rows)
qed

text \<open>
  C5. A dispatch that has passed authorisation and validation makes its external calls in
  order: the token request, the status push, the response post, then for each selected
  file the read and the upload. When one of these calls fails, the calls before it having
  returned, the whole call fails with the error (for a file: "Failed to upload file:" and
  its name), the record table and the status history are as before the call, and one
  audit entry with action SEND_TO_ACC_FAILED and the error's message is appended. The
  failing file is any of the selected files: \<open>pre\<close> are the files before it, each read
  and uploaded, and \<open>tr\<close> is the trace of the calls made when its read begins.
\<close>

theorem failed_dispatch_aborts:
  "(find (byId rfiId) (rfis s) = Some rfi \<and> linkOf (rfi ''projectId'') s = Some link \<and>
    membershipsOf (rfi ''projectId'') userId s = m # ms \<and> isAdmin m \<and>
    responseStatus dto \<noteq> [] \<and> trim (responseText dto) \<noteq> [] \<and> selectedFilePaths dto \<noteq> [] \<and>
    (getValidToken ext (accCalls s) (link ''oauthToken'') = Inl e \<or>
     getValidToken ext (accCalls s) (link ''oauthToken'') = Inr tok \<and>
     (updateRFIStatus ext (accCalls s @ [(''getValidToken'', [link ''oauthToken''])])
        (link ''accProjectId'') (rfi ''accRfiId'') (JStr (responseStatus dto)) tok = Inl e \<or>
      updateRFIStatus ext (accCalls s @ [(''getValidToken'', [link ''oauthToken''])])
        (link ''accProjectId'') (rfi ''accRfiId'') (JStr (responseStatus dto)) tok = Inr () \<and>
      (postRFIResponse ext
         (accCalls s @
           [(''getValidToken'', [link ''oauthToken'']),
            (''updateRFIStatus'',
            [link ''accProjectId'', rfi ''accRfiId'', JStr (responseStatus dto), tok])])
         (link ''accProjectId'') (rfi ''accRfiId'') (JStr (responseText dto)) tok = Inl e \<or>
       postRFIResponse ext
         (accCalls s @
           [(''getValidToken'', [link ''oauthToken'']),
            (''updateRFIStatus'',
            [link ''accProjectId'', rfi ''accRfiId'', JStr (responseStatus dto), tok])])
         (link ''accProjectId'') (rfi ''accRfiId'') (JStr (responseText dto)) tok = Inr () \<and>
       selectedFilePaths dto = pre @ p # rest \<and>
       rfiFilesAccepted ext rt (link ''accProjectId'') (rfi ''accRfiId'') tok pre
         (accCalls s @
           [(''getValidToken'', [link ''oauthToken'']),
            (''updateRFIStatus'',
            [link ''accProjectId'', rfi ''accRfiId'', JStr (responseStatus dto), tok]),
            (''postRFIResponse'',
            [link ''accProjectId'', rfi ''accRfiId'', JStr (responseText dto), tok])]) = Some tr \<and>
       (readFile ext tr (JStr p) = Inl x \<or>
        readFile ext tr (JStr p) = Inr buffer \<and>
        uploadRFIAttachment ext (tr @ [(''readFile'', [JStr p])]) (link ''accProjectId'')
          (rfi ''accRfiId'') buffer (JStr (basename rt p)) tok = Inl x) \<and>
       e = Error (''Failed to upload file: '' @ basename rt p)))) \<longrightarrow>
      (\<exists>s'. sendRfiResponseToAcc ext rt now rfiId userId dto s = (Inl e, s') \<and>
           rfis s' = rfis s \<and> statusHistory s' = statusHistory s \<and>
           auditLog s' = auditLog s @
             [createRow
                [(''userId'', JStr userId),
                 (''action'', JStr ''SEND_TO_ACC_FAILED''),
                 (''entityType'', JStr ''RFI''),
                 (''entityId'', JStr rfiId),
                 (''rfiId'', JStr rfiId),
                 (''details'', JStr (stringify rt (JObj [(''error'', JStr (errorMessage e))])))]
                emptyRow])) \<and>
   (find (byId submittalId) (submittals s) = Some submittal \<and> linkOf (submittal ''projectId'') s = Some link \<and>
    membershipsOf (submittal ''projectId'') userId s = m # ms \<and> isAdmin m \<and>
    responseStatus dto \<noteq> [] \<and> trim (responseText dto) \<noteq> [] \<and> selectedFilePaths dto \<noteq> [] \<and>
    (getValidToken ext (accCalls s) (link ''oauthToken'') = Inl e \<or>
     getValidToken ext (accCalls s) (link ''oauthToken'') = Inr tok \<and>
     (updateSubmittalStatus ext (accCalls s @ [(''getValidToken'', [link ''oauthToken''])])
        (link ''accProjectId'') (submittal ''accSubmittalId'') (JStr (responseStatus dto)) tok = Inl e \<or>
      updateSubmittalStatus ext (accCalls s @ [(''getValidToken'', [link ''oauthToken''])])
        (link ''accProjectId'') (submittal ''accSubmittalId'') (JStr (responseStatus dto)) tok = Inr () \<and>
      (postSubmittalResponse ext
         (accCalls s @
           [(''getValidToken'', [link ''oauthToken'']),
            (''updateSubmittalStatus'',
            [link ''accProjectId'', submittal ''accSubmittalId'', JStr (responseStatus dto), tok])])
         (link ''accProjectId'') (submittal ''accSubmittalId'') (JStr (responseText dto)) tok = Inl e \<or>
       postSubmittalResponse ext
         (accCalls s @
           [(''getValidToken'', [link ''oauthToken'']),
            (''updateSubmittalStatus'',
            [link ''accProjectId'', submittal ''accSubmittalId'', JStr (responseStatus dto), tok])])
         (link ''accProjectId'') (submittal ''accSubmittalId'') (JStr (responseText dto)) tok = Inr () \<and>
       selectedFilePaths dto = pre @ p # rest \<and>
       submittalFilesAccepted ext rt (link ''accProjectId'') (submittal ''accSubmittalId'') tok pre
         (accCalls s @
           [(''getValidToken'', [link ''oauthToken'']),
            (''updateSubmittalStatus'',
            [link ''accProjectId'', submittal ''accSubmittalId'', JStr (responseStatus dto), tok]),
            (''postSubmittalResponse'',
            [link ''accProjectId'', submittal ''accSubmittalId'', JStr (responseText dto), tok])]) = Some tr \<and>
       (readFile ext tr (JStr p) = Inl x \<or>
        readFile ext tr (JStr p) = Inr buffer \<and>
        uploadSubmittalAttachment ext (tr @ [(''readFile'', [JStr p])]) (link ''accProjectId'')
          (submittal ''accSubmittalId'') buffer (JStr (basename rt p)) tok = Inl x) \<and>
       e = Error (''Failed to upload file: '' @ basename rt p)))) \<longrightarrow>
      (\<exists>s'. sendSubmittalResponseToAcc ext rt now submittalId userId dto s = (Inl e, s') \<and>
           submittals s' = submittals s \<and> statusHistory s' = statusHistory s \<and>
           auditLog s' = auditLog s @
             [createRow
                [(''userId'', JStr userId),
                 (''action'', JStr ''SEND_TO_ACC_FAILED''),
                 (''entityType'', JStr ''SUBMITTAL''),
                 (''entityId'', JStr submittalId),
                 (''submittalId'', JStr submittalId),
                 (''details'', JStr (stringify rt (JObj [(''error'', JStr (errorMessage e))])))]
                emptyRow]))"
  (is "(?H \<longrightarrow> ?A) \<and> (?H' \<longrightarrow> ?A')")
proof (intro conjI impI)
  assume h: "?H"
  show ?A
    by (rule sendRfi_external_failure [where rfi = rfi and link = link and m = m and ms = ms
          and tok = tok and pre = pre and p = p and rest = rest and tr = tr and x = x
          and buffer = buffer])
       (use h in blast)+
next
  assume h: "?H'"
  show ?A'
    by (rule sendSubmittal_external_failure [where submittal = submittal and link = link
          and m = m and ms = ms and tok = tok and pre = pre and p = p and rest = rest
          and tr = tr and x = x and buffer = buffer])
       (use h in blast)+
qed

text \<open>
  The platform of the example refuses the upload of b.pdf to an RFI: the dispatch of a.pdf
  and b.pdf uploads a.pdf, fails on b.pdf and is aborted. It refuses the post of a
  response to a Submittal: that dispatch is aborted after the status push.
\<close>

theorem failed_dispatch_aborts_witness:
  "\<forall>rt0.
     (let rt = demoPlainRuntime rt0; s = demoWorld rt [] in
      find (byId ''rfi-1'') (rfis s) = Some (demoRfi rt []) \<and>
      linkOf (demoRfi rt [] ''projectId'') s = Some demoLink \<and>
      membershipsOf (demoRfi rt [] ''projectId'') ''admin-1'' s =
        [demoMember ''admin-1'' ''PROJECT_ADMIN'' False] \<and>
      isAdmin (demoMember ''admin-1'' ''PROJECT_ADMIN'' False) \<and>
      responseStatus demoDto \<noteq> [] \<and> trim (responseText demoDto) \<noteq> [] \<and>
      selectedFilePaths demoDto = [''a.pdf''] @ ''b.pdf'' # [] \<and>
      uploadRFIAttachment demoExternal
        [(''getValidToken'', [JNull]),
         (''updateRFIStatus'', [JStr ''acc-1'', JStr ''R-1'', JStr ''answered'', JStr ''token'']),
         (''postRFIResponse'', [JStr ''acc-1'', JStr ''R-1'', JStr ''See markup'', JStr ''token'']),
         (''readFile'', [JStr ''a.pdf'']),
         (''uploadRFIAttachment'',
          [JStr ''acc-1'', JStr ''R-1'', JStr ''bytes'', JStr ''a.pdf'', JStr ''token'']),
         (''readFile'', [JStr ''b.pdf''])]
        (JStr ''acc-1'') (JStr ''R-1'') (JStr ''bytes'') (JStr ''b.pdf'') (JStr ''token'') =
        Inl (Error ''upload refused'') \<and>
      (\<exists>s'. sendRfiResponseToAcc demoExternal rt 2000 ''rfi-1'' ''admin-1'' demoDto s =
              (Inl (Error ''Failed to upload file: b.pdf''), s') \<and>
            rfis s' = rfis s \<and>
            map (\<lambda>r. (r ''action'', r ''userId'')) (auditLog s') =
              [(JStr ''SEND_TO_ACC_FAILED'', JStr ''admin-1'')])) \<and>
     (let rt = demoPlainRuntime rt0; s = demoWorld rt [] in
      find (byId ''sub-1'') (submittals s) = Some (demoSubmittal rt []) \<and>
      linkOf (demoSubmittal rt [] ''projectId'') s = Some demoLink \<and>
      membershipsOf (demoSubmittal rt [] ''projectId'') ''admin-1'' s =
        [demoMember ''admin-1'' ''PROJECT_ADMIN'' False] \<and>
      postSubmittalResponse demoExternal
        [(''getValidToken'', [JNull]),
         (''updateSubmittalStatus'',
          [JStr ''acc-1'', JStr ''R-1'', JStr ''answered'', JStr ''token''])]
        (JStr ''acc-1'') (JStr ''R-1'') (JStr ''See markup'') (JStr ''token'') =
        Inl (Error ''post refused'') \<and>
      (\<exists>s'. sendSubmittalResponseToAcc demoExternal rt 2000 ''sub-1'' ''admin-1'' demoDto s =
              (Inl (Error ''post refused''), s') \<and>
            submittals s' = submittals s \<and>
            map (\<lambda>r. (r ''action'', r ''userId'')) (auditLog s') =
              [(JStr ''SEND_TO_ACC_FAILED'', JStr ''admin-1'')]))"
proof
  fix rt0 :: runtime
  define rt where "rt = demoPlainRuntime rt0"
  define TR :: trace where "TR =
    [(''getValidToken'', [JNull]),
     (''updateRFIStatus'', [JStr ''acc-1'', JStr ''R-1'', JStr ''answered'', JStr ''token'']),
     (''postRFIResponse'', [JStr ''acc-1'', JStr ''R-1'', JStr ''See markup'', JStr ''token'']),
     (''readFile'', [JStr ''a.pdf'']),
     (''uploadRFIAttachment'',
      [JStr ''acc-1'', JStr ''R-1'', JStr ''bytes'', JStr ''a.pdf'', JStr ''token''])]"
  have bn: "basename rt p = p" for p by (simp add: rt_def demoPlainRuntime_def)
  have scol: "demoSubmittal rt [] ''accSubmittalId'' = JStr ''R-1''"
    by (simp add: demoSubmittal_def applyData_def)
  have v: "responseStatus demoDto \<noteq> []" "trim (responseText demoDto) \<noteq> []"
    "selectedFilePaths demoDto \<noteq> []"
    by (simp_all add: demoDto_def trim_def isSpace_def)
  have sel: "selectedFilePaths demoDto = [''a.pdf''] @ ''b.pdf'' # []"
    by (simp add: demoDto_def)
  have up: "uploadRFIAttachment demoExternal (TR @ [(''readFile'', [JStr ''b.pdf''])])
      (JStr ''acc-1'') (JStr ''R-1'') (JStr ''bytes'') (JStr ''b.pdf'') (JStr ''token'') =
      Inl (Error ''upload refused'')"
    by (simp add: demoExternal_def)
  have po: "postSubmittalResponse demoExternal
      [(''getValidToken'', [JNull]),
       (''updateSubmittalStatus'',
        [JStr ''acc-1'', JStr ''R-1'', JStr ''answered'', JStr ''token''])]
      (JStr ''acc-1'') (JStr ''R-1'') (JStr ''See markup'') (JStr ''token'') =
      Inl (Error ''post refused'')"
    by (simp add: demoExternal_def)
  text \<open>The RFI.\<close>
  have f: "find (byId ''rfi-1'') (rfis (demoWorld rt [])) = Some (demoRfi rt [])"
    by (simp add: demo_rows byId_def demo_plain_cols)
  have l: "linkOf (demoRfi rt [] ''projectId'') (demoWorld rt []) = Some demoLink"
    by (simp add: linkOf_def demo_rows demo_plain_cols)
  have m: "membershipsOf (demoRfi rt [] ''projectId'') ''admin-1'' (demoWorld rt []) =
       [demoMember ''admin-1'' ''PROJECT_ADMIN'' False]"
    by (simp add: demo_plain_cols demo_memberships)
  have F1: "(getValidToken demoExternal (accCalls (demoWorld rt [])) (demoLink ''oauthToken'') = Inl (Error ''Failed to upload file: b.pdf'') \<or>
       getValidToken demoExternal (accCalls (demoWorld rt [])) (demoLink ''oauthToken'') = Inr (JStr ''token'') \<and>
       (updateRFIStatus demoExternal (accCalls (demoWorld rt []) @ [(''getValidToken'', [demoLink ''oauthToken''])])
          (demoLink ''accProjectId'') ((demoRfi rt []) ''accRfiId'') (JStr (responseStatus demoDto)) (JStr ''token'') = Inl (Error ''Failed to upload file: b.pdf'') \<or>
        updateRFIStatus demoExternal (accCalls (demoWorld rt []) @ [(''getValidToken'', [demoLink ''oauthToken''])])
          (demoLink ''accProjectId'') ((demoRfi rt []) ''accRfiId'') (JStr (responseStatus demoDto)) (JStr ''token'') = Inr () \<and>
        (postRFIResponse demoExternal
           (accCalls (demoWorld rt []) @
             [(''getValidToken'', [demoLink ''oauthToken'']),
              (''updateRFIStatus'',
              [demoLink ''accProjectId'', (demoRfi rt []) ''accRfiId'', JStr (responseStatus demoDto), (JStr ''token'')])])
           (demoLink ''accProjectId'') ((demoRfi rt []) ''accRfiId'') (JStr (responseText demoDto)) (JStr ''token'') = Inl (Error ''Failed to upload file: b.pdf'') \<or>
         postRFIResponse demoExternal
           (accCalls (demoWorld rt []) @
             [(''getValidToken'', [demoLink ''oauthToken'']),
              (''updateRFIStatus'',
              [demoLink ''accProjectId'', (demoRfi rt []) ''accRfiId'', JStr (responseStatus demoDto), (JStr ''token'')])])
           (demoLink ''accProjectId'') ((demoRfi rt []) ''accRfiId'') (JStr (responseText demoDto)) (JStr ''token'') = Inr () \<and>
         selectedFilePaths demoDto = [''a.pdf''] @ ''b.pdf'' # [] \<and>
         rfiFilesAccepted demoExternal rt (demoLink ''accProjectId'') ((demoRfi rt []) ''accRfiId'') (JStr ''token'') [''a.pdf'']
           (accCalls (demoWorld rt []) @
             [(''getValidToken'', [demoLink ''oauthToken'']),
              (''updateRFIStatus'',
              [demoLink ''accProjectId'', (demoRfi rt []) ''accRfiId'', JStr (responseStatus demoDto), (JStr ''token'')]),
              (''postRFIResponse'',
              [demoLink ''accProjectId'', (demoRfi rt []) ''accRfiId'', JStr (responseText demoDto), (JStr ''token'')])]) = Some TR \<and>
         (readFile demoExternal TR (JStr ''b.pdf'') = Inl (Error ''upload refused'') \<or>
          readFile demoExternal TR (JStr ''b.pdf'') = Inr (JStr ''bytes'') \<and>
          uploadRFIAttachment demoExternal (TR @ [(''readFile'', [JStr ''b.pdf''])]) (demoLink ''accProjectId'')
            ((demoRfi rt []) ''accRfiId'') (JStr ''bytes'') (JStr (basename rt ''b.pdf'')) (JStr ''token'') = Inl (Error ''upload refused'')) \<and>
         (Error ''Failed to upload file: b.pdf'') = Error (''Failed to upload file: '' @ basename rt ''b.pdf''))))"
    by (simp add: demoExternal_def demoDto_def demo_rows demo_plain_cols bn TR_def)
  note e1 = failed_dispatch_aborts [where rfiId = "''rfi-1''" and s = "demoWorld rt []"
      and rfi = "demoRfi rt []" and link = demoLink and userId = "''admin-1''"
      and m = "demoMember ''admin-1'' ''PROJECT_ADMIN'' False" and ms = "[]" and dto = demoDto
      and ext = demoExternal and rt = rt and e = "Error ''Failed to upload file: b.pdf''"
      and tok = "JStr ''token''" and pre = "[''a.pdf'']" and p = "''b.pdf''" and rest = "[]"
      and tr = TR and x = "Error ''upload refused''" and buffer = "JStr ''bytes''"
      and now = 2000, THEN conjunct1, THEN mp]
  from e1 [OF conjI [OF f conjI [OF l conjI [OF m conjI [OF demo_admins(2) conjI [OF v(1) conjI [OF v(2) conjI [OF v(3) F1]]]]]]]]
  obtain s1 where w1:
    "sendRfiResponseToAcc demoExternal rt 2000 ''rfi-1'' ''admin-1'' demoDto (demoWorld rt []) =
       (Inl (Error ''Failed to upload file: b.pdf''), s1)"
    "rfis s1 = rfis (demoWorld rt [])"
    "map (\<lambda>r. (r ''action'', r ''userId'')) (auditLog s1) =
       [(JStr ''SEND_TO_ACC_FAILED'', JStr ''admin-1'')]"
    by (auto simp: demo_rows createRow_def applyData_def)
  have B1: "(let rt = demoPlainRuntime rt0; s = demoWorld rt [] in
        find (byId ''rfi-1'') (rfis s) = Some (demoRfi rt []) \<and>
        linkOf (demoRfi rt [] ''projectId'') s = Some demoLink \<and>
        membershipsOf (demoRfi rt [] ''projectId'') ''admin-1'' s =
          [demoMember ''admin-1'' ''PROJECT_ADMIN'' False] \<and>
        isAdmin (demoMember ''admin-1'' ''PROJECT_ADMIN'' False) \<and>
        responseStatus demoDto \<noteq> [] \<and> trim (responseText demoDto) \<noteq> [] \<and>
        selectedFilePaths demoDto = [''a.pdf''] @ ''b.pdf'' # [] \<and>
        uploadRFIAttachment demoExternal
          [(''getValidToken'', [JNull]),
           (''updateRFIStatus'', [JStr ''acc-1'', JStr ''R-1'', JStr ''answered'', JStr ''token'']),
           (''postRFIResponse'', [JStr ''acc-1'', JStr ''R-1'', JStr ''See markup'', JStr ''token'']),
           (''readFile'', [JStr ''a.pdf'']),
           (''uploadRFIAttachment'',
            [JStr ''acc-1'', JStr ''R-1'', JStr ''bytes'', JStr ''a.pdf'', JStr ''token'']),
           (''readFile'', [JStr ''b.pdf''])]
          (JStr ''acc-1'') (JStr ''R-1'') (JStr ''bytes'') (JStr ''b.pdf'') (JStr ''token'') =
          Inl (Error ''upload refused'') \<and>
        (\<exists>s'. sendRfiResponseToAcc demoExternal rt 2000 ''rfi-1'' ''admin-1'' demoDto s =
                (Inl (Error ''Failed to upload file: b.pdf''), s') \<and>
              rfis s' = rfis s \<and>
              map (\<lambda>r. (r ''action'', r ''userId'')) (auditLog s') =
                [(JStr ''SEND_TO_ACC_FAILED'', JStr ''admin-1'')]))"
    unfolding Let_def rt_def [symmetric]
    by (intro conjI f l m demo_admins(2) v(1) v(2) sel up [unfolded TR_def append.simps])
      (rule exI [where x = s1], intro conjI w1)
  text \<open>The Submittal.\<close>
  have f': "find (byId ''sub-1'') (submittals (demoWorld rt [])) = Some (demoSubmittal rt [])"
    by (simp add: demo_rows byId_def demo_plain_cols)
  have l': "linkOf (demoSubmittal rt [] ''projectId'') (demoWorld rt []) = Some demoLink"
    by (simp add: linkOf_def demo_rows demo_plain_cols)
  have m': "membershipsOf (demoSubmittal rt [] ''projectId'') ''admin-1'' (demoWorld rt []) =
       [demoMember ''admin-1'' ''PROJECT_ADMIN'' False]"
    by (simp add: demo_plain_cols demo_memberships)
  have F2: "(getValidToken demoExternal (accCalls (demoWorld rt [])) (demoLink ''oauthToken'') = Inl (Error ''post refused'') \<or>
       getValidToken demoExternal (accCalls (demoWorld rt [])) (demoLink ''oauthToken'') = Inr (JStr ''token'') \<and>
       (updateSubmittalStatus demoExternal (accCalls (demoWorld rt []) @ [(''getValidToken'', [demoLink ''oauthToken''])])
          (demoLink ''accProjectId'') ((demoSubmittal rt []) ''accSubmittalId'') (JStr (responseStatus demoDto)) (JStr ''token'') = Inl (Error ''post refused'') \<or>
        updateSubmittalStatus demoExternal (accCalls (demoWorld rt []) @ [(''getValidToken'', [demoLink ''oauthToken''])])
          (demoLink ''accProjectId'') ((demoSubmittal rt []) ''accSubmittalId'') (JStr (responseStatus demoDto)) (JStr ''token'') = Inr () \<and>
        (postSubmittalResponse demoExternal
           (accCalls (demoWorld rt []) @
             [(''getValidToken'', [demoLink ''oauthToken'']),
              (''updateSubmittalStatus'',
              [demoLink ''accProjectId'', (demoSubmittal rt []) ''accSubmittalId'', JStr (responseStatus demoDto), (JStr ''token'')])])
           (demoLink ''accProjectId'') ((demoSubmittal rt []) ''accSubmittalId'') (JStr (responseText demoDto)) (JStr ''token'') = Inl (Error ''post refused'') \<or>
         postSubmittalResponse demoExternal
           (accCalls (demoWorld rt []) @
             [(''getValidToken'', [demoLink ''oauthToken'']),
              (''updateSubmittalStatus'',
              [demoLink ''accProjectId'', (demoSubmittal rt []) ''accSubmittalId'', JStr (responseStatus demoDto), (JStr ''token'')])])
           (demoLink ''accProjectId'') ((demoSubmittal rt []) ''accSubmittalId'') (JStr (responseText demoDto)) (JStr ''token'') = Inr () \<and>
         selectedFilePaths demoDto = [] @ ''a.pdf'' # [''b.pdf''] \<and>
         submittalFilesAccepted demoExternal rt (demoLink ''accProjectId'') ((demoSubmittal rt []) ''accSubmittalId'') (JStr ''token'') []
           (accCalls (demoWorld rt []) @
             [(''getValidToken'', [demoLink ''oauthToken'']),
              (''updateSubmittalStatus'',
              [demoLink ''accProjectId'', (demoSubmittal rt []) ''accSubmittalId'', JStr (responseStatus demoDto), (JStr ''token'')]),
              (''postSubmittalResponse'',
              [demoLink ''accProjectId'', (demoSubmittal rt []) ''accSubmittalId'', JStr (responseText demoDto), (JStr ''token'')])]) = Some [] \<and>
         (readFile demoExternal [] (JStr ''a.pdf'') = Inl (Error ''post refused'') \<or>
          readFile demoExternal [] (JStr ''a.pdf'') = Inr JNull \<and>
          uploadSubmittalAttachment demoExternal ([] @ [(''readFile'', [JStr ''a.pdf''])]) (demoLink ''accProjectId'')
            ((demoSubmittal rt []) ''accSubmittalId'') JNull (JStr (basename rt ''a.pdf'')) (JStr ''token'') = Inl (Error ''post refused'')) \<and>
         (Error ''post refused'') = Error (''Failed to upload file: '' @ basename rt ''a.pdf''))))"
    by (simp add: demoExternal_def demoDto_def demo_rows demo_plain_cols scol)
  note e2 = failed_dispatch_aborts [where submittalId = "''sub-1''" and s = "demoWorld rt []"
      and submittal = "demoSubmittal rt []" and link = demoLink and userId = "''admin-1''"
      and m = "demoMember ''admin-1'' ''PROJECT_ADMIN'' False" and ms = "[]" and dto = demoDto
      and ext = demoExternal and rt = rt and e = "Error ''post refused''"
      and tok = "JStr ''token''" and pre = "[]" and p = "''a.pdf''" and rest = "[''b.pdf'']"
      and tr = "[]" and x = "Error ''post refused''" and buffer = JNull
      and now = 2000, THEN conjunct2, THEN mp]
  from e2 [OF conjI [OF f' conjI [OF l' conjI [OF m' conjI [OF demo_admins(2) conjI [OF v(1) conjI [OF v(2) conjI [OF v(3) F2]]]]]]]]
  obtain s2 where w2:
    "sendSubmittalResponseToAcc demoExternal rt 2000 ''sub-1'' ''admin-1'' demoDto
       (demoWorld rt []) = (Inl (Error ''post refused''), s2)"
    "submittals s2 = submittals (demoWorld rt [])"
    "map (\<lambda>r. (r ''action'', r ''userId'')) (auditLog s2) =
       [(JStr ''SEND_TO_ACC_FAILED'', JStr ''admin-1'')]"
    by (auto simp: demo_rows createRow_def applyData_def)
  have B2: "(let rt = demoPlainRuntime rt0; s = demoWorld rt [] in
        find (byId ''sub-1'') (submittals s) = Some (demoSubmittal rt []) \<and>
        linkOf (demoSubmittal rt [] ''projectId'') s = Some demoLink \<and>
        membershipsOf (demoSubmittal rt [] ''projectId'') ''admin-1'' s =
          [demoMember ''admin-1'' ''PROJECT_ADMIN'' False] \<and>
        postSubmittalResponse demoExternal
          [(''getValidToken'', [JNull]),
           (''updateSubmittalStatus'',
            [JStr ''acc-1'', JStr ''R-1'', JStr ''answered'', JStr ''token''])]
          (JStr ''acc-1'') (JStr ''R-1'') (JStr ''See markup'') (JStr ''token'') =
          Inl (Error ''post refused'') \<and>
        (\<exists>s'. sendSubmittalResponseToAcc demoExternal rt 2000 ''sub-1'' ''admin-1'' demoDto s =
                (Inl (Error ''post refused''), s') \<and>
              submittals s' = submittals s \<and>
              map (\<lambda>r. (r ''action'', r ''userId'')) (auditLog s') =
                [(JStr ''SEND_TO_ACC_FAILED'', JStr ''admin-1'')]))"
    unfolding Let_def rt_def [symmetric]
    by (intro conjI f' l' m' po) (rule exI [where x = s2], intro conjI w2)
  show "(let rt = demoPlainRuntime rt0; s = demoWorld rt [] in
        find (byId ''rfi-1'') (rfis s) = Some (demoRfi rt []) \<and>
        linkOf (demoRfi rt [] ''projectId'') s = Some demoLink \<and>
        membershipsOf (demoRfi rt [] ''projectId'') ''admin-1'' s =
          [demoMember ''admin-1'' ''PROJECT_ADMIN'' False] \<and>
        isAdmin (demoMember ''admin-1'' ''PROJECT_ADMIN'' False) \<and>
        responseStatus demoDto \<noteq> [] \<and> trim (responseText demoDto) \<noteq> [] \<and>
        selectedFilePaths demoDto = [''a.pdf''] @ ''b.pdf'' # [] \<and>
        uploadRFIAttachment demoExternal
          [(''getValidToken'', [JNull]),
           (''updateRFIStatus'', [JStr ''acc-1'', JStr ''R-1'', JStr ''answered'', JStr ''token'']),
           (''postRFIResponse'', [JStr ''acc-1'', JStr ''R-1'', JStr ''See markup'', JStr ''token'']),
           (''readFile'', [JStr ''a.pdf'']),
           (''uploadRFIAttachment'',
            [JStr ''acc-1'', JStr ''R-1'', JStr ''bytes'', JStr ''a.pdf'', JStr ''token'']),
           (''readFile'', [JStr ''b.pdf''])]
          (JStr ''acc-1'') (JStr ''R-1'') (JStr ''bytes'') (JStr ''b.pdf'') (JStr ''token'') =
          Inl (Error ''upload refused'') \<and>
        (\<exists>s'. sendRfiResponseToAcc demoExternal rt 2000 ''rfi-1'' ''admin-1'' demoDto s =
                (Inl (Error ''Failed to upload file: b.pdf''), s') \<and>
              rfis s' = rfis s \<and>
              map (\<lambda>r. (r ''action'', r ''userId'')) (auditLog s') =
                [(JStr ''SEND_TO_ACC_FAILED'', JStr ''admin-1'')])) \<and>
     (let rt = demoPlainRuntime rt0; s = demoWorld rt [] in
        find (byId ''sub-1'') (submittals s) = Some (demoSubmittal rt []) \<and>
        linkOf (demoSubmittal rt [] ''projectId'') s = Some demoLink \<and>
        membershipsOf (demoSubmittal rt [] ''projectId'') ''admin-1'' s =
          [demoMember ''admin-1'' ''PROJECT_ADMIN'' False] \<and>
        postSubmittalResponse demoExternal
          [(''getValidToken'', [JNull]),
           (''updateSubmittalStatus'',
            [JStr ''acc-1'', JStr ''R-1'', JStr ''answered'', JStr ''token''])]
          (JStr ''acc-1'') (JStr ''R-1'') (JStr ''See markup'') (JStr ''token'') =
          Inl (Error ''post refused'') \<and>
        (\<exists>s'. sendSubmittalResponseToAcc demoExternal rt 2000 ''sub-1'' ''admin-1'' demoDto s =
                (Inl (Error ''post refused''), s') \<and>
              submittals s' = submittals s \<and>
              map (\<lambda>r. (r ''action'', r ''userId'')) (auditLog s') =
                [(JStr ''SEND_TO_ACC_FAILED'', JStr ''admin-1'')]))"
    by (intro conjI B1 B2)
qed

section \<open>Properties of the state machine\<close>

lemma internalStatuses_not_inherited:
  "s \<in> set internalStatuses \<Longrightarrow> s \<notin> set objectPrototypeKeys"
  by (auto simp: internalStatuses_def transitions_def objectPrototypeKeys_def)

lemma roleAllows_viewer: "roleAllows allowed new ''VIEWER'' = False"
  by (simp add: roleAllows_def)

lemma roleAllows_reviewer:
  "new = ''SENT_TO_ACC'' \<or> new = ''CLOSED'' \<Longrightarrow> roleAllows allowed new ''REVIEWER'' = False"
  by (auto simp: roleAllows_def)

lemma roleAllows_nil: "roleAllows [] new role = False"
  by (simp add: roleAllows_def)

text \<open>
  The three denials hold at every current status whose name is not that of a member
  inherited from \<^verbatim>\<open>Object.prototype\<close>: the seven workflow statuses and every other
  unknown status.
\<close>

lemma canTransitionStatus_own_statuses:
  "currentStatus \<notin> set objectPrototypeKeys \<Longrightarrow>
   canTransitionStatus currentStatus newStatus ''VIEWER'' = Inr False \<and>
   (newStatus = ''SENT_TO_ACC'' \<or> newStatus = ''CLOSED'' \<longrightarrow>
      canTransitionStatus currentStatus newStatus ''REVIEWER'' = Inr False) \<and>
   canTransitionStatus ''CLOSED'' newStatus userRole = Inr False"
  by (auto simp: canTransitionStatus_def roleAllows_viewer roleAllows_reviewer roleAllows_nil
      transitions_def split: option.splits)

lemma canTransitionStatus_inherited:
  "currentStatus \<in> set objectPrototypeKeys \<Longrightarrow>
   canTransitionStatus currentStatus newStatus userRole = Inl TypeError"
  by (auto simp: canTransitionStatus_def transitions_def objectPrototypeKeys_def)

text \<open>
  C8, where the code departs from the claim. The current status is a string, read from a
  column that is written without validation, and \<^verbatim>\<open>transitions[currentStatus] || []\<close>
  falls back to the empty list only when the read gives undefined. At the current status
  \<^verbatim>\<open>constructor\<close> the read gives the inherited \<^verbatim>\<open>Object\<close> function, which is truthy and
  has no \<^verbatim>\<open>includes\<close>: the call throws a TypeError instead of returning false, for a
  viewer and for a reviewer asking for SENT_TO_ACC alike.
\<close>

theorem canTransitionStatus_throws:
  "canTransitionStatus ''constructor'' ''CLOSED'' ''VIEWER'' = Inl TypeError \<and>
   canTransitionStatus ''constructor'' ''SENT_TO_ACC'' ''REVIEWER'' = Inl TypeError \<and>
   canTransitionStatus ''constructor'' ''CLOSED'' ''VIEWER'' \<noteq> Inr False"
  by (simp add: canTransitionStatus_def transitions_def objectPrototypeKeys_def)

end
